theory Spec2Isabelle
  imports Complex_Main "HOL-Library.Sublist"
begin

section \<open>JavaScript values\<close>

text \<open>
  The dashboard script works on loosely typed rows. Its values are modelled as the
  primitive values of JavaScript. A number is an IEEE double in the source; here a finite
  number is an exact real, and \<open>NaN\<close>, \<open>+Infinity\<close> and \<open>-Infinity\<close> are
  separate values. Rounding and overflow of doubles are therefore outside the model, and
  there is one zero (the source never divides by a signed zero). Rows hold primitives only
  (they come from CSV files), so arrays and nested objects are not values here.
\<close>

datatype jsnum = NaN | PInf | NInf | Fin real

datatype jsval = Undefined | Null | Bool bool | Num jsnum | Str string

datatype error = TypeError

text \<open>A row object: its properties in insertion order. A missing property reads as
  \<open>undefined\<close>.\<close>

type_synonym row = "(string \<times> jsval) list"

definition get :: "row \<Rightarrow> string \<Rightarrow> jsval" where
  "get r k = (case map_of r k of None \<Rightarrow> Undefined | Some v \<Rightarrow> v)"

subsection \<open>Arithmetic on numbers\<close>

fun js_neg :: "jsnum \<Rightarrow> jsnum" where
  "js_neg NaN = NaN"
| "js_neg PInf = NInf"
| "js_neg NInf = PInf"
| "js_neg (Fin a) = Fin (- a)"

fun js_add :: "jsnum \<Rightarrow> jsnum \<Rightarrow> jsnum" where
  "js_add (Fin a) (Fin b) = Fin (a + b)"
| "js_add NaN _ = NaN"
| "js_add _ NaN = NaN"
| "js_add PInf NInf = NaN"
| "js_add NInf PInf = NaN"
| "js_add PInf _ = PInf"
| "js_add NInf _ = NInf"
| "js_add (Fin a) PInf = PInf"
| "js_add (Fin a) NInf = NInf"

definition js_sub :: "jsnum \<Rightarrow> jsnum \<Rightarrow> jsnum" where
  "js_sub a b = js_add a (js_neg b)"

text \<open>The sign of a number: \<open>Some True\<close> for positive, \<open>Some False\<close> for negative,
  \<open>None\<close> for zero and \<open>NaN\<close>.\<close>

fun js_sign :: "jsnum \<Rightarrow> bool option" where
  "js_sign NaN = None"
| "js_sign PInf = Some True"
| "js_sign NInf = Some False"
| "js_sign (Fin a) = (if a > 0 then Some True else if a < 0 then Some False else None)"

definition js_inf :: "bool \<Rightarrow> jsnum" where
  "js_inf positive = (if positive then PInf else NInf)"

fun js_mul :: "jsnum \<Rightarrow> jsnum \<Rightarrow> jsnum" where
  "js_mul (Fin a) (Fin b) = Fin (a * b)"
| "js_mul NaN _ = NaN"
| "js_mul _ NaN = NaN"
| "js_mul a b =
     (case (js_sign a, js_sign b) of
        (Some s, Some t) \<Rightarrow> js_inf (s = t)
      | _ \<Rightarrow> NaN)"

fun js_div :: "jsnum \<Rightarrow> jsnum \<Rightarrow> jsnum" where
  "js_div (Fin a) (Fin b) =
     (if b \<noteq> 0 then Fin (a / b)
      else if a > 0 then PInf else if a < 0 then NInf else NaN)"
| "js_div NaN _ = NaN"
| "js_div _ NaN = NaN"
| "js_div (Fin a) _ = Fin 0"
| "js_div a (Fin b) =
     (case js_sign a of
        Some s \<Rightarrow> js_inf (s = (b \<ge> 0))
      | None \<Rightarrow> NaN)"
| "js_div _ _ = NaN"

fun Math_abs :: "jsnum \<Rightarrow> jsnum" where
  "Math_abs NaN = NaN"
| "Math_abs PInf = PInf"
| "Math_abs NInf = PInf"
| "Math_abs (Fin a) = Fin \<bar>a\<bar>"

fun Math_floor :: "jsnum \<Rightarrow> jsnum" where
  "Math_floor (Fin a) = Fin (of_int \<lfloor>a\<rfloor>)"
| "Math_floor n = n"

text \<open>\<open>Math.round\<close> rounds to the nearest integer, a tie towards \<open>+Infinity\<close>.\<close>

fun Math_round :: "jsnum \<Rightarrow> jsnum" where
  "Math_round (Fin a) = Fin (of_int \<lfloor>a + 1 / 2\<rfloor>)"
| "Math_round n = n"

fun Math_max :: "jsnum \<Rightarrow> jsnum \<Rightarrow> jsnum" where
  "Math_max (Fin a) (Fin b) = Fin (max a b)"
| "Math_max NaN _ = NaN"
| "Math_max _ NaN = NaN"
| "Math_max PInf _ = PInf"
| "Math_max _ PInf = PInf"
| "Math_max NInf b = b"
| "Math_max a NInf = a"

fun Math_min :: "jsnum \<Rightarrow> jsnum \<Rightarrow> jsnum" where
  "Math_min (Fin a) (Fin b) = Fin (min a b)"
| "Math_min NaN _ = NaN"
| "Math_min _ NaN = NaN"
| "Math_min NInf _ = NInf"
| "Math_min _ NInf = NInf"
| "Math_min PInf b = b"
| "Math_min a PInf = a"

subsection \<open>Truthiness and the short-circuit operators\<close>

fun truthy :: "jsval \<Rightarrow> bool" where
  "truthy Undefined = False"
| "truthy Null = False"
| "truthy (Bool b) = b"
| "truthy (Num n) = (n \<noteq> NaN \<and> n \<noteq> Fin 0)"
| "truthy (Str s) = (s \<noteq> [])"

text \<open>\<open>a || b\<close> and \<open>a ?? b\<close> on values (the operands of the source have no effects).\<close>

definition js_or :: "jsval \<Rightarrow> jsval \<Rightarrow> jsval" where
  "js_or a b = (if truthy a then a else b)"

definition nullish :: "jsval \<Rightarrow> jsval \<Rightarrow> jsval" where
  "nullish a b = (if a = Null \<or> a = Undefined then b else a)"

section \<open>Strings\<close>

text \<open>
  A string is the list of the bytes of its UTF-8 encoding. The operations the script uses
  (substring search, removal of the letter K, digits, white space) see the same
  string either way, since an ASCII byte never occurs inside a longer character.
\<close>

subsection \<open>White space\<close>

text \<open>The white space and line terminators that \<open>trim\<close> and the number parsers skip:
  TAB, LF, VT, FF, CR and SPACE in one byte, U+00A0 in two, and U+1680, U+2000 to
  U+200A, U+2028, U+2029, U+202F, U+205F, U+3000 and U+FEFF in three.\<close>

definition isAsciiSpace :: "char \<Rightarrow> bool" where
  "isAsciiSpace c =
     (c = CHR 0x09 \<or> c = CHR 0x0A \<or> c = CHR 0x0B \<or> c = CHR 0x0C \<or> c = CHR 0x0D \<or>
      c = CHR 0x20)"

definition isSpace2 :: "char \<Rightarrow> char \<Rightarrow> bool" where
  "isSpace2 a b = (a = CHR 0xC2 \<and> b = CHR 0xA0)"

definition isSpace3 :: "char \<Rightarrow> char \<Rightarrow> char \<Rightarrow> bool" where
  "isSpace3 a b c =
     ((a = CHR 0xE1 \<and> b = CHR 0x9A \<and> c = CHR 0x80) \<or>
      (a = CHR 0xE2 \<and> b = CHR 0x80 \<and>
        (c = CHR 0x80 \<or> c = CHR 0x81 \<or> c = CHR 0x82 \<or> c = CHR 0x83 \<or> c = CHR 0x84 \<or>
         c = CHR 0x85 \<or> c = CHR 0x86 \<or> c = CHR 0x87 \<or> c = CHR 0x88 \<or> c = CHR 0x89 \<or>
         c = CHR 0x8A \<or> c = CHR 0xA8 \<or> c = CHR 0xA9 \<or> c = CHR 0xAF)) \<or>
      (a = CHR 0xE2 \<and> b = CHR 0x81 \<and> c = CHR 0x9F) \<or>
      (a = CHR 0xE3 \<and> b = CHR 0x80 \<and> c = CHR 0x80) \<or>
      (a = CHR 0xEF \<and> b = CHR 0xBB \<and> c = CHR 0xBF))"

fun trimStart :: "string \<Rightarrow> string" where
  "trimStart (a # b # c # s) =
     (if isAsciiSpace a then trimStart (b # c # s)
      else if isSpace2 a b then trimStart (c # s)
      else if isSpace3 a b c then trimStart s
      else a # b # c # s)"
| "trimStart [a, b] =
     (if isAsciiSpace a then trimStart [b] else if isSpace2 a b then [] else [a, b])"
| "trimStart [a] = (if isAsciiSpace a then [] else [a])"
| "trimStart [] = []"

text \<open>The same from the end, on the reversed string.\<close>

fun dropSpaceRev :: "string \<Rightarrow> string" where
  "dropSpaceRev (c # b # a # s) =
     (if isAsciiSpace c then dropSpaceRev (b # a # s)
      else if isSpace2 b c then dropSpaceRev (a # s)
      else if isSpace3 a b c then dropSpaceRev s
      else c # b # a # s)"
| "dropSpaceRev [c, b] =
     (if isAsciiSpace c then dropSpaceRev [b] else if isSpace2 b c then [] else [c, b])"
| "dropSpaceRev [c] = (if isAsciiSpace c then [] else [c])"
| "dropSpaceRev [] = []"

definition trimEnd :: "string \<Rightarrow> string" where
  "trimEnd s = rev (dropSpaceRev (rev s))"

definition trim :: "string \<Rightarrow> string" where
  "trim s = trimEnd (trimStart s)"

subsection \<open>Search and replacement\<close>

text \<open>\<open>s.includes(pat)\<close>: \<open>pat\<close> occurs in \<open>s\<close>, letter case as it is.\<close>

fun str_includes :: "string \<Rightarrow> string \<Rightarrow> bool" where
  "str_includes [] pat = (pat = [])"
| "str_includes (c # s) pat = (prefix pat (c # s) \<or> str_includes s pat)"

text \<open>\<open>s.replace(pat, rep)\<close> with a string pattern: the first occurrence only.\<close>

fun replace :: "string \<Rightarrow> string \<Rightarrow> string \<Rightarrow> string" where
  "replace pat rep [] = (if pat = [] then rep else [])"
| "replace pat rep (c # s) =
     (if prefix pat (c # s) then rep @ drop (length pat) (c # s)
      else c # replace pat rep s)"

subsection \<open>Digits\<close>

text \<open>The value of a digit or of a letter used as a digit (\<open>a\<close> is 10).\<close>

definition digitValue :: "char \<Rightarrow> nat option" where
  "digitValue c =
     (let n = (of_char c :: nat) in
      if 48 \<le> n \<and> n \<le> 57 then Some (n - 48)
      else if 65 \<le> n \<and> n \<le> 90 then Some (n - 55)
      else if 97 \<le> n \<and> n \<le> 122 then Some (n - 87)
      else None)"

definition isDigit :: "nat \<Rightarrow> char \<Rightarrow> bool" where
  "isDigit radix c = (case digitValue c of Some d \<Rightarrow> d < radix | None \<Rightarrow> False)"

definition digitsValue :: "nat \<Rightarrow> string \<Rightarrow> nat" where
  "digitsValue radix ds =
     foldl (\<lambda>acc c. acc * radix + (case digitValue c of Some d \<Rightarrow> d | None \<Rightarrow> 0)) 0 ds"

definition digitChar :: "nat \<Rightarrow> char" where
  "digitChar d =
     (if d = 0 then CHR ''0'' else if d = 1 then CHR ''1'' else if d = 2 then CHR ''2''
      else if d = 3 then CHR ''3'' else if d = 4 then CHR ''4'' else if d = 5 then CHR ''5''
      else if d = 6 then CHR ''6'' else if d = 7 then CHR ''7'' else if d = 8 then CHR ''8''
      else CHR ''9'')"

fun showNat :: "nat \<Rightarrow> string" where
  "showNat n = (if n < 10 then [digitChar n] else showNat (n div 10) @ [digitChar (n mod 10)])"

declare showNat.simps [simp del]

definition showInt :: "int \<Rightarrow> string" where
  "showInt i = (if i < 0 then CHR ''-'' # showNat (nat (- i)) else showNat (nat i))"

section \<open>Conversions between numbers and strings\<close>

subsection \<open>Reading a number\<close>

definition pow10 :: "int \<Rightarrow> real" where
  "pow10 e = (if e \<ge> 0 then 10 ^ nat e else 1 / 10 ^ nat (- e))"

text \<open>An exponent part \<open>e\<close> or \<open>E\<close>, an optional sign and at least one digit; it is
  read only when complete.\<close>

definition exponentPart :: "string \<Rightarrow> int \<times> string" where
  "exponentPart s =
     (case s of
        [] \<Rightarrow> (0, s)
      | e # t \<Rightarrow>
          if e = CHR ''e'' \<or> e = CHR ''E'' then
            (let neg = (t \<noteq> [] \<and> hd t = CHR ''-'');
                 u = (if t \<noteq> [] \<and> (hd t = CHR ''-'' \<or> hd t = CHR ''+'') then tl t else t);
                 ds = takeWhile (isDigit 10) u
             in if ds = [] then (0, s)
                else ((if neg then - int (digitsValue 10 ds) else int (digitsValue 10 ds)),
                      dropWhile (isDigit 10) u))
          else (0, s))"

text \<open>The longest prefix that is a decimal literal (\<open>StrDecimalLiteral\<close>): an optional
  sign, then \<open>Infinity\<close>, or digits with an optional fraction and exponent. The result is
  its value and the rest of the string.\<close>

definition unsignedDecimal :: "string \<Rightarrow> (jsnum \<times> string) option" where
  "unsignedDecimal s =
     (if prefix ''Infinity'' s then Some (PInf, drop 8 s)
      else
        let ip = takeWhile (isDigit 10) s;
            r1 = dropWhile (isDigit 10) s;
            dot = (r1 \<noteq> [] \<and> hd r1 = CHR ''.'' \<and>
                   (ip \<noteq> [] \<or> takeWhile (isDigit 10) (tl r1) \<noteq> []));
            fp = (if dot then takeWhile (isDigit 10) (tl r1) else []);
            r2 = (if dot then dropWhile (isDigit 10) (tl r1) else r1)
        in if ip = [] \<and> fp = [] then None
           else Some (Fin (real (digitsValue 10 (ip @ fp)) *
                           pow10 (fst (exponentPart r2) - int (length fp))),
                      snd (exponentPart r2)))"

definition decimalLiteral :: "string \<Rightarrow> (jsnum \<times> string) option" where
  "decimalLiteral s =
     (if s \<noteq> [] \<and> hd s = CHR ''-'' then
        (case unsignedDecimal (tl s) of
           None \<Rightarrow> None
         | Some (n, r) \<Rightarrow> Some (js_neg n, r))
      else if s \<noteq> [] \<and> hd s = CHR ''+'' then unsignedDecimal (tl s)
      else unsignedDecimal s)"

text \<open>\<open>parseFloat\<close> on a string: leading white space is skipped, the longest decimal
  literal is read and what follows it is ignored.\<close>

definition parseFloat_str :: "string \<Rightarrow> jsnum" where
  "parseFloat_str s =
     (case decimalLiteral (trimStart s) of None \<Rightarrow> NaN | Some (n, r) \<Rightarrow> n)"

text \<open>\<open>parseInt\<close> on a string, no radix given: white space, a sign, \<open>0x\<close> for base 16, and
  the longest run of digits.\<close>

definition parseInt_str :: "string \<Rightarrow> jsnum" where
  "parseInt_str s =
     (let t = trimStart s;
          neg = (t \<noteq> [] \<and> hd t = CHR ''-'');
          u = (if t \<noteq> [] \<and> (hd t = CHR ''-'' \<or> hd t = CHR ''+'') then tl t else t);
          hex = (prefix ''0x'' u \<or> prefix ''0X'' u);
          radix = (if hex then 16 else 10);
          ds = takeWhile (isDigit radix) (if hex then drop 2 u else u)
      in if ds = [] then NaN
         else Fin (if neg then - real (digitsValue radix ds) else real (digitsValue radix ds)))"

text \<open>\<open>Number(s)\<close> on a string (\<open>StringToNumber\<close>): the whole string, white space
  around it apart, must be a numeric literal; the empty string is 0.\<close>

definition radixPrefix :: "string \<Rightarrow> nat option" where
  "radixPrefix t =
     (if prefix ''0x'' t \<or> prefix ''0X'' t then Some 16
      else if prefix ''0o'' t \<or> prefix ''0O'' t then Some 8
      else if prefix ''0b'' t \<or> prefix ''0B'' t then Some 2
      else None)"

definition StringToNumber :: "string \<Rightarrow> jsnum" where
  "StringToNumber s =
     (let t = trim s in
      if t = [] then Fin 0
      else
        case radixPrefix t of
          Some radix \<Rightarrow>
            if drop 2 t \<noteq> [] \<and> list_all (isDigit radix) (drop 2 t)
            then Fin (real (digitsValue radix (drop 2 t))) else NaN
        | None \<Rightarrow>
            (case decimalLiteral t of
               Some (n, []) \<Rightarrow> n
             | _ \<Rightarrow> NaN))"

text \<open>\<open>Number(v)\<close> on any value.\<close>

fun Number :: "jsval \<Rightarrow> jsnum" where
  "Number Undefined = NaN"
| "Number Null = Fin 0"
| "Number (Bool b) = (if b then Fin 1 else Fin 0)"
| "Number (Num n) = n"
| "Number (Str s) = StringToNumber s"

text \<open>The global \<open>isNaN(v)\<close> converts first; \<open>Number.isNaN(v)\<close> does not.\<close>

definition isNaN :: "jsval \<Rightarrow> bool" where
  "isNaN v = (Number v = NaN)"

definition Number_isNaN :: "jsval \<Rightarrow> bool" where
  "Number_isNaN v = (v = Num NaN)"

definition typeof_number :: "jsval \<Rightarrow> bool" where
  "typeof_number v = (case v of Num n \<Rightarrow> True | _ \<Rightarrow> False)"

subsection \<open>The engine\<close>

text \<open>
  Two library functions are fixed by the language only in part, and the rest is a
  parameter of the model.
  \<^item> \<open>Number.prototype.toString\<close> prints an integer below \<open>10^21\<close> in magnitude as its
    decimal digits. For every other finite number it prints the shortest decimal that
    reads back as the same double, which an exact real does not determine:
    \<open>fractionToString\<close> stands for it.
  \<^item> \<open>Date.parse\<close> must accept the ISO date-time format, and may read any other
    string by heuristics of its own. The model computes the complete UTC form
    \<open>YYYY-MM-DDTHH:mm:ssZ\<close>; \<open>otherDateParse\<close> stands for the result on every other
    string (milliseconds, or nothing for \<open>NaN\<close>).
\<close>

record engine =
  fractionToString :: "real \<Rightarrow> string"
  otherDateParse :: "string \<Rightarrow> real option"

subsection \<open>Printing a number\<close>

definition numberToString :: "engine \<Rightarrow> jsnum \<Rightarrow> string" where
  "numberToString E n =
     (case n of
        NaN \<Rightarrow> ''NaN''
      | PInf \<Rightarrow> ''Infinity''
      | NInf \<Rightarrow> ''-Infinity''
      | Fin x \<Rightarrow>
          if x = of_int \<lfloor>x\<rfloor> \<and> \<bar>x\<bar> < 10 ^ 21 then showInt \<lfloor>x\<rfloor>
          else fractionToString E x)"

text \<open>\<open>String(v)\<close>, also what \<open>v.toString()\<close> returns on a boolean, number or string.\<close>

fun toString :: "engine \<Rightarrow> jsval \<Rightarrow> string" where
  "toString E Undefined = ''undefined''"
| "toString E Null = ''null''"
| "toString E (Bool b) = (if b then ''true'' else ''false'')"
| "toString E (Num n) = numberToString E n"
| "toString E (Str s) = s"

text \<open>\<open>parseFloat(v)\<close> and \<open>parseInt(v)\<close> convert their argument to a string first.\<close>

definition parseFloat :: "engine \<Rightarrow> jsval \<Rightarrow> jsnum" where
  "parseFloat E v = parseFloat_str (toString E v)"

definition parseInt :: "engine \<Rightarrow> jsval \<Rightarrow> jsnum" where
  "parseInt E v = parseInt_str (toString E v)"

subsection \<open>Reading a date\<close>

definition leapYear :: "nat \<Rightarrow> bool" where
  "leapYear y = (y mod 4 = 0 \<and> (y mod 100 \<noteq> 0 \<or> y mod 400 = 0))"

definition daysInMonth :: "nat \<Rightarrow> nat \<Rightarrow> nat" where
  "daysInMonth y m =
     (if m = 2 then (if leapYear y then 29 else 28)
      else if m = 4 \<or> m = 6 \<or> m = 9 \<or> m = 11 then 30 else 31)"

text \<open>Leap years before year \<open>y\<close>, up to a constant.\<close>

definition leapsBefore :: "int \<Rightarrow> int" where
  "leapsBefore y = (y - 1) div 4 - (y - 1) div 100 + (y - 1) div 400"

text \<open>Days of the year before month \<open>m\<close> (from 1 to 12).\<close>

definition daysBeforeMonth :: "nat \<Rightarrow> nat \<Rightarrow> nat" where
  "daysBeforeMonth y m =
     [0, 31, 59, 90, 120, 151, 181, 212, 243, 273, 304, 334] ! (m - 1) +
     (if leapYear y \<and> 2 < m then 1 else 0)"

text \<open>Days from 1970-01-01 to the given day.\<close>

definition daysFromEpoch :: "nat \<Rightarrow> nat \<Rightarrow> nat \<Rightarrow> int" where
  "daysFromEpoch y m d =
     365 * (int y - 1970) + (leapsBefore (int y) - leapsBefore 1970) +
     int (daysBeforeMonth y m) + (int d - 1)"

definition field :: "nat \<Rightarrow> nat \<Rightarrow> string \<Rightarrow> nat option" where
  "field pos len s =
     (if list_all (isDigit 10) (take len (drop pos s))
      then Some (digitsValue 10 (take len (drop pos s))) else None)"

definition isoUTC :: "string \<Rightarrow> real option" where
  "isoUTC s =
     (if length s = 20 \<and> s ! 4 = CHR ''-'' \<and> s ! 7 = CHR ''-'' \<and> s ! 10 = CHR ''T'' \<and>
         s ! 13 = CHR '':'' \<and> s ! 16 = CHR '':'' \<and> s ! 19 = CHR ''Z''
      then
        (case (field 0 4 s, field 5 2 s, field 8 2 s, field 11 2 s, field 14 2 s,
               field 17 2 s) of
           (Some y, Some mo, Some d, Some h, Some mi, Some se) \<Rightarrow>
             if 1 \<le> mo \<and> mo \<le> 12 \<and> 1 \<le> d \<and> d \<le> daysInMonth y mo \<and> h \<le> 23 \<and> mi \<le> 59 \<and>
                se \<le> 59
             then Some (of_int
                    ((((daysFromEpoch y mo d * 24 + int h) * 60 + int mi) * 60 + int se) *
                     1000))
             else None
         | _ \<Rightarrow> None)
      else None)"

text \<open>\<open>Date.parse(v)\<close>: the argument as a string, then milliseconds since the epoch,
  or \<open>NaN\<close>.\<close>

definition Date_parse :: "engine \<Rightarrow> jsval \<Rightarrow> jsnum" where
  "Date_parse E v =
     (case isoUTC (toString E v) of
        Some ms \<Rightarrow> Fin ms
      | None \<Rightarrow>
          (case otherDateParse E (toString E v) of Some ms \<Rightarrow> Fin ms | None \<Rightarrow> NaN))"

section \<open>The row normalizer\<close>

subsection \<open>\<open>normalizeTimestamp\<close>\<close>

text \<open>The function returns a number on every path. In its second branch the value is a
  number, so \<open>Number v\<close> is the value itself.\<close>

definition normalizeTimestamp :: "engine \<Rightarrow> jsval \<Rightarrow> jsnum" where
  "normalizeTimestamp E v =
     (if v = Null \<or> v = Undefined then Fin 0
      else if typeof_number v \<and> \<not> Number_isNaN v then Math_floor (Number v)
      else
        let numeric = Number v in
        if \<not> Number_isNaN (Num numeric) then Math_floor numeric
        else
          let parsed = Date_parse E v in
          if \<not> Number_isNaN (Num parsed) then Math_floor (js_div parsed (Fin 1000))
          else Fin 0)"

subsection \<open>\<open>normalizeData\<close>\<close>

text \<open>The arrow function mapped over the rows of the alerts file.\<close>

definition normalizeAlertRow :: "engine \<Rightarrow> row \<Rightarrow> row" where
  "normalizeAlertRow E r =
     (let tempStr =
            trim (replace ''K'' []
              (toString E (js_or (js_or (get r ''Temp'') (get r ''temperature'')) (Str []))));
          temp = (if truthy (Str tempStr) then Num (parseFloat E (Str tempStr)) else Null);
          vib = js_or (get r ''Vibration'') (get r ''vibration'')
      in [(''machine_id'', js_or (js_or (get r ''Machine'') (get r ''machine_id'')) Null),
          (''timestamp'', js_or (js_or (get r ''Time'') (get r ''timestamp'')) Null),
          (''temperature'', if temp \<noteq> Null \<and> \<not> isNaN temp then temp else Null),
          (''vibration'',
             if vib \<noteq> Null \<and> vib \<noteq> Undefined \<and> \<not> isNaN vib then Num (parseFloat E vib)
             else Null),
          (''Alert'', js_or (js_or (get r ''Alert'') (get r ''alert'')) (Str ''Unknown'')),
          (''alert_type'',
             js_or (js_or (get r ''Alert'') (get r ''alert_type'')) (Str ''Unknown''))])"

text \<open>The arrow function mapped over the rows of any other file (the sensor data).\<close>

definition normalizeSensorRow :: "engine \<Rightarrow> row \<Rightarrow> row" where
  "normalizeSensorRow E r =
     [(''machine_id'', js_or (Num (parseInt E (get r ''machine_id''))) (Num (Fin 0))),
      (''temperature'', js_or (Num (parseFloat E (get r ''temperature''))) (Num (Fin 0))),
      (''vibration'', js_or (Num (parseFloat E (get r ''vibration''))) (Num (Fin 0))),
      (''timestamp'', Num (normalizeTimestamp E (get r ''timestamp'')))]"

text \<open>\<open>data\<close> is an array here (\<open>loadCSV\<close> checks it), so \<open>!data\<close> is false.\<close>

definition normalizeData :: "engine \<Rightarrow> row list \<Rightarrow> string \<Rightarrow> row list" where
  "normalizeData E data filepath =
     (if length data = 0 then data
      else if str_includes filepath ''alerts'' then map (normalizeAlertRow E) data
      else map (normalizeSensorRow E) data)"

section \<open>The mock data generator\<close>

text \<open>\<open>Math.random()\<close> is a sequence of draws: draw number \<open>k\<close> of a run is \<open>rnd k\<close>, a
  finite number (between 0 and 1 in the source). The sums and products of the generator
  are on finite numbers, so they are written on reals.\<close>

type_synonym random = "nat \<Rightarrow> real"

text \<open>\<open>x.toFixed(f)\<close> on a finite number: the nearest decimal with \<open>f\<close> digits after the
  point, the larger one on a tie.\<close>

definition toFixed :: "engine \<Rightarrow> nat \<Rightarrow> real \<Rightarrow> string" where
  "toFixed E f x =
     (if \<bar>x\<bar> \<ge> 10 ^ 21 then numberToString E (Fin x)
      else
        let ds = showNat (nat \<lfloor>\<bar>x\<bar> * 10 ^ f + 1 / 2\<rfloor>);
            padded = replicate (Suc f - length ds) (CHR ''0'') @ ds;
            body = (if f = 0 then ds
                    else take (length padded - f) padded @ ''.'' @
                         drop (length padded - f) padded)
        in (if x < 0 then ''-'' else []) @ body)"

definition mockSensorRow :: "random \<Rightarrow> nat \<Rightarrow> nat \<Rightarrow> row" where
  "mockSensorRow rnd k i =
     [(''machine_id'', Num (Fin (of_int \<lfloor>rnd k * 100\<rfloor> + 1))),
      (''temperature'', Num (Fin (295 + rnd (k + 1) * 30))),
      (''vibration'', Num (Fin (1200 + rnd (k + 2) * 1000))),
      (''timestamp'', Num (Fin (real i)))]"

text \<open>The loop \<open>for (let i = 1; i <= 1000; i++) data.push(...)\<close>; \<open>k\<close> counts the draws
  made so far.\<close>

function sensorLoop :: "random \<Rightarrow> nat \<Rightarrow> nat \<Rightarrow> row list \<Rightarrow> row list" where
  "sensorLoop rnd k i data =
     (if i \<le> 1000 then sensorLoop rnd (k + 3) (i + 1) (data @ [mockSensorRow rnd k i])
      else data)"
  by pat_completeness auto
termination
  by (relation "measure (\<lambda>(rnd, k, i, data). 1001 - i)") auto

declare sensorLoop.simps [simp del]

definition alertNormal :: string where
  "alertNormal = [CHR 0xE2, CHR 0x9C, CHR 0x85] @ '' Normal Operation''"

definition alertHighTemperature :: string where
  "alertHighTemperature = [CHR 0xF0, CHR 0x9F, CHR 0x94, CHR 0xA5] @ '' CRITICAL: High Temperature''"

definition alertExcessiveVibration :: string where
  "alertExcessiveVibration =
     [CHR 0xF0, CHR 0x9F, CHR 0x94, CHR 0xA5] @ '' CRITICAL: Excessive Vibration''"

definition alertTemperatureSpike :: string where
  "alertTemperatureSpike =
     [CHR 0xE2, CHR 0x9A, CHR 0xA0, CHR 0xEF, CHR 0xB8, CHR 0x8F] @
     '' WARNING: Sudden Temperature Spike''"

text \<open>One mock alert row and the number of draws after it. The third draw is made only
  when neither threshold is passed.\<close>

definition mockAlertRow :: "engine \<Rightarrow> random \<Rightarrow> nat \<Rightarrow> nat \<Rightarrow> row \<times> nat" where
  "mockAlertRow E rnd k i =
     (let temp = 295 + rnd k * 30;
          vib = 1200 + rnd (k + 1) * 1000;
          alert = (if temp > 320 then alertHighTemperature
                   else if vib > 2000 then alertExcessiveVibration
                   else if rnd (k + 2) > 9 / 10 then alertTemperatureSpike
                   else alertNormal);
          k1 = (if temp > 320 \<or> vib > 2000 then k + 2 else k + 3)
      in ([(''Machine'', Num (Fin (of_int \<lfloor>rnd k1 * 100\<rfloor> + 1))),
           (''Time'', Num (Fin (real i))),
           (''Temp'', Str (toFixed E 1 temp @ ''K'')),
           (''Vibration'', Str (toFixed E 0 vib)),
           (''Avg_Temp'', Str (toFixed E 1 (temp - 2) @ ''K'')),
           (''Temp_Dev'', Str (numberToString E (Fin (rnd (k1 + 1) * 10)) @ ''K'')),
           (''Alert'', Str alert)],
          k1 + 2))"

function alertLoop :: "engine \<Rightarrow> random \<Rightarrow> nat \<Rightarrow> nat \<Rightarrow> row list \<Rightarrow> row list" where
  "alertLoop E rnd k i data =
     (if i \<le> 1000
      then alertLoop E rnd (snd (mockAlertRow E rnd k i)) (i + 1)
             (data @ [fst (mockAlertRow E rnd k i)])
      else data)"
  by pat_completeness auto
termination
  by (relation "measure (\<lambda>(E, rnd, k, i, data). 1001 - i)") auto

declare alertLoop.simps [simp del]

definition generateMockData :: "engine \<Rightarrow> random \<Rightarrow> string \<Rightarrow> row list" where
  "generateMockData E rnd filepath =
     (if str_includes filepath ''sensor_data'' then sensorLoop rnd 0 1 []
      else if str_includes filepath ''alerts'' then alertLoop E rnd 0 1 []
      else [])"

subsection \<open>\<open>loadCSV\<close>\<close>

text \<open>What the request of \<open>loadCSV\<close> can come back with: a failed or timed-out fetch (or a
  body that is not JSON), a status that is not 2xx, or a 2xx status whose body is
  \<open>null\<close>, an array of rows, or any other JSON value.\<close>

datatype response = FetchFailed | NotOk | OkNull | OkArray "row list" | OkOther

text \<open>The rows the promise resolves with; \<open>None\<close> when it never resolves (a \<open>null\<close>
  body returns without resolving). Mock data is passed on as generated.\<close>

definition loadCSV :: "engine \<Rightarrow> random \<Rightarrow> string \<Rightarrow> response \<Rightarrow> row list option" where
  "loadCSV E rnd filepath resp =
     (case resp of
        FetchFailed \<Rightarrow> Some (generateMockData E rnd filepath)
      | NotOk \<Rightarrow> Some (generateMockData E rnd filepath)
      | OkNull \<Rightarrow> None
      | OkArray data \<Rightarrow> Some (normalizeData E data filepath)
      | OkOther \<Rightarrow> Some (generateMockData E rnd filepath))"

section \<open>The statistics engine\<close>

record dashboard =
  machines :: nat
  readings :: nat
  critical :: nat
  warnings :: nat
  normal :: nat
  health :: jsnum
  alerts :: "row list"
  sensorData :: "row list"
  insights :: "row option"

text \<open>\<open>a.Alert && a.Alert.includes(token)\<close>: a label that is not a string and not falsy
  has no method \<open>includes\<close>, and the call throws.\<close>

definition alertHas :: "string \<Rightarrow> row \<Rightarrow> error + bool" where
  "alertHas token a =
     (if \<not> truthy (get a ''Alert'') then Inr False
      else case get a ''Alert'' of
             Str s \<Rightarrow> Inr (str_includes s token)
           | _ \<Rightarrow> Inl TypeError)"

text \<open>\<open>xs.filter(p)\<close> with a predicate that may throw.\<close>

fun filterE :: "('a \<Rightarrow> error + bool) \<Rightarrow> 'a list \<Rightarrow> error + 'a list" where
  "filterE p [] = Inr []"
| "filterE p (x # xs) =
     (case p x of
        Inl e \<Rightarrow> Inl e
      | Inr b \<Rightarrow>
          (case filterE p xs of
             Inl e \<Rightarrow> Inl e
           | Inr ys \<Rightarrow> Inr (if b then x # ys else ys)))"

text \<open>\<open>n || d\<close> on a count.\<close>

definition orElse :: "nat \<Rightarrow> nat \<Rightarrow> nat" where
  "orElse n d = (if n \<noteq> 0 then n else d)"

text \<open>\<open>calculateStatistics\<close> reads and updates the global \<open>dashboardData\<close>; here it takes
  the state and returns the new one. A \<open>Set\<close> holds each value once, so its size is the
  length of the list without duplicates.\<close>

definition calculateStatistics :: "dashboard \<Rightarrow> error + dashboard" where
  "calculateStatistics d =
     (let uniqueMachines = remdups (map (\<lambda>r. get r ''machine_id'') (sensorData d));
          d1 = d\<lparr>machines := orElse (length uniqueMachines) 100,
                 readings := orElse (length (sensorData d)) 10000\<rparr>
      in case filterE (alertHas ''CRITICAL'') (alerts d1) of
           Inl e \<Rightarrow> Inl e
         | Inr cs \<Rightarrow>
        (case filterE (alertHas ''WARNING'') (alerts d1) of
           Inl e \<Rightarrow> Inl e
         | Inr ws \<Rightarrow>
        (case filterE (alertHas ''Normal'') (alerts d1) of
           Inl e \<Rightarrow> Inl e
         | Inr ns \<Rightarrow>
             let d2 = d1\<lparr>critical := length cs, warnings := length ws, normal := length ns\<rparr>;
                 totalAnomalies = critical d2 + warnings d2;
                 anomalyRate =
                   js_mul (js_div (Fin (real totalAnomalies)) (Fin (real (readings d2))))
                     (Fin 100)
             in Inr (d2\<lparr>health := Math_max (Fin 0) (js_sub (Fin 100) anomalyRate)\<rparr>))))"

subsection \<open>\<open>loadDashboardData\<close>\<close>

text \<open>The global state as the script initializes it.\<close>

definition dashboardData :: dashboard where
  "dashboardData =
     \<lparr>machines = 0, readings = 0, critical = 0, warnings = 0, normal = 0, health = Fin 0,
      alerts = [], sensorData = [], insights = None\<rparr>"

text \<open>The data part of \<open>loadDashboardData\<close>: both files are loaded, stored, and the
  statistics computed. \<open>None\<close> when a load never resolves; an exception of
  \<open>calculateStatistics\<close> is caught by the caller and reported.\<close>

definition loadDashboardData ::
  "engine \<Rightarrow> random \<Rightarrow> random \<Rightarrow> response \<Rightarrow> response \<Rightarrow> dashboard \<Rightarrow> (error + dashboard) option"
where
  "loadDashboardData E rndS rndA respS respA d =
     (case (loadCSV E rndS ''sensor_data'' respS, loadCSV E rndA ''alerts'' respA) of
        (Some sd, Some al) \<Rightarrow> Some (calculateStatistics (d\<lparr>sensorData := sd, alerts := al\<rparr>))
      | _ \<Rightarrow> None)"

section \<open>The per-machine aggregator\<close>

datatype status = StatusCritical | StatusWarning | StatusNormal

record machine =
  ident :: jsval
  readingCount :: nat
  avgTemp :: jsnum
  avgVibration :: jsnum
  lastTemp :: jsval
  lastVibration :: jsval
  alertCount :: nat
  status :: status
  healthScore :: jsnum
  riskScore :: jsnum

text \<open>The fields \<open>id\<close>, \<open>readings\<close> and \<open>alerts\<close> of the source's machine object are
  \<open>ident\<close>, \<open>readingCount\<close> and \<open>alertCount\<close> here, apart from the dashboard's fields.\<close>

definition newMachine :: "jsval \<Rightarrow> machine" where
  "newMachine i =
     \<lparr>ident = i, readingCount = 0, avgTemp = Fin 0, avgVibration = Fin 0, lastTemp = Null,
      lastVibration = Null, alertCount = 0, status = StatusNormal, healthScore = Fin 0,
      riskScore = Fin 0\<rparr>"

text \<open>The body of \<open>machines.forEach(reading => ...)\<close>. The \<open>Map\<close> is a list of entries in
  insertion order, one for each key.\<close>

definition addReading :: "engine \<Rightarrow> (jsval \<times> machine) list \<Rightarrow> row \<Rightarrow> (jsval \<times> machine) list" where
  "addReading E machineMap reading =
     (let i = get reading ''machine_id'';
          machineMap1 = (if map_of machineMap i = None then machineMap @ [(i, newMachine i)]
                         else machineMap)
      in map (\<lambda>(k, m).
           if k = i then
             (k, m\<lparr>readingCount := readingCount m + 1,
                    avgTemp := js_add (avgTemp m) (parseFloat E (get reading ''temperature'')),
                    avgVibration :=
                      js_add (avgVibration m) (parseFloat E (get reading ''vibration'')),
                    lastTemp := Num (parseFloat E (get reading ''temperature'')),
                    lastVibration := Num (parseFloat E (get reading ''vibration''))\<rparr>)
           else (k, m)) machineMap1)"

text \<open>Loose equality \<open>a == b\<close> on primitive values.\<close>

definition looseEq :: "jsval \<Rightarrow> jsval \<Rightarrow> bool" where
  "looseEq a b =
     (if a = Null \<or> a = Undefined \<or> b = Null \<or> b = Undefined
      then (a = Null \<or> a = Undefined) \<and> (b = Null \<or> b = Undefined)
      else case (a, b) of
             (Str s, Str t) \<Rightarrow> s = t
           | _ \<Rightarrow> Number a = Number b \<and> Number a \<noteq> NaN)"

text \<open>\<open>(a.machine_id ?? a.Machine) == id\<close>, alone and followed by the label test.\<close>

definition alertOf :: "jsval \<Rightarrow> row \<Rightarrow> bool" where
  "alertOf i a = looseEq (nullish (get a ''machine_id'') (get a ''Machine'')) i"

definition alertOfHas :: "string \<Rightarrow> jsval \<Rightarrow> row \<Rightarrow> error + bool" where
  "alertOfHas token i a = (if \<not> alertOf i a then Inr False else alertHas token a)"

text \<open>The percentage \<open>avg ? Math.abs(last - avg) / avg * 100 : 0\<close>.\<close>

definition devPct :: "jsval \<Rightarrow> jsnum \<Rightarrow> jsnum" where
  "devPct lst avg =
     (if truthy (Num avg)
      then js_mul (js_div (Math_abs (js_sub (Number lst) avg)) avg) (Fin 100)
      else Fin 0)"

text \<open>The body of \<open>machineMap.forEach((machine, id) => ...)\<close>.\<close>

definition finishMachine :: "row list \<Rightarrow> jsval \<times> machine \<Rightarrow> error + jsval \<times> machine" where
  "finishMachine as e =
     (let i = fst e;
          m1 = (snd e)\<lparr>avgTemp := js_div (avgTemp (snd e)) (Fin (real (readingCount (snd e)))),
                        avgVibration :=
                          js_div (avgVibration (snd e)) (Fin (real (readingCount (snd e))))\<rparr>;
          m2 = m1\<lparr>alertCount := length (filter (alertOf i) as)\<rparr>
      in case filterE (alertOfHas ''CRITICAL'' i) as of
           Inl err \<Rightarrow> Inl err
         | Inr cs \<Rightarrow>
        (case filterE (alertOfHas ''WARNING'' i) as of
           Inl err \<Rightarrow> Inl err
         | Inr ws \<Rightarrow>
             let criticalAlerts = length cs;
                 warningAlerts = length ws;
                 m3 = m2\<lparr>status := (if criticalAlerts > 0 then StatusCritical
                                      else if warningAlerts > 0 then StatusWarning
                                      else StatusNormal)\<rparr>;
                 tempDevPct = devPct (lastTemp m3) (avgTemp m3);
                 vibDevPct = devPct (lastVibration m3) (avgVibration m3);
                 m4 = m3\<lparr>healthScore :=
                           Math_max (Fin 0) (js_sub (Fin 100) (js_add tempDevPct vibDevPct))\<rparr>
             in Inr (i, m4\<lparr>riskScore :=
                         Math_min (Fin 100)
                           (Math_round
                              (js_add
                                 (js_add (js_sub (Fin 100) (healthScore m4))
                                    (Fin (real (criticalAlerts * 5))))
                                 (Fin (real (warningAlerts * 2)))))\<rparr>)))"

fun mapE :: "('a \<Rightarrow> error + 'b) \<Rightarrow> 'a list \<Rightarrow> error + 'b list" where
  "mapE f [] = Inr []"
| "mapE f (x # xs) =
     (case f x of
        Inl e \<Rightarrow> Inl e
      | Inr y \<Rightarrow> (case mapE f xs of Inl e \<Rightarrow> Inl e | Inr ys \<Rightarrow> Inr (y # ys)))"

text \<open>The machine map of \<open>showMachinesPage\<close> after both passes, and the array of the first
  twenty machines that the page shows.\<close>

definition machineMap :: "engine \<Rightarrow> dashboard \<Rightarrow> error + (jsval \<times> machine) list" where
  "machineMap E d = mapE (finishMachine (alerts d)) (foldl (addReading E) [] (sensorData d))"

definition showMachinesPage :: "engine \<Rightarrow> dashboard \<Rightarrow> error + machine list" where
  "showMachinesPage E d =
     (case machineMap E d of Inl e \<Rightarrow> Inl e | Inr mm \<Rightarrow> Inr (take 20 (map snd mm)))"

section \<open>The alert report table\<close>

text \<open>The first two cells of a row of \<open>updateReportTable\<close>, the template texts
  \<open>${alert.machine_id || 'N/A'}\<close> and \<open>${alert.timestamp || 'N/A'}\<close>. They read the
  normalized names only.\<close>

definition reportMachineCell :: "engine \<Rightarrow> row \<Rightarrow> string" where
  "reportMachineCell E alert = toString E (js_or (get alert ''machine_id'') (Str ''N/A''))"

definition reportTimeCell :: "engine \<Rightarrow> row \<Rightarrow> string" where
  "reportTimeCell E alert = toString E (js_or (get alert ''timestamp'') (Str ''N/A''))"

section \<open>An engine for the examples\<close>

text \<open>It prints a number with the digits of its decimal expansion, which is finite for
  every number that \<open>parseFloat\<close> returns and for every double: in positional notation
  below \<open>10^21\<close>, and from \<open>10^21\<close> on with an exponent, as \<open>1e+21\<close> and
  \<open>1.5e+21\<close>. It reads no date outside the ISO form.\<close>

text \<open>The digits after the point, as far as \<open>n\<close> digits, and all of them; the latter
  does not return when the expansion has no end.\<close>

fun fractionDigits :: "nat \<Rightarrow> real \<Rightarrow> string" where
  "fractionDigits 0 f = []"
| "fractionDigits (Suc n) f =
     (if f = 0 then []
      else digitChar (nat \<lfloor>f * 10\<rfloor>) # fractionDigits n (f * 10 - of_int \<lfloor>f * 10\<rfloor>))"

partial_function (option) decimalDigits :: "real \<Rightarrow> string option" where
  "decimalDigits f =
     (if f = 0 then Some []
      else Option.bind (decimalDigits (f * 10 - of_int \<lfloor>f * 10\<rfloor>))
             (\<lambda>ds. Some (digitChar (nat \<lfloor>f * 10\<rfloor>) # ds)))"

text \<open>An expansion that has no end is cut after 17 digits.\<close>

definition allDigits :: "real \<Rightarrow> string" where
  "allDigits f = (case decimalDigits f of Some ds \<Rightarrow> ds | None \<Rightarrow> fractionDigits 17 f)"

definition stripZeros :: "string \<Rightarrow> string" where
  "stripZeros s = rev (dropWhile (\<lambda>c. c = CHR ''0'') (rev s))"

definition printNumber :: "real \<Rightarrow> string" where
  "printNumber x =
     (let ip = showNat (nat \<lfloor>\<bar>x\<bar>\<rfloor>);
          fd = allDigits (\<bar>x\<bar> - of_int \<lfloor>\<bar>x\<bar>\<rfloor>);
          ds = stripZeros (tl ip @ fd)
      in (if x < 0 then ''-'' else []) @
         (if \<bar>x\<bar> < 10 ^ 21 then ip @ ''.'' @ fd
          else hd ip # (if ds = [] then [] else ''.'' @ ds) @ ''e+'' @
               showNat (length ip - 1)))"

definition sampleEngine :: engine where
  "sampleEngine = \<lparr>fractionToString = printNumber, otherDateParse = (\<lambda>s. None)\<rparr>"

text \<open>An engine that is not faithful: it prints a fraction as its integer part.\<close>

definition bluntEngine :: engine where
  "bluntEngine =
     \<lparr>fractionToString = (\<lambda>x. showInt \<lfloor>x\<rfloor>), otherDateParse = (\<lambda>s. None)\<rparr>"

section \<open>The specification's wording\<close>

text \<open>The definitions of this section follow the words of the specification, not the
  code; the properties below compare the code with them.\<close>

text \<open>The timestamp fallback as the specification words it: null or undefined gives 0; a
  finite number is floored; a string that parses as a finite number is floored; a value
  that parses as a date gives the whole seconds of its epoch milliseconds; anything else
  gives 0.\<close>

definition normalizeTimestamp_spec :: "engine \<Rightarrow> jsval \<Rightarrow> jsnum" where
  "normalizeTimestamp_spec E v =
     (if v = Null \<or> v = Undefined then Fin 0
      else
        case v of
          Num (Fin x) \<Rightarrow> Fin (of_int \<lfloor>x\<rfloor>)
        | _ \<Rightarrow>
            (case (case v of Str s \<Rightarrow> StringToNumber s | _ \<Rightarrow> NaN) of
               Fin x \<Rightarrow> Fin (of_int \<lfloor>x\<rfloor>)
             | _ \<Rightarrow>
                 (case Date_parse E v of
                    Fin ms \<Rightarrow> Fin (of_int \<lfloor>ms / 1000\<rfloor>)
                  | _ \<Rightarrow> Fin 0)))"

text \<open>A finite number, which the data model asks every field of a reading to be.\<close>

definition finiteNumber :: "jsval \<Rightarrow> bool" where
  "finiteNumber v = (case v of Num (Fin x) \<Rightarrow> True | _ \<Rightarrow> False)"

text \<open>The alert temperature as the specification words it: the raw field (the header-style
  name first) as a string, without a trailing \<open>K\<close> and the white space around it, parsed
  as a float; null when the field is empty or not numeric.\<close>

definition stripTrailingK :: "string \<Rightarrow> string" where
  "stripTrailingK s =
     (let t = trim s in if t \<noteq> [] \<and> last t = CHR ''K'' then trim (butlast t) else t)"

definition alertTemperature_spec :: "engine \<Rightarrow> row \<Rightarrow> jsval" where
  "alertTemperature_spec E r =
     (let raw = (if get r ''Temp'' \<noteq> Undefined then get r ''Temp'' else get r ''temperature'');
          s = (if raw = Undefined \<or> raw = Null then [] else stripTrailingK (toString E raw))
      in if s = [] \<or> parseFloat_str s = NaN then Null else Num (parseFloat_str s))"

text \<open>The field types of a normalized alert in the data model: temperature and vibration
  are each a number or null, and the label is not empty.\<close>

definition floatOrNull :: "jsval \<Rightarrow> bool" where
  "floatOrNull v = (case v of Null \<Rightarrow> True | Num n \<Rightarrow> True | _ \<Rightarrow> False)"

definition normalizedAlertShape :: "row \<Rightarrow> bool" where
  "normalizedAlertShape r =
     (floatOrNull (get r ''temperature'') \<and> floatOrNull (get r ''vibration'') \<and>
      truthy (get r ''Alert''))"

text \<open>An integer, which the data model asks the machine and the time of a reading to be.\<close>

definition wholeNumber :: "jsval \<Rightarrow> bool" where
  "wholeNumber v = (case v of Num (Fin x) \<Rightarrow> x = of_int \<lfloor>x\<rfloor> | _ \<Rightarrow> False)"

text \<open>The field types of a normalized sensor reading: an integer machine, a finite
  temperature and vibration, and an integer time.\<close>

definition normalizedSensorShape :: "row \<Rightarrow> bool" where
  "normalizedSensorShape r =
     (wholeNumber (get r ''machine_id'') \<and> finiteNumber (get r ''temperature'') \<and>
      finiteNumber (get r ''vibration'') \<and> wholeNumber (get r ''timestamp''))"

section \<open>Notions for the properties\<close>

text \<open>A number other than \<open>NaN\<close>.\<close>

definition properNumber :: "jsval \<Rightarrow> bool" where
  "properNumber v = (case v of Num n \<Rightarrow> n \<noteq> NaN | _ \<Rightarrow> False)"

text \<open>The string that the alert normalizer parses as the temperature (\<open>tempStr\<close> in the
  source): the first truthy one of \<open>row.Temp\<close> and \<open>row.temperature\<close>, else the empty
  string, printed, without its first \<open>K\<close>, trimmed.\<close>

definition tempStrOf :: "engine \<Rightarrow> row \<Rightarrow> string" where
  "tempStrOf E r =
     trim (replace ''K'' []
       (toString E (js_or (js_or (get r ''Temp'') (get r ''temperature'')) (Str []))))"

text \<open>The label tests of the statistics, as predicates that cannot throw: a label that is a
  string or falsy (every label \<open>includes\<close> can be asked of), and a non-empty string label
  that contains the token.\<close>

definition labelled :: "row \<Rightarrow> bool" where
  "labelled a = (case get a ''Alert'' of Str s \<Rightarrow> True | v \<Rightarrow> \<not> truthy v)"

definition hasToken :: "string \<Rightarrow> row \<Rightarrow> bool" where
  "hasToken token a =
     (case get a ''Alert'' of Str s \<Rightarrow> s \<noteq> [] \<and> str_includes s token | v \<Rightarrow> False)"

text \<open>The health formula of \<open>calculateStatistics\<close> on its three counts.\<close>

definition healthOf :: "nat \<Rightarrow> nat \<Rightarrow> nat \<Rightarrow> jsnum" where
  "healthOf c w r =
     Math_max (Fin 0)
       (js_sub (Fin 100) (js_mul (js_div (Fin (real (c + w))) (Fin (real r))) (Fin 100)))"

text \<open>The rows of the specification's end-to-end example: one alert and one reading of
  machine 1.\<close>

definition exampleAlerts :: "row list" where
  "exampleAlerts =
     [[(''Machine'', Num (Fin 1)), (''Time'', Num (Fin 5)), (''Temp'', Str ''330.0K''),
       (''Vibration'', Str ''2100''), (''Alert'', Str alertHighTemperature)]]"

definition exampleReadings :: "row list" where
  "exampleReadings =
     [[(''machine_id'', Num (Fin 1)), (''temperature'', Num (Fin 330)),
       (''vibration'', Num (Fin 2100)), (''timestamp'', Num (Fin 5))]]"

text \<open>The alerts of machine \<open>i\<close> whose label contains the token, as a predicate that cannot
  throw.\<close>

definition alertOfWith :: "string \<Rightarrow> jsval \<Rightarrow> row \<Rightarrow> bool" where
  "alertOfWith token i a = (alertOf i a \<and> hasToken token a)"

text \<open>The risk formula of the aggregator on a health score and the two counts.\<close>

definition riskOf :: "jsnum \<Rightarrow> nat \<Rightarrow> nat \<Rightarrow> jsnum" where
  "riskOf h c w =
     Math_min (Fin 100)
       (Math_round
          (js_add (js_add (js_sub (Fin 100) h) (Fin (real (c * 5)))) (Fin (real (w * 2)))))"

text \<open>The names of the fields of a row, in order.\<close>

definition fieldNames :: "row \<Rightarrow> string list" where
  "fieldNames r = map fst r"

text \<open>The four labels of the mock alerts.\<close>

definition mockLabels :: "string list" where
  "mockLabels =
     [alertHighTemperature, alertExcessiveVibration, alertTemperatureSpike, alertNormal]"

text \<open>A run of \<open>Math.random()\<close> whose every draw is 0.\<close>

definition zeroDraws :: random where
  "zeroDraws k = 0"

text \<open>The shape of a mock alert: the header-style fields of the raw alerts file, with the
  temperature a text that ends in \<open>K\<close>.\<close>

definition rawAlertShape :: "row \<Rightarrow> bool" where
  "rawAlertShape r =
     (fieldNames r =
        [''Machine'', ''Time'', ''Temp'', ''Vibration'', ''Avg_Temp'', ''Temp_Dev'', ''Alert''] \<and>
      finiteNumber (get r ''Machine'') \<and> finiteNumber (get r ''Time'') \<and>
      (case get r ''Temp'' of Str s \<Rightarrow> s \<noteq> [] \<and> last s = CHR ''K'' | v \<Rightarrow> False) \<and>
      (case get r ''Vibration'' of Str s \<Rightarrow> True | v \<Rightarrow> False) \<and>
      (case get r ''Alert'' of Str s \<Rightarrow> s \<in> set mockLabels | v \<Rightarrow> False))"

text \<open>When a second normalization leaves a row alone. A number reads back when
  \<open>parseFloat\<close> of its printed form is the number again, also after the removal of a \<open>K\<close>
  and trimming. A plain value is a finite integer below \<open>10^21\<close> in magnitude, or any
  value that is not a finite number: it is printed without the engine.\<close>

definition readsBack :: "engine \<Rightarrow> jsval \<Rightarrow> bool" where
  "readsBack E v = (case v of Num n \<Rightarrow> parseFloat E v = n | _ \<Rightarrow> True)"

definition readsBackStripped :: "engine \<Rightarrow> jsval \<Rightarrow> bool" where
  "readsBackStripped E v =
     (case v of
        Num n \<Rightarrow> parseFloat_str (trim (replace ''K'' [] (toString E v))) = n
      | _ \<Rightarrow> True)"

definition plainNumber :: "jsval \<Rightarrow> bool" where
  "plainNumber v =
     (case v of Num (Fin x) \<Rightarrow> x = of_int \<lfloor>x\<rfloor> \<and> \<bar>x\<bar> < 10 ^ 21 | _ \<Rightarrow> True)"

text \<open>A number with a finite decimal expansion, as every number that \<open>parseFloat\<close>
  returns and every double is. An engine is faithful when each of them reads back from
  its printed form: \<open>parseFloat(String(x)) = x\<close>, which the language guarantees of
  \<open>Number.prototype.toString\<close>.\<close>

definition decimal :: "real \<Rightarrow> bool" where
  "decimal x = (\<exists>(m :: int) (k :: nat). x * 10 ^ k = of_int m)"

definition faithful :: "engine \<Rightarrow> bool" where
  "faithful E =
     (\<forall>x. decimal x \<longrightarrow> readsBack E (Num (Fin x)) \<and> readsBackStripped E (Num (Fin x)))"

text \<open>The rows that a second normalization leaves alone on a faithful engine: a reading
  whose normalized machine is below \<open>10^21\<close> in magnitude, and an alert whose normalized
  temperature is not 0, whose normalized vibration is not \<open>NaN\<close> and whose two labels
  agree.\<close>

definition sensorStable :: "engine \<Rightarrow> row \<Rightarrow> bool" where
  "sensorStable E r = plainNumber (get (normalizeSensorRow E r) ''machine_id'')"

definition alertStable :: "engine \<Rightarrow> row \<Rightarrow> bool" where
  "alertStable E r =
     (get (normalizeAlertRow E r) ''temperature'' \<noteq> Num (Fin 0) \<and>
      get (normalizeAlertRow E r) ''vibration'' \<noteq> Num NaN \<and>
      get (normalizeAlertRow E r) ''alert_type'' = get (normalizeAlertRow E r) ''Alert'')"

text \<open>Example rows with fractions and with a number above \<open>10^21\<close>.\<close>

definition fractionReadings :: "row list" where
  "fractionReadings =
     [[(''machine_id'', Str ''7''), (''temperature'', Str ''330.5''),
       (''vibration'', Str ''2100.25''), (''timestamp'', Str ''2023-11-14T00:00:00Z'')],
      [(''machine_id'', Num (Fin 8)), (''temperature'', Num (Fin (- (5 / 2)))),
       (''vibration'', Str ''1e30''), (''timestamp'', Num (Fin 6))]]"

definition fractionAlerts :: "row list" where
  "fractionAlerts =
     [[(''Machine'', Num (Fin 1)), (''Time'', Num (Fin 5)), (''Temp'', Str ''330.5K''),
       (''Vibration'', Str ''2100.25''), (''Alert'', Str alertHighTemperature)],
      [(''Machine'', Num (Fin 2)), (''Time'', Num (Fin 6)), (''Temp'', Str ''0.125K''),
       (''Vibration'', Num (Fin (3 / 4))), (''Alert'', Str alertNormal)]]"

text \<open>The readings of machine \<open>i\<close> in the order of the data, and the sum of one field of
  a list of readings, added up from 0 in that order as the first pass does.\<close>

definition readingsOf :: "jsval \<Rightarrow> row list \<Rightarrow> row list" where
  "readingsOf i rs = filter (\<lambda>r. get r ''machine_id'' = i) rs"

definition sumOf :: "engine \<Rightarrow> string \<Rightarrow> row list \<Rightarrow> jsnum" where
  "sumOf E name rs = foldl js_add (Fin 0) (map (\<lambda>r. parseFloat E (get r name)) rs)"

text \<open>What the first pass does to the entry of the reading's machine, and the entry of
  machine \<open>i\<close> after the readings \<open>rows\<close>.\<close>

definition stepMachine :: "engine \<Rightarrow> machine \<Rightarrow> row \<Rightarrow> machine" where
  "stepMachine E m reading =
     m\<lparr>readingCount := readingCount m + 1,
       avgTemp := js_add (avgTemp m) (parseFloat E (get reading ''temperature'')),
       avgVibration := js_add (avgVibration m) (parseFloat E (get reading ''vibration'')),
       lastTemp := Num (parseFloat E (get reading ''temperature'')),
       lastVibration := Num (parseFloat E (get reading ''vibration''))\<rparr>"

definition entryOf :: "engine \<Rightarrow> jsval \<Rightarrow> row list \<Rightarrow> machine" where
  "entryOf E i rows = foldl (stepMachine E) (newMachine i) rows"

text \<open>Example data for the aggregator: nine readings of four machines, interleaved, and
  five normalized alerts. Machine 1 deviates by 25 and 50 percent and has a critical and
  a warning alert; machine 2 deviates by 1.6 percent and has a warning and a normal
  alert; machine 3 deviates by 300 percent and has a critical alert; machine 4 reads 0.\<close>

definition aggregatorReadings :: "row list" where
  "aggregatorReadings =
     [[(''machine_id'', Num (Fin 1)), (''temperature'', Num (Fin 192)),
       (''vibration'', Num (Fin 1000)), (''timestamp'', Num (Fin 1))],
      [(''machine_id'', Num (Fin 2)), (''temperature'', Num (Fin 300)),
       (''vibration'', Num (Fin 1500)), (''timestamp'', Num (Fin 2))],
      [(''machine_id'', Num (Fin 3)), (''temperature'', Num (Fin 300)),
       (''vibration'', Num (Fin 0)), (''timestamp'', Num (Fin 3))],
      [(''machine_id'', Num (Fin 3)), (''temperature'', Num (Fin 300)),
       (''vibration'', Num (Fin 0)), (''timestamp'', Num (Fin 4))],
      [(''machine_id'', Num (Fin 1)), (''temperature'', Num (Fin 320)),
       (''vibration'', Num (Fin 3000)), (''timestamp'', Num (Fin 5))],
      [(''machine_id'', Num (Fin 3)), (''temperature'', Num (Fin 300)),
       (''vibration'', Num (Fin 0)), (''timestamp'', Num (Fin 6))],
      [(''machine_id'', Num (Fin 2)), (''temperature'', Num (Fin 310)),
       (''vibration'', Num (Fin 1500)), (''timestamp'', Num (Fin 7))],
      [(''machine_id'', Num (Fin 3)), (''temperature'', Num (Fin 300)),
       (''vibration'', Num (Fin 4000)), (''timestamp'', Num (Fin 8))],
      [(''machine_id'', Num (Fin 4)), (''temperature'', Num (Fin 0)),
       (''vibration'', Num (Fin 0)), (''timestamp'', Num (Fin 9))]]"

definition alertRow :: "real \<Rightarrow> string \<Rightarrow> row" where
  "alertRow i label =
     [(''machine_id'', Num (Fin i)), (''timestamp'', Num (Fin 5)),
      (''temperature'', Num (Fin 330)), (''vibration'', Num (Fin 2100)),
      (''Alert'', Str label), (''alert_type'', Str label)]"

definition aggregatorAlerts :: "row list" where
  "aggregatorAlerts =
     [alertRow 1 alertHighTemperature, alertRow 2 alertTemperatureSpike,
      alertRow 1 alertTemperatureSpike, alertRow 3 alertExcessiveVibration,
      alertRow 2 alertNormal]"

definition aggregatorExample :: dashboard where
  "aggregatorExample =
     dashboardData\<lparr>sensorData := aggregatorReadings, alerts := aggregatorAlerts\<rparr>"

text \<open>The machines of that example after both passes.\<close>

definition aggregatorMachines :: "(jsval \<times> machine) list" where
  "aggregatorMachines =
     [(Num (Fin 1),
       \<lparr>ident = Num (Fin 1), readingCount = 2, avgTemp = Fin 256, avgVibration = Fin 2000,
        lastTemp = Num (Fin 320), lastVibration = Num (Fin 3000), alertCount = 2,
        status = StatusCritical, healthScore = Fin 25, riskScore = Fin 82\<rparr>),
      (Num (Fin 2),
       \<lparr>ident = Num (Fin 2), readingCount = 2, avgTemp = Fin 305, avgVibration = Fin 1500,
        lastTemp = Num (Fin 310), lastVibration = Num (Fin 1500), alertCount = 2,
        status = StatusWarning, healthScore = Fin (6000 / 61), riskScore = Fin 4\<rparr>),
      (Num (Fin 3),
       \<lparr>ident = Num (Fin 3), readingCount = 4, avgTemp = Fin 300, avgVibration = Fin 1000,
        lastTemp = Num (Fin 300), lastVibration = Num (Fin 4000), alertCount = 1,
        status = StatusCritical, healthScore = Fin 0, riskScore = Fin 100\<rparr>),
      (Num (Fin 4),
       \<lparr>ident = Num (Fin 4), readingCount = 1, avgTemp = Fin 0, avgVibration = Fin 0,
        lastTemp = Num (Fin 0), lastVibration = Num (Fin 0), alertCount = 0,
        status = StatusNormal, healthScore = Fin 100, riskScore = Fin 0\<rparr>)]"

text \<open>The reading of the end-to-end example under fifty critical alerts of its machine,
  and that machine after both passes.\<close>

definition fiftyAlertsExample :: dashboard where
  "fiftyAlertsExample =
     dashboardData\<lparr>sensorData := exampleReadings,
       alerts := replicate 50 (alertRow 1 alertHighTemperature)\<rparr>"

definition fiftyAlertsMachine :: machine where
  "fiftyAlertsMachine =
     \<lparr>ident = Num (Fin 1), readingCount = 1, avgTemp = Fin 330, avgVibration = Fin 2100,
      lastTemp = Num (Fin 330), lastVibration = Num (Fin 2100), alertCount = 50,
      status = StatusCritical, healthScore = Fin 100, riskScore = Fin 100\<rparr>"

section \<open>Verified properties\<close>

subsection \<open>Evaluation\<close>

text \<open>The definitions that the simplifier unfolds to run the model on a concrete input.\<close>

lemmas string_defs = trim_def trimEnd_def isAsciiSpace_def isSpace2_def isSpace3_def
  digitsValue_def digitValue_def isDigit_def digitChar_def showInt_def showNat.simps

lemmas number_defs = parseFloat_def parseInt_def parseFloat_str_def parseInt_str_def
  decimalLiteral_def unsignedDecimal_def exponentPart_def pow10_def StringToNumber_def
  radixPrefix_def numberToString_def isNaN_def Number_isNaN_def typeof_number_def Let_def

lemmas date_defs = Date_parse_def isoUTC_def field_def daysFromEpoch_def daysBeforeMonth_def
  leapsBefore_def daysInMonth_def leapYear_def

subsection \<open>The timestamp fallback\<close>

lemma Date_parse_cases: "Date_parse E v = NaN \<or> (\<exists>ms. Date_parse E v = Fin ms)"
  by (simp add: Date_parse_def split: option.splits)

lemma normalizeTimestamp_eq:
  "normalizeTimestamp E v =
     (if v = Null \<or> v = Undefined then Fin 0
      else if Number v \<noteq> NaN then Math_floor (Number v)
      else if Date_parse E v \<noteq> NaN then Math_floor (js_div (Date_parse E v) (Fin 1000))
      else Fin 0)"
  by (cases v) (simp_all add: normalizeTimestamp_def typeof_number_def Number_isNaN_def Let_def)

lemma normalizeTimestamp_agrees:
  assumes "\<forall>b. v \<noteq> Bool b" "Number v \<noteq> PInf" "Number v \<noteq> NInf"
  shows "normalizeTimestamp E v = normalizeTimestamp_spec E v"
proof (cases v)
  case (Num n)
  with assms show ?thesis
    using Date_parse_cases [of E v]
    by (cases n) (auto simp: normalizeTimestamp_eq normalizeTimestamp_spec_def)
next
  case (Str s)
  with assms show ?thesis
    using Date_parse_cases [of E v]
    by (cases "StringToNumber s") (auto simp: normalizeTimestamp_eq normalizeTimestamp_spec_def)
qed (use assms in \<open>auto simp: normalizeTimestamp_eq normalizeTimestamp_spec_def\<close>)

lemma normalizeTimestamp_numeric_string:
  "normalizeTimestamp E (Str ''1700000000'') = Fin 1700000000"
  by (simp add: normalizeTimestamp_eq number_defs string_defs)

lemma normalizeTimestamp_iso_string:
  "normalizeTimestamp E (Str ''2023-11-14T00:00:00Z'') = Fin 1699920000"
  by (simp add: normalizeTimestamp_eq number_defs string_defs date_defs)

lemma normalizeTimestamp_not_a_date:
  "otherDateParse E ''not-a-date'' = None \<Longrightarrow> normalizeTimestamp E (Str ''not-a-date'') = Fin 0"
  by (simp add: normalizeTimestamp_eq number_defs string_defs date_defs)

text \<open>
  Claim C1, as the code has it. \<open>normalizeTimestamp\<close> is an ordered fallback: null and
  undefined give 0; otherwise, if \<open>Number(v)\<close> is not \<open>NaN\<close> the result is its floor
  (this takes every number but \<open>NaN\<close>, infinite ones included, every numeric string and
  the booleans); otherwise, if \<open>Date.parse(v)\<close> is not \<open>NaN\<close> the result is the floor of
  its thousandth; otherwise 0. The result is the one the specification's wording gives
  for every value that is not a boolean and whose numeric value is not infinite. The five
  examples of the specification hold, the last one on an engine whose \<open>Date.parse\<close>
  rejects the string.
\<close>

theorem normalizeTimestamp_fallback:
  "normalizeTimestamp E v =
     (if v = Null \<or> v = Undefined then Fin 0
      else if Number v \<noteq> NaN then Math_floor (Number v)
      else if Date_parse E v \<noteq> NaN then Math_floor (js_div (Date_parse E v) (Fin 1000))
      else Fin 0) \<and>
   ((\<forall>b. v \<noteq> Bool b) \<and> Number v \<noteq> PInf \<and> Number v \<noteq> NInf \<longrightarrow>
      normalizeTimestamp E v = normalizeTimestamp_spec E v) \<and>
   normalizeTimestamp E (Num (Fin 1700000000)) = Fin 1700000000 \<and>
   normalizeTimestamp E (Str ''1700000000'') = Fin 1700000000 \<and>
   normalizeTimestamp E (Str ''2023-11-14T00:00:00Z'') = Fin 1699920000 \<and>
   normalizeTimestamp E Null = Fin 0 \<and>
   (otherDateParse E ''not-a-date'' = None \<longrightarrow>
      normalizeTimestamp E (Str ''not-a-date'') = Fin 0)"
proof -
  have "normalizeTimestamp E (Num (Fin 1700000000)) = Fin 1700000000"
    by (simp add: normalizeTimestamp_eq)
  moreover have "normalizeTimestamp E Null = Fin 0"
    by (simp add: normalizeTimestamp_eq)
  ultimately show ?thesis
    using normalizeTimestamp_eq [of E v] normalizeTimestamp_agrees [of v E]
      normalizeTimestamp_numeric_string [of E] normalizeTimestamp_iso_string [of E]
      normalizeTimestamp_not_a_date [of E]
    by blast
qed

text \<open>The theorem at the sample engine and the string \<open>not-a-date\<close>: the engine rejects
  it as a date, it is no boolean and no infinite number, and the result is 0 on both
  sides.\<close>

theorem normalizeTimestamp_fallback_witness:
  "otherDateParse sampleEngine ''not-a-date'' = None \<and>
   (\<forall>b. Str ''not-a-date'' \<noteq> Bool b) \<and>
   Number (Str ''not-a-date'') \<noteq> PInf \<and> Number (Str ''not-a-date'') \<noteq> NInf \<and>
   normalizeTimestamp sampleEngine (Str ''not-a-date'') = Fin 0 \<and>
   normalizeTimestamp_spec sampleEngine (Str ''not-a-date'') = Fin 0"
proof -
  have h: "otherDateParse sampleEngine ''not-a-date'' = None"
    by (simp add: sampleEngine_def)
  have n: "Number (Str ''not-a-date'') = NaN"
    by (simp add: number_defs string_defs)
  note t = normalizeTimestamp_fallback [of sampleEngine "Str ''not-a-date''"]
  from t h have a: "normalizeTimestamp sampleEngine (Str ''not-a-date'') = Fin 0"
    by blast
  have p: "(\<forall>b. Str ''not-a-date'' \<noteq> Bool b) \<and>
      Number (Str ''not-a-date'') \<noteq> PInf \<and> Number (Str ''not-a-date'') \<noteq> NInf"
    using n by simp
  from t p have "normalizeTimestamp sampleEngine (Str ''not-a-date'') =
      normalizeTimestamp_spec sampleEngine (Str ''not-a-date'')"
    by blast
  with a h p show ?thesis
    by simp
qed

text \<open>Claim C1 as stated fails at the number \<open>Infinity\<close> (which \<open>JSON.parse\<close> gives for
  \<open>1e999\<close>): it is not a finite number and not a string, and no date, so the
  specification's fallback ends in 0, while the code floors it and returns \<open>Infinity\<close>.\<close>

theorem normalizeTimestamp_infinity_counterexample:
  "normalizeTimestamp sampleEngine (Num PInf) = PInf \<and>
   normalizeTimestamp_spec sampleEngine (Num PInf) = Fin 0"
  by (simp add: normalizeTimestamp_eq normalizeTimestamp_spec_def number_defs string_defs
      date_defs sampleEngine_def)

subsection \<open>Sensor rows\<close>

lemma normalizeTimestamp_not_NaN: "normalizeTimestamp E v \<noteq> NaN"
proof -
  have f: "\<And>n. n \<noteq> NaN \<Longrightarrow> Math_floor n \<noteq> NaN"
    by (case_tac n) simp_all
  have d: "Date_parse E v \<noteq> NaN \<Longrightarrow> js_div (Date_parse E v) (Fin 1000) \<noteq> NaN"
    using Date_parse_cases [of E v] by auto
  show ?thesis
    using f d by (simp add: normalizeTimestamp_eq)
qed

lemma js_or_number: "js_or (Num n) (Num (Fin 0)) = Num (if n = NaN then Fin 0 else n)"
  by (simp add: js_or_def)

lemma sensor_machine_id:
  "get (normalizeSensorRow E r) ''machine_id'' =
     js_or (Num (parseInt E (get r ''machine_id''))) (Num (Fin 0))"
  by (simp add: normalizeSensorRow_def get_def)

lemma sensor_temperature:
  "get (normalizeSensorRow E r) ''temperature'' =
     js_or (Num (parseFloat E (get r ''temperature''))) (Num (Fin 0))"
  by (simp add: normalizeSensorRow_def get_def)

lemma sensor_vibration:
  "get (normalizeSensorRow E r) ''vibration'' =
     js_or (Num (parseFloat E (get r ''vibration''))) (Num (Fin 0))"
  by (simp add: normalizeSensorRow_def get_def)

lemma sensor_timestamp:
  "get (normalizeSensorRow E r) ''timestamp'' = Num (normalizeTimestamp E (get r ''timestamp''))"
  by (simp add: normalizeSensorRow_def get_def)

lemma normalizeData_sensor:
  "\<not> str_includes filepath ''alerts'' \<Longrightarrow>
     normalizeData E data filepath = map (normalizeSensorRow E) data"
  by (simp add: normalizeData_def)

lemma normalizeData_alerts:
  "str_includes filepath ''alerts'' \<Longrightarrow>
     normalizeData E data filepath = map (normalizeAlertRow E) data"
  by (simp add: normalizeData_def)

text \<open>
  Claim C2, as the code has it. For a file that is not the alerts file, \<open>normalizeData\<close>
  maps every row to \<open>machine_id = parseInt(row.machine_id) || 0\<close>,
  \<open>temperature = parseFloat(row.temperature) || 0\<close>,
  \<open>vibration = parseFloat(row.vibration) || 0\<close> and
  \<open>timestamp = normalizeTimestamp(row.timestamp)\<close>. Whatever the row holds, each of the
  four fields is a number and never null, undefined or \<open>NaN\<close>, and a field whose input
  does not parse is 0. (Nothing makes the number finite.)
\<close>

theorem sensor_fields_are_numbers:
  "(\<not> str_includes filepath ''alerts'' \<longrightarrow>
      normalizeData E data filepath = map (normalizeSensorRow E) data) \<and>
   get (normalizeSensorRow E r) ''machine_id'' =
     js_or (Num (parseInt E (get r ''machine_id''))) (Num (Fin 0)) \<and>
   get (normalizeSensorRow E r) ''temperature'' =
     js_or (Num (parseFloat E (get r ''temperature''))) (Num (Fin 0)) \<and>
   get (normalizeSensorRow E r) ''vibration'' =
     js_or (Num (parseFloat E (get r ''vibration''))) (Num (Fin 0)) \<and>
   get (normalizeSensorRow E r) ''timestamp'' =
     Num (normalizeTimestamp E (get r ''timestamp'')) \<and>
   properNumber (get (normalizeSensorRow E r) ''machine_id'') \<and>
   properNumber (get (normalizeSensorRow E r) ''temperature'') \<and>
   properNumber (get (normalizeSensorRow E r) ''vibration'') \<and>
   properNumber (get (normalizeSensorRow E r) ''timestamp'') \<and>
   (parseInt E (get r ''machine_id'') = NaN \<longrightarrow>
      get (normalizeSensorRow E r) ''machine_id'' = Num (Fin 0)) \<and>
   (parseFloat E (get r ''temperature'') = NaN \<longrightarrow>
      get (normalizeSensorRow E r) ''temperature'' = Num (Fin 0)) \<and>
   (parseFloat E (get r ''vibration'') = NaN \<longrightarrow>
      get (normalizeSensorRow E r) ''vibration'' = Num (Fin 0))"
  using normalizeTimestamp_not_NaN [of E "get r ''timestamp''"]
  by (simp add: normalizeData_sensor sensor_machine_id sensor_temperature sensor_vibration
      sensor_timestamp js_or_number properNumber_def)

text \<open>The theorem at a row of the sensor file none of whose fields parses.\<close>

theorem sensor_fields_are_numbers_witness:
  "\<not> str_includes ''sensor_data'' ''alerts'' \<and>
   parseInt sampleEngine (Str ''M-7'') = NaN \<and>
   parseFloat sampleEngine (Str ''n/a'') = NaN \<and>
   parseFloat sampleEngine Undefined = NaN \<and>
   normalizeData sampleEngine
     [[(''machine_id'', Str ''M-7''), (''temperature'', Str ''n/a''),
       (''timestamp'', Str ''yesterday'')]] ''sensor_data'' =
     [[(''machine_id'', Num (Fin 0)), (''temperature'', Num (Fin 0)),
       (''vibration'', Num (Fin 0)), (''timestamp'', Num (Fin 0))]]"
  using sensor_fields_are_numbers [of "''sensor_data''" sampleEngine
      "[[(''machine_id'', Str ''M-7''), (''temperature'', Str ''n/a''),
         (''timestamp'', Str ''yesterday'')]]"
      "[(''machine_id'', Str ''M-7''), (''temperature'', Str ''n/a''),
        (''timestamp'', Str ''yesterday'')]"]
  by (simp add: normalizeSensorRow_def get_def js_or_def normalizeTimestamp_eq number_defs
      string_defs date_defs sampleEngine_def)

text \<open>Claim C2 as stated fails at a row whose temperature is the string \<open>Infinity\<close>:
  \<open>parseFloat\<close> reads it as the number \<open>Infinity\<close>, which is truthy, so the normalized
  temperature is not a finite number.\<close>

theorem sensor_temperature_infinite_counterexample:
  "normalizeData sampleEngine
     [[(''machine_id'', Num (Fin 1)), (''temperature'', Str ''Infinity''),
       (''vibration'', Num (Fin 2100)), (''timestamp'', Num (Fin 5))]] ''sensor_data'' =
     [[(''machine_id'', Num (Fin 1)), (''temperature'', Num PInf),
       (''vibration'', Num (Fin 2100)), (''timestamp'', Num (Fin 5))]] \<and>
   \<not> finiteNumber (Num PInf)"
  by (simp add: normalizeData_def normalizeSensorRow_def get_def js_or_def
      normalizeTimestamp_eq number_defs string_defs finiteNumber_def)

subsection \<open>Alert rows\<close>

lemma alert_temperature_eq:
  "get (normalizeAlertRow E r) ''temperature'' =
     (if tempStrOf E r = [] \<or> parseFloat_str (tempStrOf E r) = NaN then Null
      else Num (parseFloat_str (tempStrOf E r)))"
  by (simp add: normalizeAlertRow_def get_def tempStrOf_def Let_def isNaN_def parseFloat_def)

lemma tempStrOf_falsy:
  "\<not> truthy (get r ''Temp'') \<Longrightarrow> \<not> truthy (get r ''temperature'') \<Longrightarrow> tempStrOf E r = []"
  by (simp add: tempStrOf_def js_or_def trim_def trimEnd_def)

lemma alert_machine_id_eq:
  "get (normalizeAlertRow E r) ''machine_id'' =
     (if truthy (get r ''Machine'') then get r ''Machine''
      else if truthy (get r ''machine_id'') then get r ''machine_id'' else Null)"
  by (simp add: normalizeAlertRow_def get_def Let_def js_or_def)

lemma alert_timestamp_eq:
  "get (normalizeAlertRow E r) ''timestamp'' =
     (if truthy (get r ''Time'') then get r ''Time''
      else if truthy (get r ''timestamp'') then get r ''timestamp'' else Null)"
  by (simp add: normalizeAlertRow_def get_def Let_def js_or_def)

lemma alert_Alert_eq:
  "get (normalizeAlertRow E r) ''Alert'' =
     (if truthy (get r ''Alert'') then get r ''Alert''
      else if truthy (get r ''alert'') then get r ''alert'' else Str ''Unknown'')"
  by (simp add: normalizeAlertRow_def get_def Let_def js_or_def)

lemma alert_alert_type_eq:
  "get (normalizeAlertRow E r) ''alert_type'' =
     (if truthy (get r ''Alert'') then get r ''Alert''
      else if truthy (get r ''alert_type'') then get r ''alert_type'' else Str ''Unknown'')"
  by (simp add: normalizeAlertRow_def get_def Let_def js_or_def)

lemma zero_or_absent_falsy: "v = Num (Fin 0) \<or> v = Undefined \<Longrightarrow> \<not> truthy v"
  by auto

lemma empty_or_absent_falsy: "v = Str [] \<or> v = Undefined \<Longrightarrow> \<not> truthy v"
  by auto

text \<open>
  Claim C3, as the code has it. The normalized temperature of an alert row is
  \<open>parseFloat(tempStr)\<close>, where \<open>tempStr\<close> is the first truthy one of \<open>row.Temp\<close> and
  \<open>row.temperature\<close> (else the empty string) as a string, without its first \<open>K\<close>
  (wherever it stands) and trimmed. It is null exactly when \<open>tempStr\<close> is empty or does
  not parse, which is the case when both raw fields are falsy; and it is 0 only when
  \<open>tempStr\<close> is a text that parses to 0, never in place of missing data.
\<close>

theorem alert_temperature:
  "get (normalizeAlertRow E r) ''temperature'' =
     (if tempStrOf E r = [] \<or> parseFloat_str (tempStrOf E r) = NaN then Null
      else Num (parseFloat_str (tempStrOf E r))) \<and>
   (get (normalizeAlertRow E r) ''temperature'' = Null \<longleftrightarrow>
      tempStrOf E r = [] \<or> parseFloat_str (tempStrOf E r) = NaN) \<and>
   (\<not> truthy (get r ''Temp'') \<and> \<not> truthy (get r ''temperature'') \<longrightarrow>
      get (normalizeAlertRow E r) ''temperature'' = Null) \<and>
   (get (normalizeAlertRow E r) ''temperature'' = Num (Fin 0) \<longrightarrow>
      tempStrOf E r \<noteq> [] \<and> parseFloat_str (tempStrOf E r) = Fin 0)"
  using tempStrOf_falsy [of r E] by (simp add: alert_temperature_eq)

text \<open>The theorem at a row without a temperature, and at the reading \<open>0K\<close>.\<close>

theorem alert_temperature_witness:
  "\<not> truthy (get [(''Machine'', Num (Fin 1))] ''Temp'') \<and>
   \<not> truthy (get [(''Machine'', Num (Fin 1))] ''temperature'') \<and>
   get (normalizeAlertRow sampleEngine [(''Machine'', Num (Fin 1))]) ''temperature'' = Null \<and>
   get (normalizeAlertRow sampleEngine [(''Temp'', Str ''0K'')]) ''temperature'' = Num (Fin 0) \<and>
   tempStrOf sampleEngine [(''Temp'', Str ''0K'')] = ''0'' \<and>
   parseFloat_str ''0'' = Fin 0"
proof -
  have a: "\<not> truthy (get [(''Machine'', Num (Fin 1))] ''Temp'') \<and>
      \<not> truthy (get [(''Machine'', Num (Fin 1))] ''temperature'')"
    by (simp add: get_def)
  have b: "get (normalizeAlertRow sampleEngine [(''Temp'', Str ''0K'')]) ''temperature'' =
      Num (Fin 0)"
    by (simp add: normalizeAlertRow_def get_def js_or_def number_defs string_defs)
  have c: "tempStrOf sampleEngine [(''Temp'', Str ''0K'')] = ''0''"
    by (simp add: tempStrOf_def get_def js_or_def string_defs)
  from a alert_temperature [of sampleEngine "[(''Machine'', Num (Fin 1))]"]
  have "get (normalizeAlertRow sampleEngine [(''Machine'', Num (Fin 1))]) ''temperature'' = Null"
    by blast
  moreover from b c alert_temperature [of sampleEngine "[(''Temp'', Str ''0K'')]"]
  have "parseFloat_str ''0'' = Fin 0"
    by simp
  ultimately show ?thesis
    using a b c by simp
qed

text \<open>Claim C3 as stated fails at two rows. In \<open>K300\<close> the letter is not trailing, so
  the specification's wording leaves it and the field is not numeric, while the code
  removes it and reads 300. The number 0 is a field that is neither empty nor
  non-numeric, and the code gives null for it, since 0 is falsy.\<close>

theorem alert_temperature_counterexample:
  "get (normalizeAlertRow sampleEngine [(''Temp'', Str ''K300'')]) ''temperature'' =
     Num (Fin 300) \<and>
   alertTemperature_spec sampleEngine [(''Temp'', Str ''K300'')] = Null \<and>
   get (normalizeAlertRow sampleEngine [(''Temp'', Num (Fin 0))]) ''temperature'' = Null \<and>
   alertTemperature_spec sampleEngine [(''Temp'', Num (Fin 0))] = Num (Fin 0)"
  by (simp add: normalizeAlertRow_def alertTemperature_spec_def stripTrailingK_def get_def
      js_or_def number_defs string_defs)

text \<open>
  Claim C10. In the alert normalizer the two names of a field are joined by \<open>||\<close>, so a
  value that is present but falsy counts as absent: each of machine id, timestamp and
  label is the first truthy one of its two raw values, else null (for the label, the text
  \<open>Unknown\<close>). Hence a row whose machine id, or timestamp, is 0 (under one name or both,
  the other name being absent) has a null \<open>machine_id\<close>, or \<open>timestamp\<close>; a row whose
  temperature is the number 0 has a null temperature; and an empty or absent label
  becomes \<open>Unknown\<close>.
\<close>

theorem alert_falsy_is_absent:
  "get (normalizeAlertRow E r) ''machine_id'' =
     (if truthy (get r ''Machine'') then get r ''Machine''
      else if truthy (get r ''machine_id'') then get r ''machine_id'' else Null) \<and>
   get (normalizeAlertRow E r) ''timestamp'' =
     (if truthy (get r ''Time'') then get r ''Time''
      else if truthy (get r ''timestamp'') then get r ''timestamp'' else Null) \<and>
   get (normalizeAlertRow E r) ''Alert'' =
     (if truthy (get r ''Alert'') then get r ''Alert''
      else if truthy (get r ''alert'') then get r ''alert'' else Str ''Unknown'') \<and>
   get (normalizeAlertRow E r) ''alert_type'' =
     (if truthy (get r ''Alert'') then get r ''Alert''
      else if truthy (get r ''alert_type'') then get r ''alert_type'' else Str ''Unknown'') \<and>
   ((get r ''Machine'' = Num (Fin 0) \<or> get r ''Machine'' = Undefined) \<and>
    (get r ''machine_id'' = Num (Fin 0) \<or> get r ''machine_id'' = Undefined) \<longrightarrow>
      get (normalizeAlertRow E r) ''machine_id'' = Null) \<and>
   ((get r ''Time'' = Num (Fin 0) \<or> get r ''Time'' = Undefined) \<and>
    (get r ''timestamp'' = Num (Fin 0) \<or> get r ''timestamp'' = Undefined) \<longrightarrow>
      get (normalizeAlertRow E r) ''timestamp'' = Null) \<and>
   ((get r ''Temp'' = Num (Fin 0) \<or> get r ''Temp'' = Undefined) \<and>
    (get r ''temperature'' = Num (Fin 0) \<or> get r ''temperature'' = Undefined) \<longrightarrow>
      get (normalizeAlertRow E r) ''temperature'' = Null) \<and>
   ((get r ''Alert'' = Str [] \<or> get r ''Alert'' = Undefined) \<and>
    (get r ''alert'' = Str [] \<or> get r ''alert'' = Undefined) \<longrightarrow>
      get (normalizeAlertRow E r) ''Alert'' = Str ''Unknown'') \<and>
   ((get r ''Alert'' = Str [] \<or> get r ''Alert'' = Undefined) \<and>
    (get r ''alert_type'' = Str [] \<or> get r ''alert_type'' = Undefined) \<longrightarrow>
      get (normalizeAlertRow E r) ''alert_type'' = Str ''Unknown'')"
proof -
  have t: "(get r ''Temp'' = Num (Fin 0) \<or> get r ''Temp'' = Undefined) \<and>
    (get r ''temperature'' = Num (Fin 0) \<or> get r ''temperature'' = Undefined) \<longrightarrow>
      get (normalizeAlertRow E r) ''temperature'' = Null"
    using tempStrOf_falsy [of r E] zero_or_absent_falsy
    by (simp add: alert_temperature_eq)
  have m: "(get r ''Machine'' = Num (Fin 0) \<or> get r ''Machine'' = Undefined) \<and>
    (get r ''machine_id'' = Num (Fin 0) \<or> get r ''machine_id'' = Undefined) \<longrightarrow>
      get (normalizeAlertRow E r) ''machine_id'' = Null"
    using zero_or_absent_falsy by (simp add: alert_machine_id_eq)
  have s: "(get r ''Time'' = Num (Fin 0) \<or> get r ''Time'' = Undefined) \<and>
    (get r ''timestamp'' = Num (Fin 0) \<or> get r ''timestamp'' = Undefined) \<longrightarrow>
      get (normalizeAlertRow E r) ''timestamp'' = Null"
    using zero_or_absent_falsy by (simp add: alert_timestamp_eq)
  have a: "(get r ''Alert'' = Str [] \<or> get r ''Alert'' = Undefined) \<and>
    (get r ''alert'' = Str [] \<or> get r ''alert'' = Undefined) \<longrightarrow>
      get (normalizeAlertRow E r) ''Alert'' = Str ''Unknown''"
    using empty_or_absent_falsy by (simp add: alert_Alert_eq)
  have b: "(get r ''Alert'' = Str [] \<or> get r ''Alert'' = Undefined) \<and>
    (get r ''alert_type'' = Str [] \<or> get r ''alert_type'' = Undefined) \<longrightarrow>
      get (normalizeAlertRow E r) ''alert_type'' = Str ''Unknown''"
    using empty_or_absent_falsy by (simp add: alert_alert_type_eq)
  from t m s a b show ?thesis
    using alert_machine_id_eq [of E r] alert_timestamp_eq [of E r] alert_Alert_eq [of E r]
      alert_alert_type_eq [of E r]
    by blast
qed

text \<open>The theorem at the row \<open>{Machine: 0, Time: 0, Temp: 0, Vibration: 0, Alert: ""}\<close>.\<close>

theorem alert_falsy_is_absent_witness:
  "get [(''Machine'', Num (Fin 0)), (''Time'', Num (Fin 0)), (''Temp'', Num (Fin 0)),
        (''Vibration'', Num (Fin 0)), (''Alert'', Str [])] ''Machine'' = Num (Fin 0) \<and>
   get [(''Machine'', Num (Fin 0)), (''Time'', Num (Fin 0)), (''Temp'', Num (Fin 0)),
        (''Vibration'', Num (Fin 0)), (''Alert'', Str [])] ''machine_id'' = Undefined \<and>
   normalizeAlertRow sampleEngine
     [(''Machine'', Num (Fin 0)), (''Time'', Num (Fin 0)), (''Temp'', Num (Fin 0)),
      (''Vibration'', Num (Fin 0)), (''Alert'', Str [])] =
     [(''machine_id'', Null), (''timestamp'', Null), (''temperature'', Null),
      (''vibration'', Null), (''Alert'', Str ''Unknown''), (''alert_type'', Str ''Unknown'')]"
proof -
  have e: "normalizeAlertRow sampleEngine
     [(''Machine'', Num (Fin 0)), (''Time'', Num (Fin 0)), (''Temp'', Num (Fin 0)),
      (''Vibration'', Num (Fin 0)), (''Alert'', Str [])] =
     [(''machine_id'', Null), (''timestamp'', Null), (''temperature'', Null),
      (''vibration'', Null), (''Alert'', Str ''Unknown''), (''alert_type'', Str ''Unknown'')]"
    by (simp add: normalizeAlertRow_def get_def js_or_def number_defs string_defs)
  show ?thesis
    using e alert_falsy_is_absent [of sampleEngine
      "[(''Machine'', Num (Fin 0)), (''Time'', Num (Fin 0)), (''Temp'', Num (Fin 0)),
        (''Vibration'', Num (Fin 0)), (''Alert'', Str [])]"]
    by (simp add: get_def)
qed

subsection \<open>Statistics\<close>

lemma alertHas_labelled:
  "labelled a \<Longrightarrow> alertHas token a = Inr (hasToken token a)"
  by (cases "get a ''Alert''") (simp_all add: labelled_def alertHas_def hasToken_def)

lemma alertHas_Inr:
  "alertHas token a = Inr b \<Longrightarrow> labelled a \<and> b = hasToken token a"
  by (cases "get a ''Alert''") (auto simp: labelled_def alertHas_def hasToken_def split: if_splits)

lemma filterE_total:
  "list_all (\<lambda>x. p x = Inr (q x)) xs \<Longrightarrow> filterE p xs = Inr (filter q xs)"
  by (induction xs) simp_all

lemma filterE_Inr:
  "filterE p xs = Inr ys \<Longrightarrow>
     list_all (\<lambda>x. \<exists>b. p x = Inr b) xs \<and> ys = filter (\<lambda>x. p x = Inr True) xs"
proof (induction xs arbitrary: ys)
  case Nil
  then show ?case by simp
next
  case (Cons x xs)
  then show ?case
    by (auto split: sum.splits if_splits)
qed

lemma filterE_alertHas:
  "list_all labelled as \<Longrightarrow> filterE (alertHas token) as = Inr (filter (hasToken token) as)"
  by (rule filterE_total) (simp add: list_all_iff alertHas_labelled)

lemma filterE_alertHas_Inr:
  assumes "filterE (alertHas token) as = Inr ys"
  shows "list_all labelled as \<and> ys = filter (hasToken token) as"
proof -
  from filterE_Inr [OF assms]
  have a: "list_all (\<lambda>x. \<exists>b. alertHas token x = Inr b) as" by simp
  then have l: "list_all labelled as"
    by (auto simp: list_all_iff dest: alertHas_Inr)
  with assms filterE_alertHas [of as token] show ?thesis
    by simp
qed

lemma calculateStatistics_total:
  assumes "list_all labelled (alerts d)"
  shows "calculateStatistics d =
     Inr (d\<lparr>machines :=
              orElse (length (remdups (map (\<lambda>r. get r ''machine_id'') (sensorData d)))) 100,
            readings := orElse (length (sensorData d)) 10000,
            critical := length (filter (hasToken ''CRITICAL'') (alerts d)),
            warnings := length (filter (hasToken ''WARNING'') (alerts d)),
            normal := length (filter (hasToken ''Normal'') (alerts d)),
            health := healthOf (length (filter (hasToken ''CRITICAL'') (alerts d)))
                        (length (filter (hasToken ''WARNING'') (alerts d)))
                        (orElse (length (sensorData d)) 10000)\<rparr>)"
  using assms by (simp add: calculateStatistics_def Let_def filterE_alertHas healthOf_def)

lemma calculateStatistics_Inr:
  assumes "calculateStatistics d = Inr d'"
  shows "list_all labelled (alerts d)"
  using assms
  by (auto simp: calculateStatistics_def Let_def split: sum.splits dest: filterE_alertHas_Inr)

lemma calculateStatistics_counts:
  assumes "calculateStatistics d = Inr d'"
  shows "machines d' =
           orElse (length (remdups (map (\<lambda>r. get r ''machine_id'') (sensorData d)))) 100"
    and "readings d' = orElse (length (sensorData d)) 10000"
    and "critical d' = length (filter (hasToken ''CRITICAL'') (alerts d))"
    and "warnings d' = length (filter (hasToken ''WARNING'') (alerts d))"
    and "normal d' = length (filter (hasToken ''Normal'') (alerts d))"
    and "health d' = healthOf (critical d') (warnings d') (readings d')"
  using assms calculateStatistics_total [OF calculateStatistics_Inr [OF assms]]
  by auto

lemma healthOf_eq:
  "r > 0 \<Longrightarrow> healthOf c w r = Fin (max 0 (100 - real (c + w) / real r * 100))"
  by (simp add: healthOf_def js_sub_def)

lemma orElse_pos: "d > 0 \<Longrightarrow> orElse n d > 0"
  by (simp add: orElse_def)

lemma calculateStatistics_initial:
  "calculateStatistics dashboardData =
     Inr (dashboardData\<lparr>machines := 100, readings := 10000, health := Fin 100\<rparr>)"
  by (simp add: calculateStatistics_def dashboardData_def orElse_def js_sub_def)

lemma example_load:
  "loadDashboardData E rndS rndA (OkArray exampleReadings) (OkArray exampleAlerts)
     dashboardData =
   Some (Inr \<lparr>machines = 1, readings = 1, critical = 1, warnings = 0, normal = 0,
      health = Fin 0,
      alerts = [[(''machine_id'', Num (Fin 1)), (''timestamp'', Num (Fin 5)),
                 (''temperature'', Num (Fin 330)), (''vibration'', Num (Fin 2100)),
                 (''Alert'', Str alertHighTemperature),
                 (''alert_type'', Str alertHighTemperature)]],
      sensorData = exampleReadings, insights = None\<rparr>)"
  by (simp add: loadDashboardData_def loadCSV_def normalizeData_def normalizeAlertRow_def
      normalizeSensorRow_def calculateStatistics_def alertHas_def orElse_def dashboardData_def
      exampleReadings_def exampleAlerts_def alertHighTemperature_def normalizeTimestamp_eq
      get_def js_or_def js_sub_def number_defs string_defs)

lemma example_machineMap:
  "machineMap E \<lparr>machines = 1, readings = 1, critical = 1, warnings = 0, normal = 0,
      health = Fin 0,
      alerts = [[(''machine_id'', Num (Fin 1)), (''timestamp'', Num (Fin 5)),
                 (''temperature'', Num (Fin 330)), (''vibration'', Num (Fin 2100)),
                 (''Alert'', Str alertHighTemperature),
                 (''alert_type'', Str alertHighTemperature)]],
      sensorData = exampleReadings, insights = None\<rparr> =
   Inr [(Num (Fin 1),
         \<lparr>ident = Num (Fin 1), readingCount = 1, avgTemp = Fin 330, avgVibration = Fin 2100,
          lastTemp = Num (Fin 330), lastVibration = Num (Fin 2100), alertCount = 1,
          status = StatusCritical, healthScore = Fin 100, riskScore = Fin 5\<rparr>)]"
  by (simp add: machineMap_def finishMachine_def addReading_def newMachine_def devPct_def
      alertOf_def alertOfHas_def alertHas_def looseEq_def nullish_def exampleReadings_def
      alertHighTemperature_def get_def js_or_def js_sub_def number_defs string_defs)

text \<open>
  Claim C4. When \<open>calculateStatistics\<close> returns, it has counted as \<open>c\<close> the alerts of the
  state whose label contains \<open>CRITICAL\<close>, as \<open>w\<close> those whose label contains
  \<open>WARNING\<close>, and as \<open>r\<close> the readings of the state (10000 when there are none), and
  the health score is \<open>max(0, 100 - (c + w) / r * 100)\<close> on these counts; it lies
  between 0 and 100, it is 100 when no alert is critical or a warning, and 0 when
  \<open>c + w\<close> is at least \<open>r\<close>. It returns whenever every alert label is a string or
  falsy.
\<close>

theorem health_score_formula:
  "(calculateStatistics d = Inr d' \<longrightarrow>
      critical d' = length (filter (hasToken ''CRITICAL'') (alerts d)) \<and>
      warnings d' = length (filter (hasToken ''WARNING'') (alerts d)) \<and>
      readings d' = (if length (sensorData d) = 0 then 10000 else length (sensorData d)) \<and>
      health d' =
        Fin (max 0
          (100 -
           real (length (filter (hasToken ''CRITICAL'') (alerts d)) +
                 length (filter (hasToken ''WARNING'') (alerts d))) /
           real (if length (sensorData d) = 0 then 10000 else length (sensorData d)) *
           100)) \<and>
      health d' =
        Fin (max 0 (100 - real (critical d' + warnings d') / real (readings d') * 100)) \<and>
      (\<exists>h. health d' = Fin h \<and> 0 \<le> h \<and> h \<le> 100) \<and>
      (filter (hasToken ''CRITICAL'') (alerts d) = [] \<and>
       filter (hasToken ''WARNING'') (alerts d) = [] \<longrightarrow> health d' = Fin 100) \<and>
      (critical d' = 0 \<and> warnings d' = 0 \<longrightarrow> health d' = Fin 100) \<and>
      (readings d' \<le> critical d' + warnings d' \<longrightarrow> health d' = Fin 0)) \<and>
   (labelled a \<longrightarrow> alertHas token a = Inr (hasToken token a)) \<and>
   (list_all labelled (alerts d) \<longrightarrow> (\<exists>d'. calculateStatistics d = Inr d'))"
proof -
  have tot: "list_all labelled (alerts d) \<longrightarrow> (\<exists>d'. calculateStatistics d = Inr d')"
    by (simp add: calculateStatistics_total)
  have lab: "labelled a \<longrightarrow> alertHas token a = Inr (hasToken token a)"
    by (simp add: alertHas_labelled)
  have "critical d' = length (filter (hasToken ''CRITICAL'') (alerts d)) \<and>
      warnings d' = length (filter (hasToken ''WARNING'') (alerts d)) \<and>
      readings d' = (if length (sensorData d) = 0 then 10000 else length (sensorData d)) \<and>
      health d' =
        Fin (max 0
          (100 -
           real (length (filter (hasToken ''CRITICAL'') (alerts d)) +
                 length (filter (hasToken ''WARNING'') (alerts d))) /
           real (if length (sensorData d) = 0 then 10000 else length (sensorData d)) *
           100)) \<and>
      health d' =
        Fin (max 0 (100 - real (critical d' + warnings d') / real (readings d') * 100)) \<and>
      (\<exists>h. health d' = Fin h \<and> 0 \<le> h \<and> h \<le> 100) \<and>
      (filter (hasToken ''CRITICAL'') (alerts d) = [] \<and>
       filter (hasToken ''WARNING'') (alerts d) = [] \<longrightarrow> health d' = Fin 100) \<and>
      (critical d' = 0 \<and> warnings d' = 0 \<longrightarrow> health d' = Fin 100) \<and>
      (readings d' \<le> critical d' + warnings d' \<longrightarrow> health d' = Fin 0)"
    if ok: "calculateStatistics d = Inr d'"
  proof -
    define c where "c = critical d'"
    define w where "w = warnings d'"
    define r where "r = readings d'"
    note n = calculateStatistics_counts [OF ok]
    have ci: "c = length (filter (hasToken ''CRITICAL'') (alerts d))"
      unfolding c_def by (rule n(3))
    have wi: "w = length (filter (hasToken ''WARNING'') (alerts d))"
      unfolding w_def by (rule n(4))
    have ri: "r = (if length (sensorData d) = 0 then 10000 else length (sensorData d))"
      unfolding r_def n(2) orElse_def by simp
    then have r: "r > 0"
      by (simp split: if_splits)
    have h: "health d' = healthOf c w r"
      unfolding c_def w_def r_def by (rule n(6))
    from r have h': "health d' = Fin (max 0 (100 - real (c + w) / real r * 100))"
      by (simp add: h healthOf_eq)
    have nonneg: "0 \<le> real (c + w) / real r * 100"
      by simp
    have zero: "max 0 (100 - real (c + w) / real r * 100) = 0" if "r \<le> c + w"
    proof -
      define q where "q = real (c + w) / real r"
      from that r have "1 \<le> q"
        by (simp add: q_def le_divide_eq)
      then have "max 0 (100 - q * 100) = 0"
        by simp
      then show ?thesis
        by (simp only: q_def)
    qed
    have hundred: "health d' = Fin 100" if "c = 0" "w = 0"
      using that h' by simp
    have b: "\<exists>x. health d' = Fin x \<and> 0 \<le> x \<and> x \<le> 100"
      using h' nonneg by auto
    have z: "r \<le> c + w \<longrightarrow> health d' = Fin 0"
      using h' zero by simp
    have e: "filter (hasToken ''CRITICAL'') (alerts d) = [] \<and>
       filter (hasToken ''WARNING'') (alerts d) = [] \<longrightarrow> health d' = Fin 100"
      using hundred ci wi by simp
    have h'': "health d' =
        Fin (max 0
          (100 -
           real (length (filter (hasToken ''CRITICAL'') (alerts d)) +
                 length (filter (hasToken ''WARNING'') (alerts d))) /
           real (if length (sensorData d) = 0 then 10000 else length (sensorData d)) *
           100))"
      using h' unfolding ci wi ri .
    from ci wi ri h' h'' b e hundred z show ?thesis
      unfolding c_def w_def r_def by blast
  qed
  with tot lab show ?thesis by blast
qed

text \<open>The theorem at three states: one reading and no alert (health 100); four readings
  and one critical, one warning and one normal alert (health 50); the reading and the
  critical alert of the end-to-end example (health 0).\<close>

theorem health_score_formula_witness:
  "calculateStatistics (dashboardData\<lparr>sensorData := exampleReadings\<rparr>) =
     Inr (dashboardData\<lparr>sensorData := exampleReadings, machines := 1, readings := 1,
       health := Fin 100\<rparr>) \<and>
   filter (hasToken ''CRITICAL'') (alerts (dashboardData\<lparr>sensorData := exampleReadings\<rparr>)) =
     [] \<and>
   filter (hasToken ''WARNING'') (alerts (dashboardData\<lparr>sensorData := exampleReadings\<rparr>)) =
     [] \<and>
   calculateStatistics (dashboardData\<lparr>
       sensorData := exampleReadings @ exampleReadings @ exampleReadings @ exampleReadings,
       alerts := [[(''Alert'', Str alertHighTemperature)],
                  [(''Alert'', Str alertTemperatureSpike)],
                  [(''Alert'', Str alertNormal)]]\<rparr>) =
     Inr (dashboardData\<lparr>
       sensorData := exampleReadings @ exampleReadings @ exampleReadings @ exampleReadings,
       alerts := [[(''Alert'', Str alertHighTemperature)],
                  [(''Alert'', Str alertTemperatureSpike)],
                  [(''Alert'', Str alertNormal)]],
       machines := 1, readings := 4, critical := 1, warnings := 1, normal := 1,
       health := Fin 50\<rparr>) \<and>
   length (filter (hasToken ''CRITICAL'')
       [[(''Alert'', Str alertHighTemperature)], [(''Alert'', Str alertTemperatureSpike)],
        [(''Alert'', Str alertNormal)]]) = 1 \<and>
   length (filter (hasToken ''WARNING'')
       [[(''Alert'', Str alertHighTemperature)], [(''Alert'', Str alertTemperatureSpike)],
        [(''Alert'', Str alertNormal)]]) = 1 \<and>
   calculateStatistics (dashboardData\<lparr>sensorData := exampleReadings,
       alerts := map (normalizeAlertRow sampleEngine) exampleAlerts\<rparr>) =
     Inr (dashboardData\<lparr>sensorData := exampleReadings,
       alerts := map (normalizeAlertRow sampleEngine) exampleAlerts,
       machines := 1, readings := 1, critical := 1, health := Fin 0\<rparr>) \<and>
   list_all labelled (alerts dashboardData) \<and>
   labelled [(''Alert'', Str alertNormal)] \<and>
   alertHas ''CRITICAL'' [(''Alert'', Str alertNormal)] = Inr False"
proof -
  let ?d1 = "dashboardData\<lparr>sensorData := exampleReadings\<rparr>"
  let ?d1' = "dashboardData\<lparr>sensorData := exampleReadings, machines := 1, readings := 1,
       health := Fin 100\<rparr>"
  let ?as = "[[(''Alert'', Str alertHighTemperature)], [(''Alert'', Str alertTemperatureSpike)],
        [(''Alert'', Str alertNormal)]]"
  let ?d2 = "dashboardData\<lparr>
       sensorData := exampleReadings @ exampleReadings @ exampleReadings @ exampleReadings,
       alerts := ?as\<rparr>"
  let ?d2' = "dashboardData\<lparr>
       sensorData := exampleReadings @ exampleReadings @ exampleReadings @ exampleReadings,
       alerts := ?as,
       machines := 1, readings := 4, critical := 1, warnings := 1, normal := 1,
       health := Fin 50\<rparr>"
  let ?d3 = "dashboardData\<lparr>sensorData := exampleReadings,
       alerts := map (normalizeAlertRow sampleEngine) exampleAlerts\<rparr>"
  let ?d3' = "dashboardData\<lparr>sensorData := exampleReadings,
       alerts := map (normalizeAlertRow sampleEngine) exampleAlerts,
       machines := 1, readings := 1, critical := 1, health := Fin 0\<rparr>"
  let ?a = "[(''Alert'', Str alertNormal)]"
  have e1: "calculateStatistics ?d1 = Inr ?d1'"
    by (simp add: calculateStatistics_def alertHas_def orElse_def dashboardData_def
        exampleReadings_def get_def js_sub_def)
  have e2: "calculateStatistics ?d2 = Inr ?d2'"
    by (simp add: calculateStatistics_def alertHas_def orElse_def dashboardData_def
        exampleReadings_def alertHighTemperature_def alertTemperatureSpike_def alertNormal_def
        get_def js_sub_def)
  have e3: "calculateStatistics ?d3 = Inr ?d3'"
    by (simp add: normalizeAlertRow_def calculateStatistics_def alertHas_def orElse_def
        dashboardData_def exampleReadings_def exampleAlerts_def alertHighTemperature_def get_def
        js_or_def js_sub_def number_defs string_defs)
  have l: "list_all labelled (alerts dashboardData) \<and> labelled ?a"
    by (simp add: dashboardData_def labelled_def get_def)
  note t1 = health_score_formula [of ?d1 ?d1' ?a "''CRITICAL''"]
  note t2 = health_score_formula [of ?d2 ?d2' ?a "''CRITICAL''"]
  note t3 = health_score_formula [of ?d3 ?d3' ?a "''CRITICAL''"]
  from e1 t1 have "critical ?d1' = length (filter (hasToken ''CRITICAL'') (alerts ?d1)) \<and>
      warnings ?d1' = length (filter (hasToken ''WARNING'') (alerts ?d1))"
    by blast
  then have f1: "filter (hasToken ''CRITICAL'') (alerts ?d1) = [] \<and>
      filter (hasToken ''WARNING'') (alerts ?d1) = []"
    by (simp add: dashboardData_def)
  from e2 t2 have "critical ?d2' = length (filter (hasToken ''CRITICAL'') (alerts ?d2)) \<and>
      warnings ?d2' = length (filter (hasToken ''WARNING'') (alerts ?d2))"
    by blast
  then have f2: "length (filter (hasToken ''CRITICAL'') ?as) = 1 \<and>
      length (filter (hasToken ''WARNING'') ?as) = 1"
    by (simp add: dashboardData_def)
  from l t3 have "alertHas ''CRITICAL'' ?a = Inr (hasToken ''CRITICAL'' ?a)"
    by blast
  then have f3: "alertHas ''CRITICAL'' ?a = Inr False"
    by (simp add: hasToken_def get_def alertNormal_def)
  from e1 e2 e3 l f1 f2 f3 show ?thesis
    by blast
qed

text \<open>
  Claim C5. When \<open>calculateStatistics\<close> returns, the machine count is the number of
  distinct \<open>machine_id\<close> values of the readings, or 100 when that is zero, and the reading
  count is the number of readings, or 10000 when that is zero. So the reading count is
  never 0, the quotient of the health formula is never \<open>NaN\<close>, and neither is the
  health score.
\<close>

theorem counts_and_fallbacks:
  "(calculateStatistics d = Inr d' \<longrightarrow>
      machines d' =
        (if card (set (map (\<lambda>r. get r ''machine_id'') (sensorData d))) = 0 then 100
         else card (set (map (\<lambda>r. get r ''machine_id'') (sensorData d)))) \<and>
      readings d' = (if length (sensorData d) = 0 then 10000 else length (sensorData d)) \<and>
      readings d' \<noteq> 0 \<and>
      js_div (Fin (real (critical d' + warnings d'))) (Fin (real (readings d'))) \<noteq> NaN \<and>
      health d' \<noteq> NaN) \<and>
   (list_all labelled (alerts d) \<longrightarrow> (\<exists>d'. calculateStatistics d = Inr d'))"
proof -
  have tot: "list_all labelled (alerts d) \<longrightarrow> (\<exists>d'. calculateStatistics d = Inr d')"
    by (simp add: calculateStatistics_total)
  have "machines d' =
        (if card (set (map (\<lambda>r. get r ''machine_id'') (sensorData d))) = 0 then 100
         else card (set (map (\<lambda>r. get r ''machine_id'') (sensorData d)))) \<and>
      readings d' = (if length (sensorData d) = 0 then 10000 else length (sensorData d)) \<and>
      readings d' \<noteq> 0 \<and>
      js_div (Fin (real (critical d' + warnings d'))) (Fin (real (readings d'))) \<noteq> NaN \<and>
      health d' \<noteq> NaN"
    if ok: "calculateStatistics d = Inr d'"
  proof -
    note c = calculateStatistics_counts [OF ok]
    have m: "machines d' =
        (if card (set (map (\<lambda>r. get r ''machine_id'') (sensorData d))) = 0 then 100
         else card (set (map (\<lambda>r. get r ''machine_id'') (sensorData d))))"
      unfolding c(1) orElse_def length_remdups_card_conv by simp
    have r: "readings d' = (if length (sensorData d) = 0 then 10000 else length (sensorData d))"
      unfolding c(2) orElse_def by simp
    then have p: "readings d' > 0"
      by (simp split: if_splits)
    then have h: "health d' \<noteq> NaN"
      by (simp add: c(6) healthOf_eq)
    from m r p h show ?thesis by simp
  qed
  with tot show ?thesis by blast
qed

text \<open>The theorem at the initial state, which has no readings: the counts are the
  placeholders 100 and 10000.\<close>

theorem counts_and_fallbacks_witness:
  "list_all labelled (alerts dashboardData) \<and>
   calculateStatistics dashboardData =
     Inr (dashboardData\<lparr>machines := 100, readings := 10000, health := Fin 100\<rparr>) \<and>
   length (sensorData dashboardData) = 0 \<and>
   machines (dashboardData\<lparr>machines := 100, readings := 10000, health := Fin 100\<rparr>) = 100 \<and>
   readings (dashboardData\<lparr>machines := 100, readings := 10000, health := Fin 100\<rparr>) =
     10000"
proof -
  have a: "list_all labelled (alerts dashboardData) \<and> length (sensorData dashboardData) = 0"
    by (simp add: dashboardData_def)
  from a calculateStatistics_initial
    counts_and_fallbacks [of dashboardData
      "dashboardData\<lparr>machines := 100, readings := 10000, health := Fin 100\<rparr>"]
  have "readings (dashboardData\<lparr>machines := 100, readings := 10000, health := Fin 100\<rparr>) =
      10000"
    by simp
  with a calculateStatistics_initial show ?thesis
    by simp
qed

text \<open>
  Claim C7. The three alert counts are the numbers of alerts whose label is a non-empty
  string containing \<open>CRITICAL\<close>, \<open>WARNING\<close> and \<open>Normal\<close>, each test on its own and in
  the letter case written: an alert labelled with two tokens is counted twice, and one
  labelled in another case is not counted. Loading the alert row and the sensor row of
  the example gives one critical alert, no warning and no normal one, and machine 1 has
  status critical.
\<close>

theorem severity_by_substring:
  "(calculateStatistics d = Inr d' \<longrightarrow>
      critical d' = length (filter (hasToken ''CRITICAL'') (alerts d)) \<and>
      warnings d' = length (filter (hasToken ''WARNING'') (alerts d)) \<and>
      normal d' = length (filter (hasToken ''Normal'') (alerts d))) \<and>
   (labelled a \<longrightarrow> alertHas token a = Inr (hasToken token a)) \<and>
   hasToken ''CRITICAL'' [(''Alert'', Str ''CRITICAL after WARNING'')] \<and>
   hasToken ''WARNING'' [(''Alert'', Str ''CRITICAL after WARNING'')] \<and>
   \<not> hasToken ''Normal'' [(''Alert'', Str ''CRITICAL after WARNING'')] \<and>
   \<not> hasToken ''CRITICAL'' [(''Alert'', Str ''critical, warning, NORMAL'')] \<and>
   \<not> hasToken ''WARNING'' [(''Alert'', Str ''critical, warning, NORMAL'')] \<and>
   \<not> hasToken ''Normal'' [(''Alert'', Str ''critical, warning, NORMAL'')] \<and>
   (\<exists>d1 m.
      loadDashboardData E rndS rndA (OkArray exampleReadings) (OkArray exampleAlerts)
        dashboardData = Some (Inr d1) \<and>
      critical d1 = 1 \<and> warnings d1 = 0 \<and> normal d1 = 0 \<and>
      machineMap E d1 = Inr [(Num (Fin 1), m)] \<and> status m = StatusCritical)"
proof -
  have g: "calculateStatistics d = Inr d' \<longrightarrow>
      critical d' = length (filter (hasToken ''CRITICAL'') (alerts d)) \<and>
      warnings d' = length (filter (hasToken ''WARNING'') (alerts d)) \<and>
      normal d' = length (filter (hasToken ''Normal'') (alerts d))"
    using calculateStatistics_counts [of d d'] by blast
  have t: "hasToken ''CRITICAL'' [(''Alert'', Str ''CRITICAL after WARNING'')] \<and>
      hasToken ''WARNING'' [(''Alert'', Str ''CRITICAL after WARNING'')] \<and>
      \<not> hasToken ''Normal'' [(''Alert'', Str ''CRITICAL after WARNING'')] \<and>
      \<not> hasToken ''CRITICAL'' [(''Alert'', Str ''critical, warning, NORMAL'')] \<and>
      \<not> hasToken ''WARNING'' [(''Alert'', Str ''critical, warning, NORMAL'')] \<and>
      \<not> hasToken ''Normal'' [(''Alert'', Str ''critical, warning, NORMAL'')]"
    by (simp add: hasToken_def get_def)
  have e: "\<exists>d1 m.
      loadDashboardData E rndS rndA (OkArray exampleReadings) (OkArray exampleAlerts)
        dashboardData = Some (Inr d1) \<and>
      critical d1 = 1 \<and> warnings d1 = 0 \<and> normal d1 = 0 \<and>
      machineMap E d1 = Inr [(Num (Fin 1), m)] \<and> status m = StatusCritical"
    by (intro exI conjI, rule example_load, simp, simp, simp, rule example_machineMap, simp)
  from g t e alertHas_labelled [of a token] show ?thesis
    by blast
qed

text \<open>The theorem at a state with the two labels above and a third that is no string:
  the first label is counted as critical and as warning, the second not at all.\<close>

theorem severity_by_substring_witness:
  "labelled [(''Alert'', Str ''CRITICAL after WARNING'')] \<and>
   alertHas ''WARNING'' [(''Alert'', Str ''CRITICAL after WARNING'')] = Inr True \<and>
   calculateStatistics (dashboardData\<lparr>alerts :=
       [[(''Alert'', Str ''CRITICAL after WARNING'')],
        [(''Alert'', Str ''critical, warning, NORMAL'')]]\<rparr>) =
     Inr (dashboardData\<lparr>alerts :=
       [[(''Alert'', Str ''CRITICAL after WARNING'')],
        [(''Alert'', Str ''critical, warning, NORMAL'')]],
       machines := 100, readings := 10000, critical := 1, warnings := 1, normal := 0,
       health := Fin (4999 / 50)\<rparr>) \<and>
   length (filter (hasToken ''CRITICAL'')
       [[(''Alert'', Str ''CRITICAL after WARNING'')],
        [(''Alert'', Str ''critical, warning, NORMAL'')]]) = 1 \<and>
   length (filter (hasToken ''WARNING'')
       [[(''Alert'', Str ''CRITICAL after WARNING'')],
        [(''Alert'', Str ''critical, warning, NORMAL'')]]) = 1 \<and>
   length (filter (hasToken ''Normal'')
       [[(''Alert'', Str ''CRITICAL after WARNING'')],
        [(''Alert'', Str ''critical, warning, NORMAL'')]]) = 0"
proof -
  let ?as = "[[(''Alert'', Str ''CRITICAL after WARNING'')],
        [(''Alert'', Str ''critical, warning, NORMAL'')]]"
  let ?d = "dashboardData\<lparr>alerts := ?as\<rparr>"
  let ?d' = "dashboardData\<lparr>alerts := ?as,
       machines := 100, readings := 10000, critical := 1, warnings := 1, normal := 0,
       health := Fin (4999 / 50)\<rparr>"
  note t = severity_by_substring [of ?d ?d' "[(''Alert'', Str ''CRITICAL after WARNING'')]"
      "''WARNING''" sampleEngine rndS rndA]
  have l: "labelled [(''Alert'', Str ''CRITICAL after WARNING'')]"
    by (simp add: labelled_def get_def)
  have e: "calculateStatistics ?d = Inr ?d'"
    by (simp add: calculateStatistics_def alertHas_def orElse_def dashboardData_def get_def
        js_sub_def)
  from l t have h: "alertHas ''WARNING'' [(''Alert'', Str ''CRITICAL after WARNING'')] = Inr True"
    by simp
  from e t have "critical ?d' = length (filter (hasToken ''CRITICAL'') (alerts ?d)) \<and>
      warnings ?d' = length (filter (hasToken ''WARNING'') (alerts ?d)) \<and>
      normal ?d' = length (filter (hasToken ''Normal'') (alerts ?d))"
    by blast
  then have c: "length (filter (hasToken ''CRITICAL'') ?as) = 1 \<and>
      length (filter (hasToken ''WARNING'') ?as) = 1 \<and>
      length (filter (hasToken ''Normal'') ?as) = 0"
    by (simp add: dashboardData_def)
  from l h e c show ?thesis
    by blast
qed

subsection \<open>The per-machine aggregator\<close>

lemma alertOfHas_eq:
  "labelled a \<or> \<not> alertOf i a \<Longrightarrow> alertOfHas token i a = Inr (alertOfWith token i a)"
  by (auto simp: alertOfHas_def alertOfWith_def alertHas_labelled)

lemma alertOfHas_Inr:
  "alertOfHas token i a = Inr b \<Longrightarrow> b = alertOfWith token i a"
  by (auto simp: alertOfHas_def alertOfWith_def split: if_splits dest: alertHas_Inr)

lemma filterE_alertOfHas:
  "list_all labelled as \<Longrightarrow>
     filterE (alertOfHas token i) as = Inr (filter (alertOfWith token i) as)"
  by (rule filterE_total) (simp add: list_all_iff alertOfHas_eq)

lemma filterE_cong_Inr:
  assumes "filterE p xs = Inr ys" and "\<And>x b. p x = Inr b \<Longrightarrow> b = q x"
  shows "ys = filter q xs"
  using assms
proof (induction xs arbitrary: ys)
  case Nil
  then show ?case by simp
next
  case (Cons x xs)
  then show ?case
    by (auto split: sum.splits if_splits)
qed

lemma filterE_alertOfHas_Inr:
  "filterE (alertOfHas token i) as = Inr ys \<Longrightarrow> ys = filter (alertOfWith token i) as"
  by (erule filterE_cong_Inr) (rule alertOfHas_Inr)

lemma finishMachine_Inr:
  assumes "finishMachine as e = Inr (i, m)"
  shows "i = fst e"
    and "avgTemp m = js_div (avgTemp (snd e)) (Fin (real (readingCount (snd e))))"
    and "avgVibration m = js_div (avgVibration (snd e)) (Fin (real (readingCount (snd e))))"
    and "lastTemp m = lastTemp (snd e)"
    and "lastVibration m = lastVibration (snd e)"
    and "readingCount m = readingCount (snd e)"
    and "alertCount m = length (filter (alertOf i) as)"
    and "status m =
           (if length (filter (alertOfWith ''CRITICAL'' i) as) > 0 then StatusCritical
            else if length (filter (alertOfWith ''WARNING'' i) as) > 0 then StatusWarning
            else StatusNormal)"
    and "healthScore m =
           Math_max (Fin 0)
             (js_sub (Fin 100)
                (js_add (devPct (lastTemp m) (avgTemp m))
                   (devPct (lastVibration m) (avgVibration m))))"
    and "riskScore m =
           riskOf (healthScore m) (length (filter (alertOfWith ''CRITICAL'' i) as))
             (length (filter (alertOfWith ''WARNING'' i) as))"
  using assms
  by (auto simp: finishMachine_def Let_def riskOf_def split: sum.splits
      dest!: filterE_alertOfHas_Inr)

lemma finishMachine_total:
  "list_all labelled as \<Longrightarrow> \<exists>r. finishMachine as e = Inr r"
  by (simp add: finishMachine_def Let_def filterE_alertOfHas)

lemma mapE_Inr:
  "mapE f xs = Inr ys \<Longrightarrow> y \<in> set ys \<Longrightarrow> \<exists>x \<in> set xs. f x = Inr y"
  by (induction xs arbitrary: ys) (auto split: sum.splits)

lemma mapE_total:
  "(\<And>x. \<exists>r. f x = Inr r) \<Longrightarrow> \<exists>ys. mapE f xs = Inr ys"
proof (induction xs)
  case Nil
  then show ?case by simp
next
  case (Cons x xs)
  from Cons.prems obtain r where "f x = Inr r" by blast
  moreover from Cons obtain ys where "mapE f xs = Inr ys" by blast
  ultimately show ?case by simp
qed

lemma riskOf_upper: "riskOf h c w \<noteq> PInf \<and> (\<forall>x. riskOf h c w = Fin x \<longrightarrow> x \<le> 100)"
proof -
  have "Math_min (Fin 100) n \<noteq> PInf \<and> (\<forall>x. Math_min (Fin 100) n = Fin x \<longrightarrow> x \<le> 100)" for n
    by (cases n) auto
  then show ?thesis
    unfolding riskOf_def by blast
qed

lemma devPct_nonneg:
  assumes "Number l = Fin x" "0 \<le> a"
  shows "\<exists>p. devPct l (Fin a) = Fin p \<and> 0 \<le> p"
  using assms by (auto simp: devPct_def js_sub_def)

lemma riskOf_range:
  assumes "0 \<le> p" "0 \<le> q"
  shows "\<exists>x. riskOf (Math_max (Fin 0) (js_sub (Fin 100) (js_add (Fin p) (Fin q)))) c w = Fin x \<and>
             0 \<le> x \<and> x \<le> 100"
proof -
  define h where "h = max 0 (100 - (p + q))"
  have h: "0 \<le> h" "h \<le> 100"
    using assms by (auto simp: h_def)
  have hs: "Math_max (Fin 0) (js_sub (Fin 100) (js_add (Fin p) (Fin q))) = Fin h"
    by (simp add: js_sub_def h_def)
  define t where "t = 100 - h + real (c * 5) + real (w * 2)"
  have "0 \<le> t" using h by (simp add: t_def)
  then have "0 \<le> \<lfloor>t + 1 / 2\<rfloor>" by simp
  then have "0 \<le> min 100 (real_of_int \<lfloor>t + 1 / 2\<rfloor>)" by simp
  moreover have "riskOf (Fin h) c w = Fin (min 100 (real_of_int \<lfloor>t + 1 / 2\<rfloor>))"
    by (simp add: riskOf_def js_sub_def t_def)
  ultimately have "\<exists>x. riskOf (Fin h) c w = Fin x \<and> 0 \<le> x \<and> x \<le> 100"
    by simp
  then show ?thesis
    unfolding hs .
qed

lemma addReading_eq:
  "addReading E mm r =
     map (\<lambda>(k, m). if k = get r ''machine_id'' then (k, stepMachine E m r) else (k, m))
       (if map_of mm (get r ''machine_id'') = None
        then mm @ [(get r ''machine_id'', newMachine (get r ''machine_id''))] else mm)"
  unfolding addReading_def stepMachine_def Let_def by (rule refl)

lemma addReading_keys:
  "map fst (addReading E mm r) =
     (if get r ''machine_id'' \<in> set (map fst mm) then map fst mm
      else map fst mm @ [get r ''machine_id''])"
proof -
  have "map fst (map (\<lambda>(k, m). if k = i then (k, f m) else (k, m)) xs) = map fst xs"
    for i :: jsval and f :: "machine \<Rightarrow> machine" and xs
    by (induction xs) auto
  then show ?thesis
    by (simp add: addReading_eq map_of_eq_None_iff)
qed

lemma entryOf_snoc: "entryOf E i (rows @ [r]) = stepMachine E (entryOf E i rows) r"
  by (simp add: entryOf_def)

lemma addReading_entries:
  assumes inv: "\<And>k m. (k, m) \<in> set mm \<Longrightarrow> m = entryOf E k (readingsOf k rs)"
    and keys: "set (map fst mm) = (\<lambda>r. get r ''machine_id'') ` set rs"
    and mem: "(k, m) \<in> set (addReading E mm r)"
  shows "m = entryOf E k (readingsOf k (rs @ [r]))"
proof -
  define i where "i = get r ''machine_id''"
  define mm1 where "mm1 = (if map_of mm i = None then mm @ [(i, newMachine i)] else mm)"
  from mem obtain m0 where m0: "(k, m0) \<in> set mm1"
    and m: "m = (if k = i then stepMachine E m0 r else m0)"
    unfolding addReading_eq i_def [symmetric] mm1_def [symmetric] by (auto split: if_splits)
  show ?thesis
  proof (cases "k = i")
    case False
    with m0 have "(k, m0) \<in> set mm"
      by (auto simp: mm1_def split: if_splits)
    then have "m0 = entryOf E k (readingsOf k rs)"
      by (rule inv)
    with False m show ?thesis
      by (simp add: readingsOf_def i_def)
  next
    case True
    have "m0 = entryOf E k (readingsOf k rs)"
    proof (cases "(k, m0) \<in> set mm")
      case True
      then show ?thesis by (rule inv)
    next
      case False
      with m0 have new: "m0 = newMachine i" "map_of mm i = None"
        by (auto simp: mm1_def split: if_splits)
      then have "i \<notin> set (map fst mm)"
        by (simp add: map_of_eq_None_iff)
      with keys have "readingsOf i rs = []"
        by (auto simp: readingsOf_def filter_empty_conv)
      with new True show ?thesis
        by (simp add: entryOf_def)
    qed
    with True m show ?thesis
      by (simp add: readingsOf_def i_def entryOf_snoc)
  qed
qed

lemma foldl_addReading:
  "distinct (map fst (foldl (addReading E) [] rs)) \<and>
   set (map fst (foldl (addReading E) [] rs)) = (\<lambda>r. get r ''machine_id'') ` set rs \<and>
   (\<forall>k m. (k, m) \<in> set (foldl (addReading E) [] rs) \<longrightarrow> m = entryOf E k (readingsOf k rs))"
proof (induction rs rule: rev_induct)
  case Nil
  then show ?case by simp
next
  case (snoc r rs)
  let ?mm = "foldl (addReading E) [] rs"
  from snoc have d: "distinct (map fst ?mm)"
    and k: "set (map fst ?mm) = (\<lambda>r. get r ''machine_id'') ` set rs"
    and e: "\<And>k m. (k, m) \<in> set ?mm \<Longrightarrow> m = entryOf E k (readingsOf k rs)"
    by blast+
  have d': "distinct (map fst (addReading E ?mm r))"
    using d by (simp add: addReading_keys)
  have k': "set (map fst (addReading E ?mm r)) = (\<lambda>r. get r ''machine_id'') ` set (rs @ [r])"
    using k by (auto simp: addReading_keys)
  have e': "m = entryOf E k (readingsOf k (rs @ [r]))"
    if "(k, m) \<in> set (addReading E ?mm r)" for k m
    using e k that by (rule addReading_entries)
  from d' k' e' show ?case
    by simp
qed

lemma entryOf_fields:
  "ident (entryOf E i rows) = i \<and>
   readingCount (entryOf E i rows) = length rows \<and>
   avgTemp (entryOf E i rows) = sumOf E ''temperature'' rows \<and>
   avgVibration (entryOf E i rows) = sumOf E ''vibration'' rows \<and>
   lastTemp (entryOf E i rows) =
     (if rows = [] then Null else Num (parseFloat E (get (last rows) ''temperature''))) \<and>
   lastVibration (entryOf E i rows) =
     (if rows = [] then Null else Num (parseFloat E (get (last rows) ''vibration'')))"
proof (induction rows rule: rev_induct)
  case Nil
  then show ?case
    by (simp add: entryOf_def newMachine_def sumOf_def)
next
  case (snoc r rows)
  then show ?case
    by (simp add: entryOf_snoc stepMachine_def sumOf_def)
qed

lemma finishMachine_ident:
  "finishMachine as e = Inr (i, m) \<Longrightarrow> ident m = ident (snd e)"
  by (auto simp: finishMachine_def Let_def split: sum.splits)

lemma mapE_finishMachine_keys:
  "mapE (finishMachine as) xs = Inr ys \<Longrightarrow> map fst ys = map fst xs"
proof (induction xs arbitrary: ys)
  case Nil
  then show ?case by simp
next
  case (Cons x xs)
  from Cons.prems obtain y ys' where y: "finishMachine as x = Inr y"
    and ys': "mapE (finishMachine as) xs = Inr ys'" and ys: "ys = y # ys'"
    by (auto split: sum.splits)
  from y have "fst y = fst x"
    using finishMachine_Inr(1) [of as x "fst y" "snd y"] by simp
  with Cons.IH [OF ys'] ys show ?case
    by simp
qed

lemma filterE_replicate:
  "filterE p (replicate n x) =
     (case p x of
        Inl e \<Rightarrow> if n = 0 then Inr [] else Inl e
      | Inr b \<Rightarrow> Inr (if b then replicate n x else []))"
  by (induction n) (auto split: sum.splits)

lemma filter_replicate_if: "filter P (replicate n x) = (if P x then replicate n x else [])"
  by (induction n) auto

text \<open>
  Claim C6, as the code has it. The aggregation has one machine for each machine id of the
  readings. For every machine of it, the average temperature and vibration are the sums
  of the machine's readings, added up from 0 in the order of the data, divided by their
  number, and the last temperature and vibration are those of the machine's last
  reading. The health score is \<open>max(0, 100 - (tempDevPct + vibDevPct))\<close>, where a
  deviation is \<open>|last - avg| / avg * 100\<close> and 0 when the average is zero, and the risk
  score is \<open>min(100, round((100 - healthScore) + 5 * criticalAlerts + 2 *
  warningAlerts))\<close> on the numbers of the machine's alerts whose label contains
  \<open>CRITICAL\<close> and \<open>WARNING\<close>. The risk score is never above 100, whatever the number of
  alerts. It is at least 0 when the averages are finite and not negative and the last
  readings are finite. The aggregation returns whenever every alert label is a string or
  falsy.
\<close>

theorem per_machine_scores:
  "(machineMap E d = Inr mm \<and> (i, m) \<in> set mm \<longrightarrow>
      readingsOf i (sensorData d) \<noteq> [] \<and>
      ident m = i \<and>
      readingCount m = length (readingsOf i (sensorData d)) \<and>
      avgTemp m =
        js_div (sumOf E ''temperature'' (readingsOf i (sensorData d)))
          (Fin (real (length (readingsOf i (sensorData d))))) \<and>
      avgVibration m =
        js_div (sumOf E ''vibration'' (readingsOf i (sensorData d)))
          (Fin (real (length (readingsOf i (sensorData d))))) \<and>
      lastTemp m =
        Num (parseFloat E (get (last (readingsOf i (sensorData d))) ''temperature'')) \<and>
      lastVibration m =
        Num (parseFloat E (get (last (readingsOf i (sensorData d))) ''vibration'')) \<and>
      alertCount m = length (filter (alertOf i) (alerts d)) \<and>
      status m =
        (if length (filter (alertOfWith ''CRITICAL'' i) (alerts d)) > 0 then StatusCritical
         else if length (filter (alertOfWith ''WARNING'' i) (alerts d)) > 0 then StatusWarning
         else StatusNormal) \<and>
      healthScore m =
        Math_max (Fin 0)
          (js_sub (Fin 100)
             (js_add (devPct (lastTemp m) (avgTemp m))
                (devPct (lastVibration m) (avgVibration m)))) \<and>
      riskScore m =
        riskOf (healthScore m) (length (filter (alertOfWith ''CRITICAL'' i) (alerts d)))
          (length (filter (alertOfWith ''WARNING'' i) (alerts d))) \<and>
      riskScore m \<noteq> PInf \<and>
      (\<forall>x. riskScore m = Fin x \<longrightarrow> x \<le> 100) \<and>
      (\<forall>a l b k.
         avgTemp m = Fin a \<and> 0 \<le> a \<and> Number (lastTemp m) = Fin l \<and>
         avgVibration m = Fin b \<and> 0 \<le> b \<and> Number (lastVibration m) = Fin k \<longrightarrow>
         (\<exists>x. riskScore m = Fin x \<and> 0 \<le> x \<and> x \<le> 100))) \<and>
   (machineMap E d = Inr mm \<longrightarrow>
      distinct (map fst mm) \<and>
      set (map fst mm) = (\<lambda>r. get r ''machine_id'') ` set (sensorData d)) \<and>
   devPct v (Fin 0) = Fin 0 \<and>
   (Number v = Fin y \<and> z \<noteq> 0 \<longrightarrow> devPct v (Fin z) = Fin (\<bar>y - z\<bar> / z * 100)) \<and>
   riskOf h c w =
     Math_min (Fin 100)
       (Math_round
          (js_add (js_add (js_sub (Fin 100) h) (Fin (real (c * 5)))) (Fin (real (w * 2))))) \<and>
   (list_all labelled (alerts d) \<longrightarrow> (\<exists>mm. machineMap E d = Inr mm))"
proof -
  have tot: "list_all labelled (alerts d) \<longrightarrow> (\<exists>mm. machineMap E d = Inr mm)"
    unfolding machineMap_def using mapE_total finishMachine_total by metis
  have dev: "devPct v (Fin 0) = Fin 0 \<and>
      (Number v = Fin y \<and> z \<noteq> 0 \<longrightarrow> devPct v (Fin z) = Fin (\<bar>y - z\<bar> / z * 100))"
    by (simp add: devPct_def js_sub_def)
  note inv = foldl_addReading [of E "sensorData d"]
  have keys: "distinct (map fst mm) \<and>
      set (map fst mm) = (\<lambda>r. get r ''machine_id'') ` set (sensorData d)"
    if ok: "machineMap E d = Inr mm"
  proof -
    from ok have "map fst mm = map fst (foldl (addReading E) [] (sensorData d))"
      unfolding machineMap_def by (rule mapE_finishMachine_keys)
    with inv show ?thesis
      by simp
  qed
  have main: "readingsOf i (sensorData d) \<noteq> [] \<and>
      ident m = i \<and>
      readingCount m = length (readingsOf i (sensorData d)) \<and>
      avgTemp m =
        js_div (sumOf E ''temperature'' (readingsOf i (sensorData d)))
          (Fin (real (length (readingsOf i (sensorData d))))) \<and>
      avgVibration m =
        js_div (sumOf E ''vibration'' (readingsOf i (sensorData d)))
          (Fin (real (length (readingsOf i (sensorData d))))) \<and>
      lastTemp m =
        Num (parseFloat E (get (last (readingsOf i (sensorData d))) ''temperature'')) \<and>
      lastVibration m =
        Num (parseFloat E (get (last (readingsOf i (sensorData d))) ''vibration'')) \<and>
      alertCount m = length (filter (alertOf i) (alerts d)) \<and>
      status m =
        (if length (filter (alertOfWith ''CRITICAL'' i) (alerts d)) > 0 then StatusCritical
         else if length (filter (alertOfWith ''WARNING'' i) (alerts d)) > 0 then StatusWarning
         else StatusNormal) \<and>
      healthScore m =
        Math_max (Fin 0)
          (js_sub (Fin 100)
             (js_add (devPct (lastTemp m) (avgTemp m))
                (devPct (lastVibration m) (avgVibration m)))) \<and>
      riskScore m =
        riskOf (healthScore m) (length (filter (alertOfWith ''CRITICAL'' i) (alerts d)))
          (length (filter (alertOfWith ''WARNING'' i) (alerts d))) \<and>
      riskScore m \<noteq> PInf \<and>
      (\<forall>x. riskScore m = Fin x \<longrightarrow> x \<le> 100) \<and>
      (\<forall>a l b k.
         avgTemp m = Fin a \<and> 0 \<le> a \<and> Number (lastTemp m) = Fin l \<and>
         avgVibration m = Fin b \<and> 0 \<le> b \<and> Number (lastVibration m) = Fin k \<longrightarrow>
         (\<exists>x. riskScore m = Fin x \<and> 0 \<le> x \<and> x \<le> 100))"
    if ok: "machineMap E d = Inr mm" and mem: "(i, m) \<in> set mm"
  proof -
    define rows where "rows = readingsOf i (sensorData d)"
    from ok mem obtain e where e: "finishMachine (alerts d) e = Inr (i, m)"
      and e_mem: "e \<in> set (foldl (addReading E) [] (sensorData d))"
      unfolding machineMap_def by (blast dest: mapE_Inr)
    note f = finishMachine_Inr [OF e]
    from f(1) e_mem have "(i, snd e) \<in> set (foldl (addReading E) [] (sensorData d))"
      by simp
    with inv have entry: "snd e = entryOf E i rows"
      unfolding rows_def by blast
    note ef = entryOf_fields [of E i rows]
    from mem keys [OF ok] have "i \<in> (\<lambda>r. get r ''machine_id'') ` set (sensorData d)"
      by force
    then have ne: "rows \<noteq> []"
      by (auto simp: rows_def readingsOf_def filter_empty_conv)
    have id: "ident m = i"
      using finishMachine_ident [OF e] ef by (simp add: entry)
    have rc: "readingCount m = length rows"
      using f(6) ef by (simp add: entry)
    have at: "avgTemp m = js_div (sumOf E ''temperature'' rows) (Fin (real (length rows)))"
      using f(2) ef by (simp add: entry)
    have av: "avgVibration m = js_div (sumOf E ''vibration'' rows) (Fin (real (length rows)))"
      using f(3) ef by (simp add: entry)
    have lt: "lastTemp m = Num (parseFloat E (get (last rows) ''temperature''))"
      using f(4) ef ne by (simp add: entry)
    have lv: "lastVibration m = Num (parseFloat E (get (last rows) ''vibration''))"
      using f(5) ef ne by (simp add: entry)
    define cn where "cn = length (filter (alertOfWith ''CRITICAL'' i) (alerts d))"
    define wn where "wn = length (filter (alertOfWith ''WARNING'' i) (alerts d))"
    have ac: "alertCount m = length (filter (alertOf i) (alerts d))"
      by (rule f(7))
    have st: "status m =
        (if cn > 0 then StatusCritical else if wn > 0 then StatusWarning else StatusNormal)"
      unfolding cn_def wn_def by (rule f(8))
    have hs: "healthScore m =
        Math_max (Fin 0)
          (js_sub (Fin 100)
             (js_add (devPct (lastTemp m) (avgTemp m))
                (devPct (lastVibration m) (avgVibration m))))"
      by (rule f(9))
    have rs: "riskScore m = riskOf (healthScore m) cn wn"
      unfolding cn_def wn_def by (rule f(10))
    have up: "riskScore m \<noteq> PInf \<and> (\<forall>x. riskScore m = Fin x \<longrightarrow> x \<le> 100)"
      unfolding rs by (rule riskOf_upper)
    have lo: "\<exists>x. riskScore m = Fin x \<and> 0 \<le> x \<and> x \<le> 100"
      if "avgTemp m = Fin a" "0 \<le> a" "Number (lastTemp m) = Fin l"
        "avgVibration m = Fin b" "0 \<le> b" "Number (lastVibration m) = Fin k" for a l b k
    proof -
      from that devPct_nonneg [of "lastTemp m" l a]
      obtain p where p: "devPct (lastTemp m) (avgTemp m) = Fin p" "0 \<le> p"
        by auto
      from that devPct_nonneg [of "lastVibration m" k b]
      obtain q where q: "devPct (lastVibration m) (avgVibration m) = Fin q" "0 \<le> q"
        by auto
      from riskOf_range [OF p(2) q(2), of cn wn] show ?thesis
        unfolding rs hs p(1) q(1) .
    qed
    from ne id rc at av lt lv ac st hs rs up lo show ?thesis
      unfolding cn_def wn_def rows_def by blast
  qed
  from tot dev main keys show ?thesis
    unfolding riskOf_def by blast
qed

text \<open>The theorem at the example of four machines and at the example of fifty critical
  alerts. Machine 1 has two readings among the nine, the averages 256 and 2000, the
  deviations 25 and 50 percent, health 25 and risk 82; machine 3 deviates by 300 percent,
  so its health is cut to 0 and its risk to 100; machine 4 has the average 0 and no
  deviation. Under fifty critical alerts the risk is cut from 250 to 100.\<close>

theorem per_machine_scores_witness:
  "list_all labelled (alerts aggregatorExample) \<and>
   machineMap sampleEngine aggregatorExample = Inr aggregatorMachines \<and>
   map fst aggregatorMachines = [Num (Fin 1), Num (Fin 2), Num (Fin 3), Num (Fin 4)] \<and>
   readingsOf (Num (Fin 1)) (sensorData aggregatorExample) =
     [[(''machine_id'', Num (Fin 1)), (''temperature'', Num (Fin 192)),
       (''vibration'', Num (Fin 1000)), (''timestamp'', Num (Fin 1))],
      [(''machine_id'', Num (Fin 1)), (''temperature'', Num (Fin 320)),
       (''vibration'', Num (Fin 3000)), (''timestamp'', Num (Fin 5))]] \<and>
   sumOf sampleEngine ''temperature'' (readingsOf (Num (Fin 1)) (sensorData aggregatorExample)) =
     Fin 512 \<and>
   sumOf sampleEngine ''vibration'' (readingsOf (Num (Fin 1)) (sensorData aggregatorExample)) =
     Fin 4000 \<and>
   avgTemp (snd (aggregatorMachines ! 0)) = Fin 256 \<and>
   avgVibration (snd (aggregatorMachines ! 0)) = Fin 2000 \<and>
   lastTemp (snd (aggregatorMachines ! 0)) = Num (Fin 320) \<and>
   lastVibration (snd (aggregatorMachines ! 0)) = Num (Fin 3000) \<and>
   devPct (Num (Fin 320)) (Fin 256) = Fin 25 \<and>
   devPct (Num (Fin 3000)) (Fin 2000) = Fin 50 \<and>
   length (filter (alertOfWith ''CRITICAL'' (Num (Fin 1))) (alerts aggregatorExample)) = 1 \<and>
   length (filter (alertOfWith ''WARNING'' (Num (Fin 1))) (alerts aggregatorExample)) = 1 \<and>
   healthScore (snd (aggregatorMachines ! 0)) = Fin 25 \<and>
   riskScore (snd (aggregatorMachines ! 0)) = Fin 82 \<and>
   riskOf (Fin 25) 1 1 = Fin 82 \<and>
   status (snd (aggregatorMachines ! 0)) = StatusCritical \<and>
   devPct (Num (Fin 4000)) (Fin 1000) = Fin 300 \<and>
   healthScore (snd (aggregatorMachines ! 2)) = Fin 0 \<and>
   riskScore (snd (aggregatorMachines ! 2)) = Fin 100 \<and>
   riskOf (Fin 0) 1 0 = Fin 100 \<and>
   avgTemp (snd (aggregatorMachines ! 3)) = Fin 0 \<and>
   devPct (Num (Fin 0)) (Fin 0) = Fin 0 \<and>
   healthScore (snd (aggregatorMachines ! 3)) = Fin 100 \<and>
   riskScore (snd (aggregatorMachines ! 3)) = Fin 0 \<and>
   list_all labelled (alerts fiftyAlertsExample) \<and>
   machineMap sampleEngine fiftyAlertsExample = Inr [(Num (Fin 1), fiftyAlertsMachine)] \<and>
   length (filter (alertOfWith ''CRITICAL'' (Num (Fin 1))) (alerts fiftyAlertsExample)) = 50 \<and>
   healthScore fiftyAlertsMachine = Fin 100 \<and>
   riskOf (Fin 100) 50 0 = Fin 100 \<and>
   riskScore fiftyAlertsMachine = Fin 100 \<and>
   (\<exists>x. riskScore fiftyAlertsMachine = Fin x \<and> 0 \<le> x \<and> x \<le> 100)"
proof -
  let ?m1 = "snd (aggregatorMachines ! 0)"
  let ?m3 = "snd (aggregatorMachines ! 2)"
  let ?m4 = "snd (aggregatorMachines ! 3)"
  let ?rows = "readingsOf (Num (Fin 1)) (sensorData aggregatorExample)"
  note label_defs = alertHighTemperature_def alertTemperatureSpike_def
    alertExcessiveVibration_def alertNormal_def
  note t1 = per_machine_scores [of sampleEngine aggregatorExample aggregatorMachines
      "Num (Fin 1)" ?m1 "Num (Fin 320)" 320 256 "Fin 25" 1 1]
  note t1v = per_machine_scores [of sampleEngine aggregatorExample aggregatorMachines
      "Num (Fin 1)" ?m1 "Num (Fin 3000)" 3000 2000 "Fin 25" 1 1]
  note t3 = per_machine_scores [of sampleEngine aggregatorExample aggregatorMachines
      "Num (Fin 3)" ?m3 "Num (Fin 4000)" 4000 1000 "Fin 0" 1 0]
  note t4 = per_machine_scores [of sampleEngine aggregatorExample aggregatorMachines
      "Num (Fin 4)" ?m4 "Num (Fin 0)" 0 1 "Fin 100" 0 0]
  note t5 = per_machine_scores [of sampleEngine fiftyAlertsExample
      "[(Num (Fin 1), fiftyAlertsMachine)]" "Num (Fin 1)" fiftyAlertsMachine
      "Num (Fin 330)" 330 330 "Fin 100" 50 0]
  have a: "list_all labelled (alerts aggregatorExample)"
    by (simp add: aggregatorExample_def aggregatorAlerts_def alertRow_def labelled_def get_def)
  have e: "machineMap sampleEngine aggregatorExample = Inr aggregatorMachines"
    by (simp add: machineMap_def finishMachine_def addReading_def newMachine_def devPct_def
        dashboardData_def aggregatorExample_def aggregatorMachines_def aggregatorReadings_def
        aggregatorAlerts_def alertRow_def get_def js_sub_def number_defs string_defs
        alertOfHas_def alertOf_def alertHas_def looseEq_def nullish_def label_defs)
  have k: "map fst aggregatorMachines = [Num (Fin 1), Num (Fin 2), Num (Fin 3), Num (Fin 4)]"
    by (simp add: aggregatorMachines_def)
  have mem1: "(Num (Fin 1), ?m1) \<in> set aggregatorMachines"
    and mem3: "(Num (Fin 3), ?m3) \<in> set aggregatorMachines"
    and mem4: "(Num (Fin 4), ?m4) \<in> set aggregatorMachines"
    by (simp_all add: aggregatorMachines_def)
  have rows: "?rows =
     [[(''machine_id'', Num (Fin 1)), (''temperature'', Num (Fin 192)),
       (''vibration'', Num (Fin 1000)), (''timestamp'', Num (Fin 1))],
      [(''machine_id'', Num (Fin 1)), (''temperature'', Num (Fin 320)),
       (''vibration'', Num (Fin 3000)), (''timestamp'', Num (Fin 5))]]"
    by (simp add: readingsOf_def aggregatorExample_def aggregatorReadings_def get_def)
  have st: "sumOf sampleEngine ''temperature'' ?rows = Fin 512"
    unfolding rows by (simp add: sumOf_def get_def number_defs string_defs)
  have sv: "sumOf sampleEngine ''vibration'' ?rows = Fin 4000"
    unfolding rows by (simp add: sumOf_def get_def number_defs string_defs)
  from t1 e mem1 have "avgTemp ?m1 = js_div (sumOf sampleEngine ''temperature'' ?rows)
        (Fin (real (length ?rows))) \<and>
      avgVibration ?m1 = js_div (sumOf sampleEngine ''vibration'' ?rows)
        (Fin (real (length ?rows))) \<and>
      lastTemp ?m1 = Num (parseFloat sampleEngine (get (last ?rows) ''temperature'')) \<and>
      lastVibration ?m1 = Num (parseFloat sampleEngine (get (last ?rows) ''vibration''))"
    by blast
  then have avg1: "avgTemp ?m1 = Fin 256 \<and> avgVibration ?m1 = Fin 2000 \<and>
      lastTemp ?m1 = Num (Fin 320) \<and> lastVibration ?m1 = Num (Fin 3000)"
    unfolding st sv unfolding rows by (simp add: get_def number_defs string_defs)
  have n1: "Number (Num (Fin 320)) = Fin 320 \<and> (256 :: real) \<noteq> 0"
    by simp
  with t1 have "devPct (Num (Fin 320)) (Fin 256) = Fin (\<bar>320 - 256\<bar> / 256 * 100)"
    by blast
  then have d1: "devPct (Num (Fin 320)) (Fin 256) = Fin 25"
    by simp
  have n1v: "Number (Num (Fin 3000)) = Fin 3000 \<and> (2000 :: real) \<noteq> 0"
    by simp
  with t1v have "devPct (Num (Fin 3000)) (Fin 2000) = Fin (\<bar>3000 - 2000\<bar> / 2000 * 100)"
    by blast
  then have d1v: "devPct (Num (Fin 3000)) (Fin 2000) = Fin 50"
    by simp
  have c1: "length (filter (alertOfWith ''CRITICAL'' (Num (Fin 1))) (alerts aggregatorExample)) = 1 \<and>
      length (filter (alertOfWith ''WARNING'' (Num (Fin 1))) (alerts aggregatorExample)) = 1"
    by (simp add: aggregatorExample_def aggregatorAlerts_def alertRow_def alertOfWith_def
        alertOf_def hasToken_def looseEq_def nullish_def get_def label_defs)
  from t1 e mem1 have "healthScore ?m1 =
        Math_max (Fin 0)
          (js_sub (Fin 100)
             (js_add (devPct (lastTemp ?m1) (avgTemp ?m1))
                (devPct (lastVibration ?m1) (avgVibration ?m1)))) \<and>
      riskScore ?m1 =
        riskOf (healthScore ?m1)
          (length (filter (alertOfWith ''CRITICAL'' (Num (Fin 1))) (alerts aggregatorExample)))
          (length (filter (alertOfWith ''WARNING'' (Num (Fin 1))) (alerts aggregatorExample))) \<and>
      status ?m1 =
        (if length (filter (alertOfWith ''CRITICAL'' (Num (Fin 1))) (alerts aggregatorExample)) > 0
         then StatusCritical
         else if length (filter (alertOfWith ''WARNING'' (Num (Fin 1)))
                   (alerts aggregatorExample)) > 0
         then StatusWarning else StatusNormal)"
    by blast
  then have h1: "healthScore ?m1 = Fin 25 \<and> riskScore ?m1 = Fin 82 \<and>
      status ?m1 = StatusCritical"
    by (simp add: aggregatorMachines_def)
  from t1 have "riskOf (Fin 25) 1 1 =
     Math_min (Fin 100)
       (Math_round
          (js_add (js_add (js_sub (Fin 100) (Fin 25)) (Fin (real (1 * 5))))
             (Fin (real (1 * 2)))))"
    by blast
  then have r1: "riskOf (Fin 25) 1 1 = Fin 82"
    by (simp add: js_sub_def)
  have n3: "Number (Num (Fin 4000)) = Fin 4000 \<and> (1000 :: real) \<noteq> 0"
    by simp
  with t3 have "devPct (Num (Fin 4000)) (Fin 1000) = Fin (\<bar>4000 - 1000\<bar> / 1000 * 100)"
    by blast
  then have d3: "devPct (Num (Fin 4000)) (Fin 1000) = Fin 300"
    by simp
  from t3 e mem3 have "healthScore ?m3 =
        Math_max (Fin 0)
          (js_sub (Fin 100)
             (js_add (devPct (lastTemp ?m3) (avgTemp ?m3))
                (devPct (lastVibration ?m3) (avgVibration ?m3))))"
    by blast
  then have h3: "healthScore ?m3 = Fin 0 \<and> riskScore ?m3 = Fin 100"
    by (simp add: aggregatorMachines_def)
  from t3 have "riskOf (Fin 0) 1 0 =
     Math_min (Fin 100)
       (Math_round
          (js_add (js_add (js_sub (Fin 100) (Fin 0)) (Fin (real (1 * 5))))
             (Fin (real (0 * 2)))))"
    by blast
  then have r3: "riskOf (Fin 0) 1 0 = Fin 100"
    by (simp add: js_sub_def)
  from t4 have d4: "devPct (Num (Fin 0)) (Fin 0) = Fin 0"
    by blast
  from t4 e mem4 have "healthScore ?m4 =
        Math_max (Fin 0)
          (js_sub (Fin 100)
             (js_add (devPct (lastTemp ?m4) (avgTemp ?m4))
                (devPct (lastVibration ?m4) (avgVibration ?m4))))"
    by blast
  then have h4: "avgTemp ?m4 = Fin 0 \<and> healthScore ?m4 = Fin 100 \<and> riskScore ?m4 = Fin 0"
    by (simp add: aggregatorMachines_def)
  have a5: "list_all labelled (alerts fiftyAlertsExample)"
    by (simp add: fiftyAlertsExample_def alertRow_def labelled_def get_def list_all_iff)
  have e5: "machineMap sampleEngine fiftyAlertsExample = Inr [(Num (Fin 1), fiftyAlertsMachine)]"
    by (simp add: machineMap_def finishMachine_def addReading_def newMachine_def devPct_def
        dashboardData_def fiftyAlertsExample_def fiftyAlertsMachine_def exampleReadings_def
        alertRow_def get_def js_sub_def number_defs string_defs alertOfHas_def alertOf_def
        alertHas_def looseEq_def nullish_def filterE_replicate filter_replicate_if label_defs)
  then have hyp5: "machineMap sampleEngine fiftyAlertsExample =
        Inr [(Num (Fin 1), fiftyAlertsMachine)] \<and>
      (Num (Fin 1), fiftyAlertsMachine) \<in> set [(Num (Fin 1), fiftyAlertsMachine)]"
    by simp
  have c5: "length (filter (alertOfWith ''CRITICAL'' (Num (Fin 1)))
      (alerts fiftyAlertsExample)) = 50"
    by (simp add: fiftyAlertsExample_def alertRow_def alertOfWith_def alertOf_def hasToken_def
        looseEq_def nullish_def get_def filter_replicate_if label_defs)
  from t5 hyp5 have "riskScore fiftyAlertsMachine =
        riskOf (healthScore fiftyAlertsMachine)
          (length (filter (alertOfWith ''CRITICAL'' (Num (Fin 1))) (alerts fiftyAlertsExample)))
          (length (filter (alertOfWith ''WARNING'' (Num (Fin 1))) (alerts fiftyAlertsExample)))"
    by blast
  then have h5: "healthScore fiftyAlertsMachine = Fin 100 \<and>
      riskScore fiftyAlertsMachine = Fin 100"
    by (simp add: fiftyAlertsMachine_def)
  from t5 have "riskOf (Fin 100) 50 0 =
     Math_min (Fin 100)
       (Math_round
          (js_add (js_add (js_sub (Fin 100) (Fin 100)) (Fin (real (50 * 5))))
             (Fin (real (0 * 2)))))"
    by blast
  then have r5: "riskOf (Fin 100) 50 0 = Fin 100"
    by (simp add: js_sub_def)
  from t5 hyp5 have "\<forall>a l b k.
         avgTemp fiftyAlertsMachine = Fin a \<and> 0 \<le> a \<and>
         Number (lastTemp fiftyAlertsMachine) = Fin l \<and>
         avgVibration fiftyAlertsMachine = Fin b \<and> 0 \<le> b \<and>
         Number (lastVibration fiftyAlertsMachine) = Fin k \<longrightarrow>
         (\<exists>x. riskScore fiftyAlertsMachine = Fin x \<and> 0 \<le> x \<and> x \<le> 100)"
    by blast
  then have b5: "\<exists>x. riskScore fiftyAlertsMachine = Fin x \<and> 0 \<le> x \<and> x \<le> 100"
    by (simp add: fiftyAlertsMachine_def)
  from a e k rows st sv avg1 d1 d1v c1 h1 r1 d3 h3 r3 d4 h4 a5 e5 c5 h5 r5 b5 show ?thesis
    by blast
qed

text \<open>Claim C6 as stated fails at a machine whose readings are negative, as
  temperatures in degrees Celsius can be: two readings of -10 and -20 give the average
  -15, a deviation of -33.3 percent, the health score 133.3 and the risk score -33,
  below 0. It fails also at a reading that is infinite, as the sensor normalizer lets
  through: the deviation, the health score and the risk score are \<open>NaN\<close>.\<close>

theorem risk_score_negative_counterexample:
  "machineMap sampleEngine (dashboardData\<lparr>sensorData :=
      [[(''machine_id'', Num (Fin 1)), (''temperature'', Num (Fin (- 10))),
        (''vibration'', Num (Fin 0)), (''timestamp'', Num (Fin 1))],
       [(''machine_id'', Num (Fin 1)), (''temperature'', Num (Fin (- 20))),
        (''vibration'', Num (Fin 0)), (''timestamp'', Num (Fin 2))]]\<rparr>) =
   Inr [(Num (Fin 1),
         \<lparr>ident = Num (Fin 1), readingCount = 2, avgTemp = Fin (- 15), avgVibration = Fin 0,
          lastTemp = Num (Fin (- 20)), lastVibration = Num (Fin 0), alertCount = 0,
          status = StatusNormal, healthScore = Fin (400 / 3), riskScore = Fin (- 33)\<rparr>)] \<and>
   machineMap sampleEngine (dashboardData\<lparr>sensorData :=
      [[(''machine_id'', Num (Fin 1)), (''temperature'', Num PInf),
        (''vibration'', Num (Fin 0)), (''timestamp'', Num (Fin 1))]]\<rparr>) =
   Inr [(Num (Fin 1),
         \<lparr>ident = Num (Fin 1), readingCount = 1, avgTemp = PInf, avgVibration = Fin 0,
          lastTemp = Num PInf, lastVibration = Num (Fin 0), alertCount = 0,
          status = StatusNormal, healthScore = NaN, riskScore = NaN\<rparr>)]"
  by (simp add: machineMap_def finishMachine_def addReading_def newMachine_def devPct_def
      dashboardData_def get_def js_sub_def js_inf_def number_defs string_defs)

subsection \<open>Mock data\<close>

lemma sensorLoop_length:
  "length (sensorLoop rnd k i data) = length data + (1001 - i)"
proof (induction rnd k i data rule: sensorLoop.induct)
  case (1 rnd k i data)
  show ?case
  proof (cases "i \<le> 1000")
    case True
    with "1" show ?thesis
      by (subst sensorLoop.simps) simp
  next
    case False
    then show ?thesis
      by (subst sensorLoop.simps) simp
  qed
qed

lemma sensorLoop_all:
  "(\<And>k i. P (mockSensorRow rnd k i)) \<Longrightarrow> list_all P data \<Longrightarrow>
     list_all P (sensorLoop rnd k i data)"
proof (induction rnd k i data rule: sensorLoop.induct)
  case (1 rnd k i data)
  show ?case
  proof (cases "i \<le> 1000")
    case True
    with "1" show ?thesis
      by (subst sensorLoop.simps) auto
  next
    case False
    with "1.prems" show ?thesis
      by (subst sensorLoop.simps) simp
  qed
qed

lemma alertLoop_length:
  "length (alertLoop E rnd k i data) = length data + (1001 - i)"
proof (induction E rnd k i data rule: alertLoop.induct)
  case (1 E rnd k i data)
  show ?case
  proof (cases "i \<le> 1000")
    case True
    with "1" show ?thesis
      by (subst alertLoop.simps) simp
  next
    case False
    then show ?thesis
      by (subst alertLoop.simps) simp
  qed
qed

lemma alertLoop_all:
  "(\<And>k i. P (fst (mockAlertRow E rnd k i))) \<Longrightarrow> list_all P data \<Longrightarrow>
     list_all P (alertLoop E rnd k i data)"
proof (induction E rnd k i data rule: alertLoop.induct)
  case (1 E rnd k i data)
  show ?case
  proof (cases "i \<le> 1000")
    case True
    with "1" show ?thesis
      by (subst alertLoop.simps) auto
  next
    case False
    with "1.prems" show ?thesis
      by (subst alertLoop.simps) simp
  qed
qed

lemma alertLoop_append:
  "alertLoop E rnd k i (d1 @ d2) = d1 @ alertLoop E rnd k i d2"
proof (induction E rnd k i d2 arbitrary: d1 rule: alertLoop.induct)
  case (1 E rnd k i data)
  show ?case
  proof (cases "i \<le> 1000")
    case True
    have "alertLoop E rnd k i (d1 @ data) =
        alertLoop E rnd (snd (mockAlertRow E rnd k i)) (i + 1)
          (d1 @ (data @ [fst (mockAlertRow E rnd k i)]))"
      using True by (subst alertLoop.simps) simp
    also have "\<dots> = d1 @ alertLoop E rnd (snd (mockAlertRow E rnd k i)) (i + 1)
          (data @ [fst (mockAlertRow E rnd k i)])"
      by (rule "1" [OF True])
    also have "\<dots> = d1 @ alertLoop E rnd k i data"
      using True by (subst (2) alertLoop.simps) simp
    finally show ?thesis .
  next
    case False
    then show ?thesis
      by (subst (1 2) alertLoop.simps) simp
  qed
qed

lemma alertLoop_first:
  "alertLoop E rnd 0 1 [] =
     fst (mockAlertRow E rnd 0 1) # alertLoop E rnd (snd (mockAlertRow E rnd 0 1)) 2 []"
proof -
  have "alertLoop E rnd 0 1 [] =
      alertLoop E rnd (snd (mockAlertRow E rnd 0 1)) 2 ([fst (mockAlertRow E rnd 0 1)] @ [])"
    by (subst alertLoop.simps) (simp add: numeral_2_eq_2)
  then show ?thesis
    by (simp only: alertLoop_append) simp
qed

lemma mockSensorRow_shape: "normalizedSensorShape (mockSensorRow rnd k i)"
  by (simp add: normalizedSensorShape_def mockSensorRow_def get_def finiteNumber_def
      wholeNumber_def)

lemma mockAlertRow_shape: "rawAlertShape (fst (mockAlertRow E rnd k i))"
  by (simp add: mockAlertRow_def rawAlertShape_def fieldNames_def get_def Let_def
      finiteNumber_def mockLabels_def)

lemma rawAlertShape_not_normalized: "rawAlertShape r \<Longrightarrow> \<not> normalizedAlertShape r"
proof -
  assume "rawAlertShape r"
  then have "''temperature'' \<notin> set (map fst r)"
    by (simp add: rawAlertShape_def fieldNames_def)
  then have "map_of r ''temperature'' = None"
    by (simp add: map_of_eq_None_iff)
  then show ?thesis
    by (simp add: normalizedAlertShape_def get_def floatOrNull_def)
qed

lemma normalizeAlertRow_shape: "normalizedAlertShape (normalizeAlertRow E r)"
  by (simp add: normalizedAlertShape_def alert_temperature_eq alert_Alert_eq floatOrNull_def)
    (simp add: normalizeAlertRow_def get_def Let_def)

lemma first_mock_alert:
  "fst (mockAlertRow sampleEngine zeroDraws 0 1) =
     [(''Machine'', Num (Fin 1)), (''Time'', Num (Fin 1)), (''Temp'', Str ''295.0K''),
      (''Vibration'', Str ''1200''), (''Avg_Temp'', Str ''293.0K''),
      (''Temp_Dev'', Str ''0K''), (''Alert'', Str alertNormal)]"
  by (simp add: mockAlertRow_def toFixed_def zeroDraws_def number_defs string_defs)

lemma generateMockData_sensor:
  "str_includes fp ''sensor_data'' \<Longrightarrow>
     length (generateMockData E rnd fp) = 1000 \<and>
     list_all normalizedSensorShape (generateMockData E rnd fp)"
  by (simp add: generateMockData_def sensorLoop_length sensorLoop_all mockSensorRow_shape)

lemma generateMockData_alerts:
  "\<not> str_includes fp ''sensor_data'' \<Longrightarrow> str_includes fp ''alerts'' \<Longrightarrow>
     length (generateMockData E rnd fp) = 1000 \<and>
     list_all rawAlertShape (generateMockData E rnd fp)"
  by (simp add: generateMockData_def alertLoop_length alertLoop_all mockAlertRow_shape)

lemma rawAlertShape_fields:
  assumes "rawAlertShape r"
  shows "get r ''machine_id'' = Undefined \<and> get r ''timestamp'' = Undefined \<and>
     get r ''temperature'' = Undefined \<and> get r ''vibration'' = Undefined"
proof -
  have "get r k = Undefined" if "k \<notin> set (map fst r)" for k
  proof -
    from that have "map_of r k = None"
      by (simp add: map_of_eq_None_iff)
    then show ?thesis
      by (simp add: get_def)
  qed
  with assms show ?thesis
    by (simp add: rawAlertShape_def fieldNames_def)
qed

lemma rawAlertShape_cells:
  "rawAlertShape r \<Longrightarrow> reportMachineCell E r = ''N/A'' \<and> reportTimeCell E r = ''N/A''"
  by (simp add: rawAlertShape_fields reportMachineCell_def reportTimeCell_def js_or_def)

lemma list_all_mono: "list_all P xs \<Longrightarrow> (\<And>x. P x \<Longrightarrow> Q x) \<Longrightarrow> list_all Q xs"
  by (induction xs) auto

lemma normalizeData_alerts_shape:
  "list_all normalizedAlertShape (normalizeData E data ''alerts'')"
  by (cases data) (simp_all add: normalizeData_def normalizeAlertRow_shape list_all_iff)

text \<open>
  Claim C9, at the alerts file. \<open>loadCSV\<close> normalizes the rows it has fetched and hands on
  the mock rows as they are generated. Every one of the 1000 mock alerts has the
  header-style fields of the raw alerts file (\<open>Machine\<close>, \<open>Time\<close>, the text \<open>Temp\<close> ending
  in \<open>K\<close>, ...): it has no field \<open>machine_id\<close>, \<open>timestamp\<close>, \<open>temperature\<close> or
  \<open>vibration\<close>, it does not have the field types of a normalized alert, and the report
  table prints \<open>N/A\<close> for its machine and its time. Every fetched row has those field
  types after \<open>loadCSV\<close>. With every draw 0, the first mock alert is the row shown; the
  same row as a fetched body is normalized to machine 1, time 1, 295 K and 1200 RPM, and
  the report table prints its machine and its time.
\<close>

theorem mock_alerts_skip_normalizer:
  "loadCSV E rnd ''alerts'' FetchFailed = Some (generateMockData E rnd ''alerts'') \<and>
   loadCSV E rnd ''alerts'' NotOk = Some (generateMockData E rnd ''alerts'') \<and>
   loadCSV E rnd ''alerts'' OkOther = Some (generateMockData E rnd ''alerts'') \<and>
   loadCSV E rnd ''alerts'' (OkArray data) = Some (normalizeData E data ''alerts'') \<and>
   length (generateMockData E rnd ''alerts'') = 1000 \<and>
   list_all rawAlertShape (generateMockData E rnd ''alerts'') \<and>
   list_all
     (\<lambda>r. get r ''machine_id'' = Undefined \<and> get r ''timestamp'' = Undefined \<and>
          get r ''temperature'' = Undefined \<and> get r ''vibration'' = Undefined \<and>
          \<not> normalizedAlertShape r \<and>
          reportMachineCell E r = ''N/A'' \<and> reportTimeCell E r = ''N/A'')
     (generateMockData E rnd ''alerts'') \<and>
   list_all normalizedAlertShape (normalizeData E data ''alerts'') \<and>
   hd (generateMockData sampleEngine zeroDraws ''alerts'') =
     [(''Machine'', Num (Fin 1)), (''Time'', Num (Fin 1)), (''Temp'', Str ''295.0K''),
      (''Vibration'', Str ''1200''), (''Avg_Temp'', Str ''293.0K''),
      (''Temp_Dev'', Str ''0K''), (''Alert'', Str alertNormal)] \<and>
   normalizeData sampleEngine
     [[(''Machine'', Num (Fin 1)), (''Time'', Num (Fin 1)), (''Temp'', Str ''295.0K''),
       (''Vibration'', Str ''1200''), (''Avg_Temp'', Str ''293.0K''),
       (''Temp_Dev'', Str ''0K''), (''Alert'', Str alertNormal)]] ''alerts'' =
     [[(''machine_id'', Num (Fin 1)), (''timestamp'', Num (Fin 1)),
       (''temperature'', Num (Fin 295)), (''vibration'', Num (Fin 1200)),
       (''Alert'', Str alertNormal), (''alert_type'', Str alertNormal)]] \<and>
   reportMachineCell sampleEngine
     [(''Machine'', Num (Fin 1)), (''Time'', Num (Fin 1)), (''Temp'', Str ''295.0K''),
      (''Vibration'', Str ''1200''), (''Avg_Temp'', Str ''293.0K''),
      (''Temp_Dev'', Str ''0K''), (''Alert'', Str alertNormal)] = ''N/A'' \<and>
   reportMachineCell sampleEngine
     [(''machine_id'', Num (Fin 1)), (''timestamp'', Num (Fin 1)),
      (''temperature'', Num (Fin 295)), (''vibration'', Num (Fin 1200)),
      (''Alert'', Str alertNormal), (''alert_type'', Str alertNormal)] = ''1''"
proof -
  let ?raw = "[(''Machine'', Num (Fin 1)), (''Time'', Num (Fin 1)), (''Temp'', Str ''295.0K''),
      (''Vibration'', Str ''1200''), (''Avg_Temp'', Str ''293.0K''),
      (''Temp_Dev'', Str ''0K''), (''Alert'', Str alertNormal)]"
  let ?norm = "[(''machine_id'', Num (Fin 1)), (''timestamp'', Num (Fin 1)),
      (''temperature'', Num (Fin 295)), (''vibration'', Num (Fin 1200)),
      (''Alert'', Str alertNormal), (''alert_type'', Str alertNormal)]"
  have l: "loadCSV E rnd ''alerts'' FetchFailed = Some (generateMockData E rnd ''alerts'') \<and>
      loadCSV E rnd ''alerts'' NotOk = Some (generateMockData E rnd ''alerts'') \<and>
      loadCSV E rnd ''alerts'' OkOther = Some (generateMockData E rnd ''alerts'') \<and>
      loadCSV E rnd ''alerts'' (OkArray data) = Some (normalizeData E data ''alerts'')"
    by (simp add: loadCSV_def)
  have a: "\<not> str_includes ''alerts'' ''sensor_data''" "str_includes ''alerts'' ''alerts''"
    by simp_all
  note m = generateMockData_alerts [OF a, of E rnd]
  from m have len: "length (generateMockData E rnd ''alerts'') = 1000"
    and raw: "list_all rawAlertShape (generateMockData E rnd ''alerts'')"
    by blast+
  have f: "list_all
     (\<lambda>r. get r ''machine_id'' = Undefined \<and> get r ''timestamp'' = Undefined \<and>
          get r ''temperature'' = Undefined \<and> get r ''vibration'' = Undefined \<and>
          \<not> normalizedAlertShape r \<and>
          reportMachineCell E r = ''N/A'' \<and> reportTimeCell E r = ''N/A'')
     (generateMockData E rnd ''alerts'')"
    using raw
  proof (rule list_all_mono)
    fix r
    assume "rawAlertShape r"
    then show "get r ''machine_id'' = Undefined \<and> get r ''timestamp'' = Undefined \<and>
          get r ''temperature'' = Undefined \<and> get r ''vibration'' = Undefined \<and>
          \<not> normalizedAlertShape r \<and>
          reportMachineCell E r = ''N/A'' \<and> reportTimeCell E r = ''N/A''"
      using rawAlertShape_fields [of r] rawAlertShape_not_normalized [of r]
        rawAlertShape_cells [of r E]
      by blast
  qed
  have n: "list_all normalizedAlertShape (normalizeData E data ''alerts'')"
    by (rule normalizeData_alerts_shape)
  have g: "generateMockData sampleEngine zeroDraws ''alerts'' =
      alertLoop sampleEngine zeroDraws 0 1 []"
    by (simp add: generateMockData_def)
  have h: "hd (generateMockData sampleEngine zeroDraws ''alerts'') = ?raw"
    unfolding g alertLoop_first by (simp only: list.sel first_mock_alert)
  have e: "normalizeData sampleEngine [?raw] ''alerts'' = [?norm]"
    by (simp add: normalizeData_def normalizeAlertRow_def get_def js_or_def alertNormal_def
        number_defs string_defs)
  have c1: "reportMachineCell sampleEngine ?raw = ''N/A''"
    by (simp add: reportMachineCell_def get_def js_or_def)
  have c2: "reportMachineCell sampleEngine ?norm = ''1''"
    by (simp add: reportMachineCell_def get_def js_or_def numberToString_def showInt_def
        showNat.simps digitChar_def)
  from l len raw f n h e c1 c2 show ?thesis
    by blast
qed

subsection \<open>Printing and reading back\<close>

lemma digit_cases: "d < 10 \<Longrightarrow> d = 0 \<or> d = 1 \<or> d = 2 \<or> d = 3 \<or> d = 4 \<or> d = 5 \<or> d = 6 \<or> d = 7 \<or> d = 8 \<or> d = (9::nat)"
  by arith

lemma digitValue_digitChar: "d < 10 \<Longrightarrow> digitValue (digitChar d) = Some d"
  using digit_cases [of d] by (auto simp: digitValue_def digitChar_def)

lemma isDigit_digitChar: "d < 10 \<Longrightarrow> isDigit 10 (digitChar d)"
  by (simp add: isDigit_def digitValue_digitChar)

lemma showNat_digits: "list_all (isDigit 10) (showNat n)"
proof (induction n rule: showNat.induct)
  case (1 n)
  show ?case
  proof (cases "n < 10")
    case True
    then show ?thesis
      by (subst showNat.simps) (simp add: isDigit_digitChar)
  next
    case False
    with "1" show ?thesis
      by (subst showNat.simps) (simp add: isDigit_digitChar)
  qed
qed

lemma showNat_nonempty: "showNat n \<noteq> []"
  by (subst showNat.simps) simp

lemma digitsValue_snoc:
  "digitsValue r (ds @ [c]) =
     digitsValue r ds * r + (case digitValue c of Some d \<Rightarrow> d | None \<Rightarrow> 0)"
  by (simp add: digitsValue_def)

lemma digitsValue_showNat: "digitsValue 10 (showNat n) = n"
proof (induction n rule: showNat.induct)
  case (1 n)
  show ?case
  proof (cases "n < 10")
    case True
    then show ?thesis
      by (subst showNat.simps) (simp add: digitsValue_def digitValue_digitChar)
  next
    case False
    with "1" show ?thesis
      by (subst showNat.simps) (simp add: digitsValue_snoc digitValue_digitChar)
  qed
qed

lemma isDigit_code: "isDigit 10 c \<Longrightarrow> 48 \<le> (of_char c :: nat) \<and> (of_char c :: nat) \<le> 57"
  by (auto simp: isDigit_def digitValue_def Let_def split: if_splits)

lemma digit_not_special:
  assumes "isDigit 10 c"
  shows "\<not> isAsciiSpace c" "\<not> isSpace2 c b" "\<not> isSpace3 c a b" "\<not> isSpace2 b c" "\<not> isSpace3 a b c"
    "c \<noteq> CHR ''K''" "c \<noteq> CHR ''-''" "c \<noteq> CHR ''+''" "c \<noteq> CHR ''I''" "c \<noteq> CHR ''x''" "c \<noteq> CHR ''X''" "c \<noteq> CHR ''.''"
    "c \<noteq> CHR ''e''" "c \<noteq> CHR ''E''"
  using isDigit_code [OF assms]
  by (auto simp: isAsciiSpace_def isSpace2_def isSpace3_def)


lemma not_digits:
  "\<not> isDigit 10 (CHR ''K'')" "\<not> isDigit 10 (CHR ''I'')" "\<not> isDigit 10 (CHR ''-'')"
  "\<not> isDigit 10 (CHR ''x'')" "\<not> isDigit 10 (CHR ''X'')"
  by (simp_all add: isDigit_def digitValue_def)

lemma trimStart_digit: "isDigit 10 c \<Longrightarrow> trimStart (c # s) = c # s"
proof -
  assume d: "isDigit 10 c"
  show ?thesis
  proof (cases s)
    case Nil
    with d show ?thesis by (simp add: digit_not_special)
  next
    case (Cons b t)
    with d show ?thesis
      by (cases t) (simp_all add: digit_not_special)
  qed
qed

lemma dropSpaceRev_digit: "isDigit 10 c \<Longrightarrow> dropSpaceRev (c # s) = c # s"
proof -
  assume d: "isDigit 10 c"
  show ?thesis
  proof (cases s)
    case Nil
    with d show ?thesis by (simp add: digit_not_special)
  next
    case (Cons b t)
    with d show ?thesis
      by (cases t) (simp_all add: digit_not_special)
  qed
qed

lemma digits_last: "list_all (isDigit 10) s \<Longrightarrow> s \<noteq> [] \<Longrightarrow> isDigit 10 (last s)"
  by (induction s) (auto split: if_splits)

lemma trimEnd_digits:
  assumes "isDigit 10 (last s)" "s \<noteq> []"
  shows "trimEnd s = s"
proof -
  from assms(2) obtain c t where r: "rev s = c # t"
    by (cases "rev s") auto
  with assms have "isDigit 10 c"
    by (metis last_rev list.sel(1) hd_rev rev_rev_ident)
  then have "dropSpaceRev (rev s) = rev s"
    unfolding r by (rule dropSpaceRev_digit)
  then show ?thesis
    by (simp add: trimEnd_def)
qed

lemma replace_K_absent: "CHR ''K'' \<notin> set s \<Longrightarrow> replace ''K'' [] s = s"
  by (induction s) auto

lemma digits_no_K: "list_all (isDigit 10) s \<Longrightarrow> CHR ''K'' \<notin> set s"
  by (induction s) (auto simp: not_digits)

lemma takeWhile_digits: "list_all (isDigit 10) s \<Longrightarrow> takeWhile (isDigit 10) s = s"
  by (induction s) auto

lemma dropWhile_digits: "list_all (isDigit 10) s \<Longrightarrow> dropWhile (isDigit 10) s = []"
  by (induction s) auto

lemma unsignedDecimal_digits:
  assumes "list_all (isDigit 10) s" "s \<noteq> []"
  shows "unsignedDecimal s = Some (Fin (real (digitsValue 10 s)), [])"
proof -
  from assms obtain c t where s: "s = c # t" and c: "isDigit 10 c"
    by (cases s) auto
  then have "\<not> prefix ''Infinity'' s"
    by (auto simp: not_digits)
  with assms show ?thesis
    by (simp add: unsignedDecimal_def takeWhile_digits dropWhile_digits exponentPart_def pow10_def)
qed

lemma parseFloat_str_showInt: "parseFloat_str (showInt j) = Fin (of_int j)"
proof -
  obtain c t where s: "showNat (nat \<bar>j\<bar>) = c # t" and c: "isDigit 10 c"
    using showNat_digits [of "nat \<bar>j\<bar>"] showNat_nonempty [of "nat \<bar>j\<bar>"]
    by (cases "showNat (nat \<bar>j\<bar>)") auto
  have u: "unsignedDecimal (showNat (nat \<bar>j\<bar>)) = Some (Fin (real (nat \<bar>j\<bar>)), [])"
    using unsignedDecimal_digits [OF showNat_digits showNat_nonempty, of "nat \<bar>j\<bar>"]
    by (simp add: digitsValue_showNat)
  show ?thesis
  proof (cases "j < 0")
    case True
    then have "showInt j = CHR ''-'' # showNat (nat \<bar>j\<bar>)"
      by (simp add: showInt_def)
    moreover have "trimStart (CHR ''-'' # showNat (nat \<bar>j\<bar>)) = CHR ''-'' # showNat (nat \<bar>j\<bar>)"
      unfolding s using c by (cases t) (simp_all add: isAsciiSpace_def isSpace2_def isSpace3_def)
    ultimately show ?thesis
      using True u by (simp add: parseFloat_str_def decimalLiteral_def)
  next
    case False
    then have "showInt j = showNat (nat \<bar>j\<bar>)"
      by (simp add: showInt_def)
    moreover have "trimStart (showNat (nat \<bar>j\<bar>)) = showNat (nat \<bar>j\<bar>)"
      unfolding s using c by (rule trimStart_digit)
    moreover have "decimalLiteral (showNat (nat \<bar>j\<bar>)) = unsignedDecimal (showNat (nat \<bar>j\<bar>))"
      unfolding s using c by (simp add: decimalLiteral_def digit_not_special)
    ultimately show ?thesis
      using False u by (simp add: parseFloat_str_def)
  qed
qed


lemma showInt_shape:
  "\<exists>c t. showNat (nat \<bar>j\<bar>) = c # t \<and> isDigit 10 c \<and> list_all (isDigit 10) t \<and>
     showInt j = (if j < 0 then CHR ''-'' # c # t else c # t)"
  using showNat_digits [of "nat \<bar>j\<bar>"] showNat_nonempty [of "nat \<bar>j\<bar>"]
  by (cases "showNat (nat \<bar>j\<bar>)") (auto simp: showInt_def)

lemma trimStart_showInt: "trimStart (showInt j) = showInt j"
proof -
  from showInt_shape [of j] obtain c t where
    c: "isDigit 10 c" and
    i: "showInt j = (if j < 0 then CHR ''-'' # c # t else c # t)"
    by blast
  show ?thesis
  proof (cases "j < 0")
    case True
    with i c show ?thesis
      by (cases t) (simp_all add: isAsciiSpace_def isSpace2_def isSpace3_def)
  next
    case False
    with i c show ?thesis
      by (simp add: trimStart_digit)
  qed
qed

lemma trim_showInt: "trim (showInt j) = showInt j"
proof -
  from showInt_shape [of j] obtain c t where
    c: "isDigit 10 c" and t: "list_all (isDigit 10) t" and
    i: "showInt j = (if j < 0 then CHR ''-'' # c # t else c # t)"
    by blast
  have "isDigit 10 (last (c # t))"
    using c t by (intro digits_last) simp_all
  then have "isDigit 10 (last (showInt j))"
    using i by simp
  moreover have "showInt j \<noteq> []"
    using i by simp
  ultimately have "trimEnd (showInt j) = showInt j"
    by (rule trimEnd_digits)
  then show ?thesis
    by (simp add: trim_def trimStart_showInt)
qed

lemma replace_K_showInt: "replace ''K'' [] (showInt j) = showInt j"
proof -
  from showInt_shape [of j] obtain c t where
    c: "isDigit 10 c" and t: "list_all (isDigit 10) t" and
    i: "showInt j = (if j < 0 then CHR ''-'' # c # t else c # t)"
    by blast
  from c t have "CHR ''K'' \<notin> set (c # t)"
    by (intro digits_no_K) simp
  with i have "CHR ''K'' \<notin> set (showInt j)"
    by auto
  then show ?thesis
    by (rule replace_K_absent)
qed

lemma trimStart_minus_digit: "isDigit 10 c \<Longrightarrow> trimStart (CHR ''-'' # c # t) = CHR ''-'' # c # t"
  by (cases t) (simp_all add: isAsciiSpace_def isSpace2_def isSpace3_def)

lemma parseInt_str_digits:
  assumes "list_all (isDigit 10) u" "u \<noteq> []"
  shows "parseInt_str u = Fin (real (digitsValue 10 u))"
    and "parseInt_str (CHR ''-'' # u) = Fin (- real (digitsValue 10 u))"
proof -
  from assms obtain c t where u: "u = c # t" and c: "isDigit 10 c" and t: "list_all (isDigit 10) t"
    by (cases u) auto
  have ts: "trimStart u = u" "trimStart (CHR ''-'' # u) = CHR ''-'' # u"
    using c by (simp_all add: u trimStart_digit trimStart_minus_digit)
  have h: "hd u \<noteq> CHR ''-''" "hd u \<noteq> CHR ''+''"
    using c by (auto simp: u digit_not_special)
  have nohex: "\<not> prefix ''0x'' u" "\<not> prefix ''0X'' u"
    using t by (cases t; auto simp: u not_digits)+
  have tw: "takeWhile (isDigit 10) u = u"
    using assms by (intro takeWhile_digits)
  show "parseInt_str u = Fin (real (digitsValue 10 u))"
    using assms(2) by (simp add: parseInt_str_def Let_def ts h nohex tw)
  show "parseInt_str (CHR ''-'' # u) = Fin (- real (digitsValue 10 u))"
    using assms(2) by (simp add: parseInt_str_def Let_def ts h nohex tw)
qed

lemma parseInt_str_showInt: "parseInt_str (showInt j) = Fin (of_int j)"
proof -
  show ?thesis
  proof (cases "j < 0")
    case True
    then show ?thesis
      using parseInt_str_digits(2) [OF showNat_digits showNat_nonempty, of "nat (- j)"]
      by (simp add: showInt_def digitsValue_showNat)
  next
    case False
    then show ?thesis
      using parseInt_str_digits(1) [OF showNat_digits showNat_nonempty, of "nat j"]
      by (simp add: showInt_def digitsValue_showNat)
  qed
qed

lemma plainNumber_toString:
  "plainNumber (Num (Fin x)) \<Longrightarrow> numberToString E (Fin x) = showInt \<lfloor>x\<rfloor>"
  by (simp add: plainNumber_def numberToString_def)

lemma plainNumber_readsBack:
  assumes "plainNumber v"
  shows "readsBack E v \<and> readsBackStripped E v"
proof (cases v)
  case (Num n)
  show ?thesis
  proof (cases n)
    case (Fin x)
    with Num assms have s: "numberToString E (Fin x) = showInt \<lfloor>x\<rfloor>" and x: "x = of_int \<lfloor>x\<rfloor>"
      by (simp_all add: plainNumber_def numberToString_def)
    have "parseFloat_str (showInt \<lfloor>x\<rfloor>) = Fin x"
      using parseFloat_str_showInt [of "\<lfloor>x\<rfloor>"] x by simp
    with Num Fin s show ?thesis
      by (simp add: readsBack_def readsBackStripped_def parseFloat_def replace_K_showInt
          trim_showInt)
  qed (simp_all add: Num readsBack_def readsBackStripped_def number_defs string_defs)
qed (simp_all add: readsBack_def readsBackStripped_def)

lemma plainNumber_parseInt:
  "plainNumber (Num (Fin x)) \<Longrightarrow> parseInt E (Num (Fin x)) = Fin x"
  using parseInt_str_showInt [of "\<lfloor>x\<rfloor>"]
  by (simp add: plainNumber_def parseInt_def numberToString_def)

lemma digitsValue_append:
  "digitsValue r (xs @ ys) = digitsValue r xs * r ^ length ys + digitsValue r ys"
proof (induction ys rule: rev_induct)
  case Nil
  then show ?case by (simp add: digitsValue_def)
next
  case (snoc y ys)
  have "digitsValue r (xs @ ys @ [y]) = digitsValue r ((xs @ ys) @ [y])"
    by simp
  also have "\<dots> = digitsValue r (xs @ ys) * r + (case digitValue y of Some d \<Rightarrow> d | None \<Rightarrow> 0)"
    by (rule digitsValue_snoc)
  finally show ?case
    using snoc by (simp add: digitsValue_snoc algebra_simps)
qed

lemma digitsValue_single: "d < 10 \<Longrightarrow> digitsValue 10 [digitChar d] = d"
  by (simp add: digitsValue_def digitValue_digitChar)

lemma decimalDigits_decimal:
  "0 \<le> f \<Longrightarrow> f < 1 \<Longrightarrow> f * 10 ^ k = of_int m \<Longrightarrow>
     \<exists>ds. decimalDigits f = Some ds \<and> list_all (isDigit 10) ds \<and>
          real (digitsValue 10 ds) = f * 10 ^ length ds \<and> (f \<noteq> 0 \<longrightarrow> ds \<noteq> [])"
proof (induction k arbitrary: f m)
  case 0
  then have "f = 0"
    by (metis floor_of_int floor_eq_iff mult.right_neutral of_int_0 power_0 add.left_neutral)
  then show ?case
    by (simp add: decimalDigits.simps digitsValue_def)
next
  case (Suc k)
  show ?case
  proof (cases "f = 0")
    case True
    then show ?thesis
      by (simp add: decimalDigits.simps digitsValue_def)
  next
    case False
    define d where "d = \<lfloor>f * 10\<rfloor>"
    define g where "g = f * 10 - of_int d"
    have d: "0 \<le> d" "d < 10"
      using Suc.prems by (simp_all add: d_def floor_less_iff)
    have g: "0 \<le> g" "g < 1"
      unfolding g_def d_def by linarith+
    have "g * 10 ^ k = of_int (m - d * 10 ^ k)"
      using Suc.prems(3) by (simp add: g_def algebra_simps)
    from Suc.IH [OF g this] obtain ds where ds: "decimalDigits g = Some ds"
      "list_all (isDigit 10) ds" "real (digitsValue 10 ds) = g * 10 ^ length ds"
      by blast
    have nd: "nat d < 10"
      using d by simp
    have e: "decimalDigits f = Some (digitChar (nat d) # ds)"
      using False ds(1) by (subst decimalDigits.simps) (simp add: d_def [symmetric] g_def [symmetric])
    have "digitsValue 10 (digitChar (nat d) # ds) = nat d * 10 ^ length ds + digitsValue 10 ds"
      using digitsValue_append [of 10 "[digitChar (nat d)]" ds] nd
      by (simp add: digitsValue_single)
    then have "real (digitsValue 10 (digitChar (nat d) # ds)) =
        real (nat d) * 10 ^ length ds + g * 10 ^ length ds"
      using ds(3) by simp
    also have "\<dots> = f * 10 ^ length (digitChar (nat d) # ds)"
      using d by (simp add: g_def algebra_simps)
    finally have v: "real (digitsValue 10 (digitChar (nat d) # ds)) =
        f * 10 ^ length (digitChar (nat d) # ds)" .
    from e ds(2) nd v show ?thesis
      by (simp add: isDigit_digitChar)
  qed
qed

lemma decimal_pow10: "decimal (real n * pow10 e)"
proof (cases "e \<ge> 0")
  case True
  have "real n * 10 ^ nat e * 10 ^ 0 = of_int (int n * 10 ^ nat e)"
    by simp
  with True show ?thesis
    unfolding decimal_def pow10_def by (simp only: if_True) blast
next
  case False
  have "real n * (1 / 10 ^ nat (- e)) * 10 ^ nat (- e) = of_int (int n)"
    by simp
  with False show ?thesis
    unfolding decimal_def pow10_def by (simp only: if_False) blast
qed

lemma decimal_minus: "decimal x \<Longrightarrow> decimal (- x)"
proof -
  assume "decimal x"
  then obtain m k where "x * 10 ^ k = of_int m"
    unfolding decimal_def by blast
  then have "- x * 10 ^ k = of_int (- m)"
    by simp
  then show ?thesis
    unfolding decimal_def by blast
qed

lemma unsignedDecimal_decimal:
  "unsignedDecimal s = Some (Fin x, r) \<Longrightarrow> decimal x"
  by (auto simp: unsignedDecimal_def Let_def decimal_pow10 split: if_splits)

lemma parseFloat_str_decimal: "parseFloat_str s = Fin x \<Longrightarrow> decimal x"
proof -
  assume a: "parseFloat_str s = Fin x"
  then obtain r where d: "decimalLiteral (trimStart s) = Some (Fin x, r)"
    by (auto simp: parseFloat_str_def split: option.splits)
  show ?thesis
  proof (cases "trimStart s \<noteq> [] \<and> hd (trimStart s) = CHR ''-''")
    case True
    with d obtain n where u: "unsignedDecimal (tl (trimStart s)) = Some (n, r)" and n: "js_neg n = Fin x"
      by (auto simp: decimalLiteral_def split: option.splits)
    from n obtain y where "n = Fin y" "x = - y"
      by (cases n) auto
    with u show ?thesis
      using unsignedDecimal_decimal decimal_minus by blast
  next
    case False
    with d have "unsignedDecimal (tl (trimStart s)) = Some (Fin x, r) \<or>
        unsignedDecimal (trimStart s) = Some (Fin x, r)"
      by (auto simp: decimalLiteral_def split: if_splits)
    then show ?thesis
      using unsignedDecimal_decimal by blast
  qed
qed

lemma takeWhile_digits_stop:
  assumes "list_all (isDigit 10) ds" "r = [] \<or> \<not> isDigit 10 (hd r)"
  shows "takeWhile (isDigit 10) (ds @ r) = ds" "dropWhile (isDigit 10) (ds @ r) = r"
proof -
  from assms(2) have "takeWhile (isDigit 10) r = [] \<and> dropWhile (isDigit 10) r = r"
    by (cases r) auto
  with assms(1) show "takeWhile (isDigit 10) (ds @ r) = ds"
    "dropWhile (isDigit 10) (ds @ r) = r"
    by (induction ds) auto
qed

lemma not_digits2:
  "\<not> isDigit 10 (CHR ''.'')" "\<not> isDigit 10 (CHR ''e'')" "\<not> isDigit 10 (CHR ''+'')"
  by (simp_all add: isDigit_def digitValue_def)

lemma exponentPart_Nil: "exponentPart [] = (0, [])"
  by (simp add: exponentPart_def)

lemma exponentPart_plus: "exponentPart (''e+'' @ showNat e) = (int e, [])"
  using showNat_nonempty [of e]
  by (simp add: exponentPart_def Let_def takeWhile_digits dropWhile_digits showNat_digits
      digitsValue_showNat)

lemma unsignedDecimal_point:
  assumes ip: "list_all (isDigit 10) ip" "ip \<noteq> []"
    and fd: "list_all (isDigit 10) fd" "fd \<noteq> []"
    and ex: "ex = [] \<or> hd ex = CHR ''e''"
  shows "unsignedDecimal (ip @ CHR ''.'' # fd @ ex) =
     Some (Fin (real (digitsValue 10 (ip @ fd)) *
                pow10 (fst (exponentPart ex) - int (length fd))),
           snd (exponentPart ex))"
proof -
  from ip obtain c t where c: "ip = c # t" "isDigit 10 c"
    by (cases ip) auto
  then have inf: "\<not> prefix ''Infinity'' (ip @ CHR ''.'' # fd @ ex)"
    by (auto simp: not_digits)
  have 1: "takeWhile (isDigit 10) (ip @ CHR ''.'' # fd @ ex) = ip"
    "dropWhile (isDigit 10) (ip @ CHR ''.'' # fd @ ex) = CHR ''.'' # fd @ ex"
    using ip(1) by (simp_all add: takeWhile_digits_stop not_digits2)
  from ex have ex': "ex = [] \<or> \<not> isDigit 10 (hd ex)"
    by (auto simp: not_digits2)
  have 2: "takeWhile (isDigit 10) (fd @ ex) = fd" "dropWhile (isDigit 10) (fd @ ex) = ex"
    using fd(1) ex' by (simp_all add: takeWhile_digits_stop)
  show ?thesis
    using inf ip(2) fd(2) by (simp add: unsignedDecimal_def Let_def 1 2)
qed

lemma unsignedDecimal_exp:
  assumes ip: "list_all (isDigit 10) ip" "ip \<noteq> []"
    and ex: "hd ex = CHR ''e''" "ex \<noteq> []"
  shows "unsignedDecimal (ip @ ex) =
     Some (Fin (real (digitsValue 10 ip) * pow10 (fst (exponentPart ex))),
           snd (exponentPart ex))"
proof -
  from ip obtain c t where c: "ip = c # t" "isDigit 10 c"
    by (cases ip) auto
  then have inf: "\<not> prefix ''Infinity'' (ip @ ex)"
    by (auto simp: not_digits)
  from ex have ex': "ex = [] \<or> \<not> isDigit 10 (hd ex)"
    by (auto simp: not_digits2)
  have 1: "takeWhile (isDigit 10) (ip @ ex) = ip" "dropWhile (isDigit 10) (ip @ ex) = ex"
    using ip(1) ex' by (simp_all add: takeWhile_digits_stop)
  show ?thesis
    using inf ip(2) ex by (simp add: unsignedDecimal_def Let_def 1)
qed

lemma parseFloat_str_signed:
  assumes "unsignedDecimal (c # t) = Some (Fin v, r)" "isDigit 10 c"
  shows "parseFloat_str (c # t) = Fin v" "parseFloat_str (CHR ''-'' # c # t) = Fin (- v)"
  using assms
  by (simp_all add: parseFloat_str_def decimalLiteral_def trimStart_digit
      trimStart_minus_digit digit_not_special)

lemma trim_signed:
  assumes "isDigit 10 c" "isDigit 10 (last (c # t))"
  shows "trim (c # t) = c # t" "trim (CHR ''-'' # c # t) = CHR ''-'' # c # t"
proof -
  have "trimEnd (c # t) = c # t"
    using assms(2) by (intro trimEnd_digits) simp_all
  then show "trim (c # t) = c # t"
    using assms(1) by (simp add: trim_def trimStart_digit)
  have "isDigit 10 (last (CHR ''-'' # c # t))"
    using assms(2) by simp
  then have "trimEnd (CHR ''-'' # c # t) = CHR ''-'' # c # t"
    by (intro trimEnd_digits) simp_all
  then show "trim (CHR ''-'' # c # t) = CHR ''-'' # c # t"
    using assms(1) by (simp add: trim_def trimStart_minus_digit)
qed

lemma stripZeros_split: "\<exists>j. s = stripZeros s @ replicate j (CHR ''0'')"
proof -
  define P where "P = (\<lambda>c. c = CHR ''0'')"
  have tw: "takeWhile P xs = replicate (length (takeWhile P xs)) (CHR ''0'')" for xs
    by (induction xs) (auto simp: P_def)
  have "rev s = takeWhile P (rev s) @ dropWhile P (rev s)"
    by simp
  then have "s = rev (dropWhile P (rev s)) @ rev (takeWhile P (rev s))"
    by (metis rev_append rev_rev_ident)
  also have "rev (takeWhile P (rev s)) = replicate (length (takeWhile P (rev s))) (CHR ''0'')"
    by (subst tw) simp
  finally show ?thesis
    unfolding stripZeros_def P_def by blast
qed

lemma stripZeros_digits: "list_all (isDigit 10) s \<Longrightarrow> list_all (isDigit 10) (stripZeros s)"
proof -
  assume "list_all (isDigit 10) s"
  moreover have "set (stripZeros s) \<subseteq> set s"
    unfolding stripZeros_def using set_dropWhileD by fastforce
  ultimately show ?thesis
    by (auto simp: list_all_iff)
qed

lemma digitsValue_zeros: "digitsValue 10 (xs @ replicate j (CHR ''0'')) = digitsValue 10 xs * 10 ^ j"
proof -
  have z: "digitsValue 10 [CHR ''0''] = 0"
    by (simp add: digitsValue_def digitValue_def)
  have "digitsValue 10 (replicate j (CHR ''0'')) = 0"
  proof (induction j)
    case 0
    then show ?case by (simp add: digitsValue_def)
  next
    case (Suc j)
    have "digitsValue 10 (replicate (Suc j) (CHR ''0'')) =
        digitsValue 10 ([CHR ''0''] @ replicate j (CHR ''0''))"
      by simp
    also have "\<dots> = 0"
      unfolding digitsValue_append using Suc z by simp
    finally show ?case .
  qed
  then show ?thesis
    by (simp add: digitsValue_append)
qed

lemma pow10_shift:
  fixes a b c d :: nat
  assumes "a + b = c + d"
  shows "pow10 (int a - int c) * 10 ^ b = 10 ^ d"
proof (cases "a \<ge> c")
  case True
  then have "pow10 (int a - int c) = 10 ^ (a - c)"
    by (simp add: pow10_def nat_diff_distrib')
  moreover have "a - c + b = d"
    using assms True by simp
  ultimately show ?thesis
    by (simp add: power_add [symmetric])
next
  case False
  then have "pow10 (int a - int c) = 1 / 10 ^ (c - a)"
    by (simp add: pow10_def nat_diff_distrib')
  moreover have "b = d + (c - a)"
    using assms False by simp
  ultimately show ?thesis
    by (simp add: power_add)
qed

lemma decimal_abs: "decimal x \<Longrightarrow> decimal \<bar>x\<bar>"
  by (cases "x < 0") (simp_all add: abs_if decimal_minus)

lemma printNumber_reads:
  assumes dec: "decimal x" and big: "\<not> (x = of_int \<lfloor>x\<rfloor> \<and> \<bar>x\<bar> < 10 ^ 21)"
  shows "parseFloat_str (printNumber x) = Fin x \<and> CHR ''K'' \<notin> set (printNumber x) \<and>
     trim (printNumber x) = printNumber x"
proof -
  define a where "a = \<bar>x\<bar>"
  define n where "n = nat \<lfloor>a\<rfloor>"
  define f where "f = a - of_int \<lfloor>a\<rfloor>"
  have a0: "0 \<le> a"
    by (simp add: a_def)
  have nr: "real n = of_int \<lfloor>a\<rfloor>"
    using a0 by (simp add: n_def)
  from dec have "decimal a"
    unfolding a_def by (rule decimal_abs)
  then obtain m k where mk: "a * 10 ^ k = of_int m"
    unfolding decimal_def by blast
  have f01: "0 \<le> f" "f < 1"
    unfolding f_def by linarith+
  have "f * 10 ^ k = of_int (m - \<lfloor>a\<rfloor> * 10 ^ k)"
    using mk by (simp add: f_def algebra_simps)
  from decimalDigits_decimal [OF f01 this] obtain fd where
    fd: "decimalDigits f = Some fd" "list_all (isDigit 10) fd"
      "real (digitsValue 10 fd) = f * 10 ^ length fd" "f \<noteq> 0 \<longrightarrow> fd \<noteq> []"
    by blast
  have ad: "allDigits f = fd"
    by (simp add: allDigits_def fd(1))
  obtain c t where ct: "showNat n = c # t" and c: "isDigit 10 c" and t: "list_all (isDigit 10) t"
    using showNat_digits [of n] showNat_nonempty [of n] by (cases "showNat n") auto
  have dvn: "digitsValue 10 (c # t) = n"
    using digitsValue_showNat [of n] by (simp add: ct)
  have full: "real (digitsValue 10 ((c # t) @ fd)) = a * 10 ^ length fd"
  proof -
    have "real (digitsValue 10 ((c # t) @ fd)) =
        real n * 10 ^ length fd + real (digitsValue 10 fd)"
      unfolding digitsValue_append dvn by simp
    also have "\<dots> = (of_int \<lfloor>a\<rfloor> + f) * 10 ^ length fd"
      by (simp add: nr fd(3) algebra_simps)
    finally show ?thesis
      by (simp add: f_def)
  qed
  have sign: "x = (if x < 0 then - a else a)"
    by (simp add: a_def)
  define body where "body =
     (if a < 10 ^ 21 then t @ CHR ''.'' # fd
      else (if stripZeros (t @ fd) = [] then [] else CHR ''.'' # stripZeros (t @ fd)) @
           ''e+'' @ showNat (length t))"
  have pn: "printNumber x = (if x < 0 then CHR ''-'' # c # body else c # body)"
    by (simp add: printNumber_def Let_def a_def [symmetric] n_def [symmetric]
        f_def [symmetric] ad ct body_def)
  have main: "unsignedDecimal (c # body) = Some (Fin a, []) \<and> CHR ''K'' \<notin> set (c # body) \<and>
      isDigit 10 (last (c # body))"
  proof (cases "a < 10 ^ 21")
    case True
    with big have "x \<noteq> of_int \<lfloor>x\<rfloor>"
      by (simp add: a_def)
    then have "f \<noteq> 0"
      unfolding f_def a_def by (cases "x < 0") (auto simp: abs_if; metis of_int_minus minus_minus floor_of_int)+
    with fd(4) have ne: "fd \<noteq> []"
      by simp
    from True have b: "c # body = (c # t) @ CHR ''.'' # fd @ []"
      by (simp add: body_def)
    have "unsignedDecimal ((c # t) @ CHR ''.'' # fd @ []) =
        Some (Fin (real (digitsValue 10 ((c # t) @ fd)) *
                   pow10 (fst (exponentPart []) - int (length fd))),
              snd (exponentPart []))"
      using c t fd(2) ne by (intro unsignedDecimal_point) simp_all
    also have "real (digitsValue 10 ((c # t) @ fd)) *
        pow10 (fst (exponentPart []) - int (length fd)) = a"
    proof -
      have "pow10 (fst (exponentPart []) - int (length fd)) = 1 / 10 ^ length fd"
        using ne by (simp add: exponentPart_Nil pow10_def)
      then show ?thesis
        unfolding full by simp
    qed
    finally have u: "unsignedDecimal (c # body) = Some (Fin a, [])"
      by (simp add: b exponentPart_Nil)
    have k: "CHR ''K'' \<notin> set (c # body)"
      using c t fd(2) digits_no_K [of "c # t"] digits_no_K [of fd] by (simp add: b)
    have "isDigit 10 (last fd)"
      using fd(2) ne by (rule digits_last)
    then have l: "isDigit 10 (last (c # body))"
      using ne by (simp add: b)
    from u k l show ?thesis
      by blast
  next
    case False
    define rest where "rest = stripZeros (t @ fd)"
    obtain j where j: "t @ fd = rest @ replicate j (CHR ''0'')"
      using stripZeros_split [of "t @ fd"] unfolding rest_def by blast
    have rd: "list_all (isDigit 10) rest"
      unfolding rest_def using t fd(2) by (intro stripZeros_digits) simp
    from False have b: "c # body =
        c # (if rest = [] then [] else CHR ''.'' # rest) @ ''e+'' @ showNat (length t)"
      by (simp add: body_def rest_def)
    have ep: "exponentPart (''e+'' @ showNat (length t)) = (int (length t), [])"
      by (rule exponentPart_plus)
    have u0: "unsignedDecimal (c # body) =
        Some (Fin (real (digitsValue 10 ([c] @ rest)) *
                   pow10 (int (length t) - int (length rest))), [])"
    proof (cases "rest = []")
      case True
      have "unsignedDecimal ([c] @ (''e+'' @ showNat (length t))) =
          Some (Fin (real (digitsValue 10 [c]) *
                     pow10 (fst (exponentPart (''e+'' @ showNat (length t))))),
                snd (exponentPart (''e+'' @ showNat (length t))))"
        using c by (intro unsignedDecimal_exp) simp_all
      with True show ?thesis
        by (simp add: b ep del: append.simps) (simp add: ep)
    next
      case ne: False
      have "unsignedDecimal ([c] @ CHR ''.'' # rest @ (''e+'' @ showNat (length t))) =
          Some (Fin (real (digitsValue 10 ([c] @ rest)) *
                     pow10 (fst (exponentPart (''e+'' @ showNat (length t))) -
                            int (length rest))),
                snd (exponentPart (''e+'' @ showNat (length t))))"
        using c rd ne by (intro unsignedDecimal_point) simp_all
      with ne show ?thesis
        unfolding ep by (simp add: b)
    qed
    have "digitsValue 10 (([c] @ rest) @ replicate j (CHR ''0'')) =
        digitsValue 10 ([c] @ rest) * 10 ^ j"
      by (rule digitsValue_zeros)
    moreover have "([c] @ rest) @ replicate j (CHR ''0'') = (c # t) @ fd"
      using j by simp
    ultimately have "real (digitsValue 10 ([c] @ rest)) * 10 ^ j = a * 10 ^ length fd"
      using full by (metis of_nat_mult of_nat_numeral of_nat_power)
    moreover have "length t + length fd = length rest + j"
      using arg_cong [OF j, of length] by simp
    then have "pow10 (int (length t) - int (length rest)) * 10 ^ length fd = 10 ^ j"
      by (rule pow10_shift)
    ultimately have "real (digitsValue 10 ([c] @ rest)) *
        pow10 (int (length t) - int (length rest)) * 10 ^ length fd = a * 10 ^ length fd"
      by (simp add: mult.assoc)
    then have v: "real (digitsValue 10 ([c] @ rest)) *
        pow10 (int (length t) - int (length rest)) = a"
      by simp
    have u: "unsignedDecimal (c # body) = Some (Fin a, [])"
      unfolding u0 v ..
    have "CHR ''K'' \<notin> set (showNat (length t))"
      using showNat_digits by (rule digits_no_K)
    moreover have "CHR ''K'' \<notin> set rest"
      using rd by (rule digits_no_K)
    moreover have "c \<noteq> CHR ''K''"
      using c by (simp add: digit_not_special)
    ultimately have k: "CHR ''K'' \<notin> set (c # body)"
      by (simp add: b)
    have "isDigit 10 (last (showNat (length t)))"
      using showNat_digits showNat_nonempty by (rule digits_last)
    then have l: "isDigit 10 (last (c # body))"
      using showNat_nonempty [of "length t"] by (simp add: b)
    from u k l show ?thesis
      by blast
  qed
  then have u: "unsignedDecimal (c # body) = Some (Fin a, [])"
    and k: "CHR ''K'' \<notin> set (c # body)" and l: "isDigit 10 (last (c # body))"
    by blast+
  have p: "parseFloat_str (printNumber x) = Fin x"
    using parseFloat_str_signed [OF u c] sign by (simp add: pn split: if_splits)
  have kk: "CHR ''K'' \<notin> set (printNumber x)"
    using k by (simp add: pn)
  have tr: "trim (printNumber x) = printNumber x"
    using trim_signed [OF c l] by (simp add: pn)
  from p kk tr show ?thesis
    by blast
qed

lemma faithful_sampleEngine: "faithful sampleEngine"
proof -
  have "readsBack sampleEngine (Num (Fin x)) \<and> readsBackStripped sampleEngine (Num (Fin x))"
    if dec: "decimal x" for x
  proof (cases "x = of_int \<lfloor>x\<rfloor> \<and> \<bar>x\<bar> < 10 ^ 21")
    case True
    then have "plainNumber (Num (Fin x))"
      by (simp add: plainNumber_def)
    then show ?thesis
      by (rule plainNumber_readsBack)
  next
    case False
    then have s: "numberToString sampleEngine (Fin x) = printNumber x"
      unfolding numberToString_def sampleEngine_def by auto
    from printNumber_reads [OF dec False] have p: "parseFloat_str (printNumber x) = Fin x"
      and k: "CHR ''K'' \<notin> set (printNumber x)" and t: "trim (printNumber x) = printNumber x"
      by blast+
    from k have "replace ''K'' [] (printNumber x) = printNumber x"
      by (rule replace_K_absent)
    with p t show ?thesis
      by (simp add: readsBack_def readsBackStripped_def parseFloat_def s)
  qed
  then show ?thesis
    unfolding faithful_def by blast
qed

lemma faithful_parsed:
  assumes "faithful E"
  shows "readsBack E (Num (parseFloat_str s)) \<and> readsBackStripped E (Num (parseFloat_str s))"
proof (cases "parseFloat_str s")
  case (Fin x)
  then have "decimal x"
    by (rule parseFloat_str_decimal)
  with assms show ?thesis
    unfolding Fin faithful_def by blast
qed (simp_all add: plainNumber_readsBack plainNumber_def)

lemma faithful_or_zero:
  assumes "faithful E"
  shows "readsBack E (js_or (Num (parseFloat E v)) (Num (Fin 0)))"
proof (cases "parseFloat E v = NaN")
  case True
  have "plainNumber (Num (Fin 0))"
    by (simp add: plainNumber_def)
  then have "readsBack E (Num (Fin 0))"
    using plainNumber_readsBack by blast
  with True show ?thesis
    by (simp add: js_or_number)
next
  case False
  then show ?thesis
    using faithful_parsed [OF assms, of "toString E v"] by (simp add: js_or_number parseFloat_def)
qed

subsection \<open>Normalizing twice\<close>

lemma Math_floor_idem: "Math_floor (Math_floor n) = Math_floor n"
  by (cases n) simp_all

lemma normalizeTimestamp_floor: "Math_floor (normalizeTimestamp E v) = normalizeTimestamp E v"
  by (simp add: normalizeTimestamp_eq Math_floor_idem)

lemma normalizeTimestamp_idem:
  "normalizeTimestamp E (Num (normalizeTimestamp E v)) = normalizeTimestamp E v"
  using normalizeTimestamp_not_NaN [of E v]
  by (subst normalizeTimestamp_eq) (simp add: normalizeTimestamp_floor)

lemma parseInt_cases: "parseInt E v = NaN \<or> (\<exists>x. parseInt E v = Fin x)"
  by (simp add: parseInt_def parseInt_str_def Let_def)

lemma sensor_row_eq:
  "normalizeSensorRow E r =
     [(''machine_id'', get (normalizeSensorRow E r) ''machine_id''),
      (''temperature'', get (normalizeSensorRow E r) ''temperature''),
      (''vibration'', get (normalizeSensorRow E r) ''vibration''),
      (''timestamp'', get (normalizeSensorRow E r) ''timestamp'')]"
  by (simp add: normalizeSensorRow_def get_def)

text \<open>On a faithful engine a second normalization of a reading keeps the temperature,
  the vibration and the time.\<close>

lemma sensor_second_pass:
  assumes f: "faithful E"
  shows "get (normalizeSensorRow E (normalizeSensorRow E r)) ''temperature'' =
           get (normalizeSensorRow E r) ''temperature''"
    and "get (normalizeSensorRow E (normalizeSensorRow E r)) ''vibration'' =
           get (normalizeSensorRow E r) ''vibration''"
    and "get (normalizeSensorRow E (normalizeSensorRow E r)) ''timestamp'' =
           get (normalizeSensorRow E r) ''timestamp''"
proof -
  let ?r1 = "normalizeSensorRow E r"
  obtain t where t: "get ?r1 ''temperature'' = Num t" "t \<noteq> NaN"
    by (simp add: sensor_temperature js_or_number)
  obtain v where v: "get ?r1 ''vibration'' = Num v" "v \<noteq> NaN"
    by (simp add: sensor_vibration js_or_number)
  have "readsBack E (get ?r1 ''temperature'')"
    unfolding sensor_temperature using f by (rule faithful_or_zero)
  with t have "parseFloat E (Num t) = t"
    by (simp add: readsBack_def)
  with t show "get (normalizeSensorRow E ?r1) ''temperature'' = get ?r1 ''temperature''"
    by (subst sensor_temperature) (simp add: js_or_number)
  have "readsBack E (get ?r1 ''vibration'')"
    unfolding sensor_vibration using f by (rule faithful_or_zero)
  with v have "parseFloat E (Num v) = v"
    by (simp add: readsBack_def)
  with v show "get (normalizeSensorRow E ?r1) ''vibration'' = get ?r1 ''vibration''"
    by (subst sensor_vibration) (simp add: js_or_number)
  show "get (normalizeSensorRow E ?r1) ''timestamp'' = get ?r1 ''timestamp''"
    by (subst sensor_timestamp) (simp add: sensor_timestamp normalizeTimestamp_idem)
qed

lemma sensor_idempotent_iff:
  assumes f: "faithful E"
  shows "normalizeSensorRow E (normalizeSensorRow E r) = normalizeSensorRow E r \<longleftrightarrow>
     get (normalizeSensorRow E (normalizeSensorRow E r)) ''machine_id'' =
       get (normalizeSensorRow E r) ''machine_id''"
proof
  assume "normalizeSensorRow E (normalizeSensorRow E r) = normalizeSensorRow E r"
  then show "get (normalizeSensorRow E (normalizeSensorRow E r)) ''machine_id'' =
      get (normalizeSensorRow E r) ''machine_id''"
    by simp
next
  assume 1: "get (normalizeSensorRow E (normalizeSensorRow E r)) ''machine_id'' =
      get (normalizeSensorRow E r) ''machine_id''"
  note 2 = sensor_second_pass [OF f, of r]
  show "normalizeSensorRow E (normalizeSensorRow E r) = normalizeSensorRow E r"
    by (subst sensor_row_eq) (simp only: 1 2 sensor_row_eq [symmetric])
qed

lemma sensor_idempotent:
  assumes f: "faithful E" and st: "sensorStable E r"
  shows "normalizeSensorRow E (normalizeSensorRow E r) = normalizeSensorRow E r"
proof -
  let ?r1 = "normalizeSensorRow E r"
  obtain m where m: "get ?r1 ''machine_id'' = Num (Fin m)"
    using parseInt_cases [of E "get r ''machine_id''"]
    by (auto simp: sensor_machine_id js_or_number)
  from st m have "parseInt E (Num (Fin m)) = Fin m"
    by (simp add: sensorStable_def plainNumber_parseInt)
  then have "get (normalizeSensorRow E ?r1) ''machine_id'' = get ?r1 ''machine_id''"
    by (subst sensor_machine_id) (simp add: m js_or_number)
  then show ?thesis
    by (simp only: sensor_idempotent_iff [OF f])
qed

lemma alert_vibration_eq:
  "get (normalizeAlertRow E r) ''vibration'' =
     (let vib = js_or (get r ''Vibration'') (get r ''vibration'')
      in if vib \<noteq> Null \<and> vib \<noteq> Undefined \<and> \<not> isNaN vib then Num (parseFloat E vib) else Null)"
  by (simp add: normalizeAlertRow_def get_def Let_def)

lemma alert_row_eq:
  "normalizeAlertRow E r =
     [(''machine_id'', get (normalizeAlertRow E r) ''machine_id''),
      (''timestamp'', get (normalizeAlertRow E r) ''timestamp''),
      (''temperature'', get (normalizeAlertRow E r) ''temperature''),
      (''vibration'', get (normalizeAlertRow E r) ''vibration''),
      (''Alert'', get (normalizeAlertRow E r) ''Alert''),
      (''alert_type'', get (normalizeAlertRow E r) ''alert_type'')]"
  by (simp add: normalizeAlertRow_def get_def Let_def)

lemma alert_row_absent:
  "get (normalizeAlertRow E r) ''Machine'' = Undefined"
  "get (normalizeAlertRow E r) ''Time'' = Undefined"
  "get (normalizeAlertRow E r) ''Temp'' = Undefined"
  "get (normalizeAlertRow E r) ''Vibration'' = Undefined"
  "get (normalizeAlertRow E r) ''alert'' = Undefined"
  by (simp_all add: normalizeAlertRow_def get_def Let_def)

lemma alert_Alert_truthy: "truthy (get (normalizeAlertRow E r) ''Alert'')"
  by (simp add: alert_Alert_eq)

lemma parseFloat_str_empty: "parseFloat_str [] = NaN"
  by (simp add: parseFloat_str_def decimalLiteral_def unsignedDecimal_def)

text \<open>What a second normalization does to each field of an alert: the machine, the time
  and the label stay; \<open>alert_type\<close> becomes the label; on a faithful engine the
  temperature stays unless it is 0, and the vibration stays unless it is \<open>NaN\<close>; these
  two become null.\<close>

lemma alert_second_pass:
  shows "get (normalizeAlertRow E (normalizeAlertRow E r)) ''machine_id'' =
           get (normalizeAlertRow E r) ''machine_id''"
    and "get (normalizeAlertRow E (normalizeAlertRow E r)) ''timestamp'' =
           get (normalizeAlertRow E r) ''timestamp''"
    and "get (normalizeAlertRow E (normalizeAlertRow E r)) ''Alert'' =
           get (normalizeAlertRow E r) ''Alert''"
    and "get (normalizeAlertRow E (normalizeAlertRow E r)) ''alert_type'' =
           get (normalizeAlertRow E r) ''Alert''"
proof -
  let ?r1 = "normalizeAlertRow E r"
  show "get (normalizeAlertRow E ?r1) ''machine_id'' = get ?r1 ''machine_id''"
    by (subst alert_machine_id_eq) (simp add: alert_row_absent alert_machine_id_eq)
  show "get (normalizeAlertRow E ?r1) ''timestamp'' = get ?r1 ''timestamp''"
    by (subst alert_timestamp_eq) (simp add: alert_row_absent alert_timestamp_eq)
  show "get (normalizeAlertRow E ?r1) ''Alert'' = get ?r1 ''Alert''"
    by (subst alert_Alert_eq) (simp add: alert_Alert_truthy)
  show "get (normalizeAlertRow E ?r1) ''alert_type'' = get ?r1 ''Alert''"
    by (subst alert_alert_type_eq) (simp add: alert_Alert_truthy)
qed

lemma alert_second_temperature:
  assumes f: "faithful E"
  shows "get (normalizeAlertRow E (normalizeAlertRow E r)) ''temperature'' =
     (if get (normalizeAlertRow E r) ''temperature'' = Num (Fin 0) then Null
      else get (normalizeAlertRow E r) ''temperature'')"
proof -
  let ?r1 = "normalizeAlertRow E r"
  show ?thesis
  proof (cases "get ?r1 ''temperature'' = Null \<or> get ?r1 ''temperature'' = Num (Fin 0)")
    case True
    then have "\<not> truthy (get ?r1 ''temperature'')"
      by auto
    then have "tempStrOf E ?r1 = []"
      by (simp add: tempStrOf_falsy alert_row_absent)
    with True show ?thesis
      by (subst alert_temperature_eq) auto
  next
    case False
    then obtain n where n: "get ?r1 ''temperature'' = Num n" "n \<noteq> NaN"
      and p: "n = parseFloat_str (tempStrOf E r)"
      by (auto simp: alert_temperature_eq split: if_splits)
    from False n have z: "n \<noteq> Fin 0"
      by simp
    have "readsBackStripped E (Num n)"
      unfolding p using faithful_parsed [OF f] by blast
    then have rb: "parseFloat_str (trim (replace ''K'' [] (numberToString E n))) = n"
      by (simp add: readsBackStripped_def)
    from n z have s: "tempStrOf E ?r1 = trim (replace ''K'' [] (numberToString E n))"
      by (simp add: tempStrOf_def alert_row_absent js_or_def)
    from rb n have "tempStrOf E ?r1 \<noteq> []"
      unfolding s using parseFloat_str_empty by auto
    with rb n z show ?thesis
      by (subst alert_temperature_eq) (simp add: s)
  qed
qed

lemma alert_second_vibration:
  assumes f: "faithful E"
  shows "get (normalizeAlertRow E (normalizeAlertRow E r)) ''vibration'' =
     (if get (normalizeAlertRow E r) ''vibration'' = Num NaN then Null
      else get (normalizeAlertRow E r) ''vibration'')"
proof -
  let ?r1 = "normalizeAlertRow E r"
  show ?thesis
  proof (cases "get ?r1 ''vibration'' = Null")
    case True
    then show ?thesis
      by (subst alert_vibration_eq) (simp add: alert_row_absent js_or_def)
  next
    case False
    then obtain v where n: "get ?r1 ''vibration'' = Num (parseFloat E v)"
      by (auto simp: alert_vibration_eq Let_def split: if_splits)
    have "readsBack E (Num (parseFloat E v))"
      unfolding parseFloat_def [of E v] using faithful_parsed [OF f] by blast
    then have rb: "parseFloat E (Num (parseFloat E v)) = parseFloat E v"
      by (simp add: readsBack_def)
    show ?thesis
      by (subst alert_vibration_eq) (simp add: n rb alert_row_absent js_or_def isNaN_def)
  qed
qed

lemma alert_idempotent_iff:
  assumes f: "faithful E"
  shows "normalizeAlertRow E (normalizeAlertRow E r) = normalizeAlertRow E r \<longleftrightarrow>
     alertStable E r"
proof
  let ?r1 = "normalizeAlertRow E r"
  assume e: "normalizeAlertRow E ?r1 = ?r1"
  have t: "get ?r1 ''temperature'' \<noteq> Num (Fin 0)"
    using alert_second_temperature [OF f, of r] unfolding e by (auto split: if_splits)
  have v: "get ?r1 ''vibration'' \<noteq> Num NaN"
    using alert_second_vibration [OF f, of r] unfolding e by (auto split: if_splits)
  have l: "get ?r1 ''alert_type'' = get ?r1 ''Alert''"
    using alert_second_pass(4) [of E r] unfolding e .
  from t v l show "alertStable E r"
    by (simp add: alertStable_def)
next
  let ?r1 = "normalizeAlertRow E r"
  assume st: "alertStable E r"
  note 1 = alert_second_pass(1-3) [of E r]
  have 2: "get (normalizeAlertRow E ?r1) ''alert_type'' = get ?r1 ''alert_type''"
    using st by (simp add: alert_second_pass(4) alertStable_def)
  have 3: "get (normalizeAlertRow E ?r1) ''temperature'' = get ?r1 ''temperature''"
    using st by (simp add: alert_second_temperature [OF f] alertStable_def)
  have 4: "get (normalizeAlertRow E ?r1) ''vibration'' = get ?r1 ''vibration''"
    using st by (simp add: alert_second_vibration [OF f] alertStable_def)
  show "normalizeAlertRow E ?r1 = ?r1"
    by (subst alert_row_eq) (simp only: 1 2 3 4 alert_row_eq [symmetric])
qed

lemma normalizeData_sensor_idempotent:
  assumes "faithful E" "\<not> str_includes fp ''alerts''" "list_all (sensorStable E) data"
  shows "normalizeData E (normalizeData E data fp) fp = normalizeData E data fp"
  using assms by (simp add: normalizeData_sensor list_all_iff sensor_idempotent)

lemma normalizeData_alerts_idempotent_iff:
  assumes "faithful E" "str_includes fp ''alerts''"
  shows "normalizeData E (normalizeData E data fp) fp = normalizeData E data fp \<longleftrightarrow>
     list_all (alertStable E) data"
  using assms by (simp add: normalizeData_alerts list_all_iff alert_idempotent_iff)

text \<open>The hypothesis on the engine cannot be left out: on an engine that prints a
  fraction as its integer part, which no JavaScript engine does, the reading 330.5
  becomes 330 in the second pass.\<close>

lemma blunt_engine_changes_reading:
  "\<not> faithful bluntEngine \<and>
   normalizeSensorRow bluntEngine
     [(''machine_id'', Num (Fin 1)), (''temperature'', Str ''330.5''),
      (''vibration'', Num (Fin 2100)), (''timestamp'', Num (Fin 5))] =
     [(''machine_id'', Num (Fin 1)), (''temperature'', Num (Fin (661 / 2))),
      (''vibration'', Num (Fin 2100)), (''timestamp'', Num (Fin 5))] \<and>
   normalizeSensorRow bluntEngine
     [(''machine_id'', Num (Fin 1)), (''temperature'', Num (Fin (661 / 2))),
      (''vibration'', Num (Fin 2100)), (''timestamp'', Num (Fin 5))] =
     [(''machine_id'', Num (Fin 1)), (''temperature'', Num (Fin 330)),
      (''vibration'', Num (Fin 2100)), (''timestamp'', Num (Fin 5))]"
proof -
  have p: "parseFloat bluntEngine (Num (Fin (661 / 2))) = Fin 330"
    by (simp add: bluntEngine_def showInt_def showNat.simps digitChar_def number_defs
        string_defs digitsValue_def digitValue_def)
  have "(661 / 2 :: real) * 10 ^ 1 = of_int 3305"
    by simp
  then have "decimal (661 / 2)"
    unfolding decimal_def by blast
  moreover have "\<not> readsBack bluntEngine (Num (Fin (661 / 2)))"
    by (simp add: readsBack_def p)
  ultimately have n: "\<not> faithful bluntEngine"
    unfolding faithful_def by blast
  have 1: "normalizeSensorRow bluntEngine
     [(''machine_id'', Num (Fin 1)), (''temperature'', Str ''330.5''),
      (''vibration'', Num (Fin 2100)), (''timestamp'', Num (Fin 5))] =
     [(''machine_id'', Num (Fin 1)), (''temperature'', Num (Fin (661 / 2))),
      (''vibration'', Num (Fin 2100)), (''timestamp'', Num (Fin 5))]"
    by (simp add: normalizeSensorRow_def get_def js_or_def normalizeTimestamp_eq number_defs
        string_defs digitsValue_def digitValue_def)
  have 2: "normalizeSensorRow bluntEngine
     [(''machine_id'', Num (Fin 1)), (''temperature'', Num (Fin (661 / 2))),
      (''vibration'', Num (Fin 2100)), (''timestamp'', Num (Fin 5))] =
     [(''machine_id'', Num (Fin 1)), (''temperature'', Num (Fin 330)),
      (''vibration'', Num (Fin 2100)), (''timestamp'', Num (Fin 5))]"
    by (simp add: normalizeSensorRow_def get_def js_or_def normalizeTimestamp_eq bluntEngine_def
        showInt_def showNat.simps digitChar_def number_defs string_defs digitsValue_def
        digitValue_def)
  from n 1 2 show ?thesis
    by blast
qed

text \<open>
  Claim C8, as the code has it. On an engine on which every number reads back from its
  printed form, as the language guarantees, normalizing a second time returns the first
  result for every sensor row whose normalized \<open>machine_id\<close> is below \<open>10^21\<close> in
  magnitude (no other field of a reading can change), and for exactly those alert rows
  whose normalized temperature is not 0, whose normalized vibration is not \<open>NaN\<close> and
  whose \<open>Alert\<close> and \<open>alert_type\<close> agree. The same holds of \<open>normalizeData\<close> on a list
  of rows.
\<close>

theorem normalizing_twice:
  "faithful E \<longrightarrow>
     (sensorStable E r \<longrightarrow>
        normalizeSensorRow E (normalizeSensorRow E r) = normalizeSensorRow E r) \<and>
     (normalizeSensorRow E (normalizeSensorRow E r) = normalizeSensorRow E r \<longleftrightarrow>
        get (normalizeSensorRow E (normalizeSensorRow E r)) ''machine_id'' =
          get (normalizeSensorRow E r) ''machine_id'') \<and>
     (normalizeAlertRow E (normalizeAlertRow E a) = normalizeAlertRow E a \<longleftrightarrow>
        alertStable E a) \<and>
     (\<not> str_includes fp ''alerts'' \<and> list_all (sensorStable E) data \<longrightarrow>
        normalizeData E (normalizeData E data fp) fp = normalizeData E data fp) \<and>
     (str_includes fp ''alerts'' \<longrightarrow>
        (normalizeData E (normalizeData E data fp) fp = normalizeData E data fp \<longleftrightarrow>
           list_all (alertStable E) data))"
  using sensor_idempotent [of E r] sensor_idempotent_iff [of E r]
    alert_idempotent_iff [of E a] normalizeData_sensor_idempotent [of E fp data]
    normalizeData_alerts_idempotent_iff [of E fp data]
  by blast

text \<open>The theorem on the example engine, which is faithful, at rows with fractions, a
  negative number and a number that is printed with an exponent: a second normalization
  changes neither file.\<close>

theorem normalizing_twice_witness:
  "faithful sampleEngine \<and>
   \<not> str_includes ''sensor_data'' ''alerts'' \<and> str_includes ''alerts'' ''alerts'' \<and>
   normalizeData sampleEngine fractionReadings ''sensor_data'' =
     [[(''machine_id'', Num (Fin 7)), (''temperature'', Num (Fin (661 / 2))),
       (''vibration'', Num (Fin (8401 / 4))), (''timestamp'', Num (Fin 1699920000))],
      [(''machine_id'', Num (Fin 8)), (''temperature'', Num (Fin (- (5 / 2)))),
       (''vibration'', Num (Fin 1000000000000000000000000000000)),
       (''timestamp'', Num (Fin 6))]] \<and>
   list_all (sensorStable sampleEngine) fractionReadings \<and>
   normalizeData sampleEngine (normalizeData sampleEngine fractionReadings ''sensor_data'')
     ''sensor_data'' = normalizeData sampleEngine fractionReadings ''sensor_data'' \<and>
   normalizeData sampleEngine fractionAlerts ''alerts'' =
     [[(''machine_id'', Num (Fin 1)), (''timestamp'', Num (Fin 5)),
       (''temperature'', Num (Fin (661 / 2))), (''vibration'', Num (Fin (8401 / 4))),
       (''Alert'', Str alertHighTemperature), (''alert_type'', Str alertHighTemperature)],
      [(''machine_id'', Num (Fin 2)), (''timestamp'', Num (Fin 6)),
       (''temperature'', Num (Fin (1 / 8))), (''vibration'', Num (Fin (3 / 4))),
       (''Alert'', Str alertNormal), (''alert_type'', Str alertNormal)]] \<and>
   list_all (alertStable sampleEngine) fractionAlerts \<and>
   normalizeData sampleEngine (normalizeData sampleEngine fractionAlerts ''alerts'')
     ''alerts'' = normalizeData sampleEngine fractionAlerts ''alerts'' \<and>
   numberToString sampleEngine (Fin (661 / 2)) = ''330.5'' \<and>
   numberToString sampleEngine (Fin (- (5 / 2))) = ''-2.5'' \<and>
   numberToString sampleEngine (Fin (1 / 8)) = ''0.125'' \<and>
   numberToString sampleEngine (Fin 1000000000000000000000000000000) = ''1e+30'' \<and>
   parseFloat sampleEngine (Num (Fin (661 / 2))) = Fin (661 / 2) \<and>
   parseFloat sampleEngine (Num (Fin 1000000000000000000000000000000)) =
     Fin 1000000000000000000000000000000"
proof -
  note print_defs = numberToString_def sampleEngine_def printNumber_def allDigits_def
    stripZeros_def decimalDigits.simps showNat.simps digitChar_def Let_def
  have fa: "faithful sampleEngine"
    by (rule faithful_sampleEngine)
  have f: "\<not> str_includes ''sensor_data'' ''alerts'' \<and> str_includes ''alerts'' ''alerts''"
    by simp
  have s1: "normalizeData sampleEngine fractionReadings ''sensor_data'' =
     [[(''machine_id'', Num (Fin 7)), (''temperature'', Num (Fin (661 / 2))),
       (''vibration'', Num (Fin (8401 / 4))), (''timestamp'', Num (Fin 1699920000))],
      [(''machine_id'', Num (Fin 8)), (''temperature'', Num (Fin (- (5 / 2)))),
       (''vibration'', Num (Fin 1000000000000000000000000000000)),
       (''timestamp'', Num (Fin 6))]]"
    by (simp add: normalizeData_def normalizeSensorRow_def fractionReadings_def get_def
        js_or_def normalizeTimestamp_eq number_defs string_defs date_defs print_defs)
  have s: "list_all (sensorStable sampleEngine) fractionReadings"
    by (simp add: fractionReadings_def sensorStable_def plainNumber_def normalizeSensorRow_def
        get_def js_or_def number_defs string_defs)
  have a1: "normalizeData sampleEngine fractionAlerts ''alerts'' =
     [[(''machine_id'', Num (Fin 1)), (''timestamp'', Num (Fin 5)),
       (''temperature'', Num (Fin (661 / 2))), (''vibration'', Num (Fin (8401 / 4))),
       (''Alert'', Str alertHighTemperature), (''alert_type'', Str alertHighTemperature)],
      [(''machine_id'', Num (Fin 2)), (''timestamp'', Num (Fin 6)),
       (''temperature'', Num (Fin (1 / 8))), (''vibration'', Num (Fin (3 / 4))),
       (''Alert'', Str alertNormal), (''alert_type'', Str alertNormal)]]"
    by (simp add: normalizeData_def normalizeAlertRow_def fractionAlerts_def
        alertHighTemperature_def alertNormal_def get_def js_or_def number_defs string_defs
        print_defs)
  have a: "list_all (alertStable sampleEngine) fractionAlerts"
    by (simp add: fractionAlerts_def alertStable_def normalizeAlertRow_def
        alertHighTemperature_def alertNormal_def get_def js_or_def number_defs string_defs
        print_defs)
  note t1 = normalizing_twice [of sampleEngine "hd fractionReadings" "hd fractionAlerts"
      "''sensor_data''" fractionReadings]
  note t2 = normalizing_twice [of sampleEngine "hd fractionReadings" "hd fractionAlerts"
      "''alerts''" fractionAlerts]
  from fa f s t1 have 1: "normalizeData sampleEngine
      (normalizeData sampleEngine fractionReadings ''sensor_data'') ''sensor_data'' =
      normalizeData sampleEngine fractionReadings ''sensor_data''"
    by blast
  from fa f a t2 have 2: "normalizeData sampleEngine
      (normalizeData sampleEngine fractionAlerts ''alerts'') ''alerts'' =
      normalizeData sampleEngine fractionAlerts ''alerts''"
    by blast
  have p1: "numberToString sampleEngine (Fin (661 / 2)) = ''330.5''"
    by (simp add: print_defs)
  have p2: "numberToString sampleEngine (Fin (- (5 / 2))) = ''-2.5''"
    by (simp add: print_defs)
  have p3: "numberToString sampleEngine (Fin (1 / 8)) = ''0.125''"
    by (simp add: print_defs)
  have p4: "numberToString sampleEngine (Fin 1000000000000000000000000000000) = ''1e+30''"
    by (simp add: print_defs)
  have r1: "parseFloat sampleEngine (Num (Fin (661 / 2))) = Fin (661 / 2)"
    unfolding parseFloat_def toString.simps p1 by (simp add: number_defs string_defs)
  have r4: "parseFloat sampleEngine (Num (Fin 1000000000000000000000000000000)) =
      Fin 1000000000000000000000000000000"
    unfolding parseFloat_def toString.simps p4 by (simp add: number_defs string_defs)
  from fa f s1 s 1 a1 a 2 p1 p2 p3 p4 r1 r4 show ?thesis
    by blast
qed

text \<open>Claim C8 as stated fails at four rows. The alert reading \<open>0K\<close> gives the
  temperature 0 and then, 0 being a falsy raw value, null. The alert vibration of one
  blank gives \<open>NaN\<close> and then null. An alert with \<open>alert_type\<close> and no label keeps its
  \<open>alert_type\<close> beside the label \<open>Unknown\<close>, and then has \<open>Unknown\<close> in both. The
  reading of machine \<open>1000000000000000000000\<close> gives \<open>10^21\<close>, which is printed as
  \<open>1e+21\<close>, and then 1.\<close>

theorem normalizing_twice_counterexample:
  "normalizeData sampleEngine
     [[(''Machine'', Num (Fin 1)), (''Time'', Num (Fin 5)), (''Temp'', Str ''0K''),
       (''Vibration'', Str ''2100''), (''Alert'', Str alertNormal)]] ''alerts'' =
     [[(''machine_id'', Num (Fin 1)), (''timestamp'', Num (Fin 5)),
       (''temperature'', Num (Fin 0)), (''vibration'', Num (Fin 2100)),
       (''Alert'', Str alertNormal), (''alert_type'', Str alertNormal)]] \<and>
   normalizeData sampleEngine
     [[(''machine_id'', Num (Fin 1)), (''timestamp'', Num (Fin 5)),
       (''temperature'', Num (Fin 0)), (''vibration'', Num (Fin 2100)),
       (''Alert'', Str alertNormal), (''alert_type'', Str alertNormal)]] ''alerts'' =
     [[(''machine_id'', Num (Fin 1)), (''timestamp'', Num (Fin 5)),
       (''temperature'', Null), (''vibration'', Num (Fin 2100)),
       (''Alert'', Str alertNormal), (''alert_type'', Str alertNormal)]] \<and>
   normalizeData sampleEngine
     [[(''Machine'', Num (Fin 1)), (''Time'', Num (Fin 5)), (''Temp'', Str ''330.0K''),
       (''Vibration'', Str '' ''), (''Alert'', Str alertNormal)]] ''alerts'' =
     [[(''machine_id'', Num (Fin 1)), (''timestamp'', Num (Fin 5)),
       (''temperature'', Num (Fin 330)), (''vibration'', Num NaN),
       (''Alert'', Str alertNormal), (''alert_type'', Str alertNormal)]] \<and>
   normalizeData sampleEngine
     [[(''machine_id'', Num (Fin 1)), (''timestamp'', Num (Fin 5)),
       (''temperature'', Num (Fin 330)), (''vibration'', Num NaN),
       (''Alert'', Str alertNormal), (''alert_type'', Str alertNormal)]] ''alerts'' =
     [[(''machine_id'', Num (Fin 1)), (''timestamp'', Num (Fin 5)),
       (''temperature'', Num (Fin 330)), (''vibration'', Null),
       (''Alert'', Str alertNormal), (''alert_type'', Str alertNormal)]] \<and>
   normalizeData sampleEngine
     [[(''machine_id'', Num (Fin 1)), (''timestamp'', Num (Fin 5)),
       (''temperature'', Num (Fin 330)), (''vibration'', Num (Fin 2100)),
       (''alert_type'', Str ''HIGH_TEMP'')]] ''alerts'' =
     [[(''machine_id'', Num (Fin 1)), (''timestamp'', Num (Fin 5)),
       (''temperature'', Num (Fin 330)), (''vibration'', Num (Fin 2100)),
       (''Alert'', Str ''Unknown''), (''alert_type'', Str ''HIGH_TEMP'')]] \<and>
   normalizeData sampleEngine
     [[(''machine_id'', Num (Fin 1)), (''timestamp'', Num (Fin 5)),
       (''temperature'', Num (Fin 330)), (''vibration'', Num (Fin 2100)),
       (''Alert'', Str ''Unknown''), (''alert_type'', Str ''HIGH_TEMP'')]] ''alerts'' =
     [[(''machine_id'', Num (Fin 1)), (''timestamp'', Num (Fin 5)),
       (''temperature'', Num (Fin 330)), (''vibration'', Num (Fin 2100)),
       (''Alert'', Str ''Unknown''), (''alert_type'', Str ''Unknown'')]] \<and>
   normalizeData sampleEngine
     [[(''machine_id'', Str ''1000000000000000000000''), (''temperature'', Num (Fin 330)),
       (''vibration'', Num (Fin 2100)), (''timestamp'', Num (Fin 5))]] ''sensor_data'' =
     [[(''machine_id'', Num (Fin 1000000000000000000000)), (''temperature'', Num (Fin 330)),
       (''vibration'', Num (Fin 2100)), (''timestamp'', Num (Fin 5))]] \<and>
   numberToString sampleEngine (Fin 1000000000000000000000) = ''1e+21'' \<and>
   normalizeData sampleEngine
     [[(''machine_id'', Num (Fin 1000000000000000000000)), (''temperature'', Num (Fin 330)),
       (''vibration'', Num (Fin 2100)), (''timestamp'', Num (Fin 5))]] ''sensor_data'' =
     [[(''machine_id'', Num (Fin 1)), (''temperature'', Num (Fin 330)),
       (''vibration'', Num (Fin 2100)), (''timestamp'', Num (Fin 5))]]"
proof -
  note print_defs = numberToString_def sampleEngine_def printNumber_def allDigits_def
    stripZeros_def decimalDigits.simps showNat.simps digitChar_def Let_def
  note alert_defs = normalizeData_def normalizeAlertRow_def alertNormal_def get_def js_or_def
    number_defs string_defs
  have 1: "normalizeData sampleEngine
     [[(''Machine'', Num (Fin 1)), (''Time'', Num (Fin 5)), (''Temp'', Str ''0K''),
       (''Vibration'', Str ''2100''), (''Alert'', Str alertNormal)]] ''alerts'' =
     [[(''machine_id'', Num (Fin 1)), (''timestamp'', Num (Fin 5)),
       (''temperature'', Num (Fin 0)), (''vibration'', Num (Fin 2100)),
       (''Alert'', Str alertNormal), (''alert_type'', Str alertNormal)]] \<and>
   normalizeData sampleEngine
     [[(''machine_id'', Num (Fin 1)), (''timestamp'', Num (Fin 5)),
       (''temperature'', Num (Fin 0)), (''vibration'', Num (Fin 2100)),
       (''Alert'', Str alertNormal), (''alert_type'', Str alertNormal)]] ''alerts'' =
     [[(''machine_id'', Num (Fin 1)), (''timestamp'', Num (Fin 5)),
       (''temperature'', Null), (''vibration'', Num (Fin 2100)),
       (''Alert'', Str alertNormal), (''alert_type'', Str alertNormal)]]"
    by (simp add: alert_defs)
  have 2: "normalizeData sampleEngine
     [[(''Machine'', Num (Fin 1)), (''Time'', Num (Fin 5)), (''Temp'', Str ''330.0K''),
       (''Vibration'', Str '' ''), (''Alert'', Str alertNormal)]] ''alerts'' =
     [[(''machine_id'', Num (Fin 1)), (''timestamp'', Num (Fin 5)),
       (''temperature'', Num (Fin 330)), (''vibration'', Num NaN),
       (''Alert'', Str alertNormal), (''alert_type'', Str alertNormal)]] \<and>
   normalizeData sampleEngine
     [[(''machine_id'', Num (Fin 1)), (''timestamp'', Num (Fin 5)),
       (''temperature'', Num (Fin 330)), (''vibration'', Num NaN),
       (''Alert'', Str alertNormal), (''alert_type'', Str alertNormal)]] ''alerts'' =
     [[(''machine_id'', Num (Fin 1)), (''timestamp'', Num (Fin 5)),
       (''temperature'', Num (Fin 330)), (''vibration'', Null),
       (''Alert'', Str alertNormal), (''alert_type'', Str alertNormal)]]"
    by (simp add: alert_defs)
  have 3: "normalizeData sampleEngine
     [[(''machine_id'', Num (Fin 1)), (''timestamp'', Num (Fin 5)),
       (''temperature'', Num (Fin 330)), (''vibration'', Num (Fin 2100)),
       (''alert_type'', Str ''HIGH_TEMP'')]] ''alerts'' =
     [[(''machine_id'', Num (Fin 1)), (''timestamp'', Num (Fin 5)),
       (''temperature'', Num (Fin 330)), (''vibration'', Num (Fin 2100)),
       (''Alert'', Str ''Unknown''), (''alert_type'', Str ''HIGH_TEMP'')]] \<and>
   normalizeData sampleEngine
     [[(''machine_id'', Num (Fin 1)), (''timestamp'', Num (Fin 5)),
       (''temperature'', Num (Fin 330)), (''vibration'', Num (Fin 2100)),
       (''Alert'', Str ''Unknown''), (''alert_type'', Str ''HIGH_TEMP'')]] ''alerts'' =
     [[(''machine_id'', Num (Fin 1)), (''timestamp'', Num (Fin 5)),
       (''temperature'', Num (Fin 330)), (''vibration'', Num (Fin 2100)),
       (''Alert'', Str ''Unknown''), (''alert_type'', Str ''Unknown'')]]"
    by (simp add: alert_defs)
  have 4: "normalizeData sampleEngine
     [[(''machine_id'', Str ''1000000000000000000000''), (''temperature'', Num (Fin 330)),
       (''vibration'', Num (Fin 2100)), (''timestamp'', Num (Fin 5))]] ''sensor_data'' =
     [[(''machine_id'', Num (Fin 1000000000000000000000)), (''temperature'', Num (Fin 330)),
       (''vibration'', Num (Fin 2100)), (''timestamp'', Num (Fin 5))]]"
    by (simp add: normalizeData_def normalizeSensorRow_def get_def js_or_def
        normalizeTimestamp_eq number_defs string_defs digitsValue_def digitValue_def)
  have 5: "numberToString sampleEngine (Fin 1000000000000000000000) = ''1e+21''"
    by (simp add: print_defs)
  have 6: "normalizeData sampleEngine
     [[(''machine_id'', Num (Fin 1000000000000000000000)), (''temperature'', Num (Fin 330)),
       (''vibration'', Num (Fin 2100)), (''timestamp'', Num (Fin 5))]] ''sensor_data'' =
     [[(''machine_id'', Num (Fin 1)), (''temperature'', Num (Fin 330)),
       (''vibration'', Num (Fin 2100)), (''timestamp'', Num (Fin 5))]]"
    by (simp add: normalizeData_def normalizeSensorRow_def get_def js_or_def
        normalizeTimestamp_eq number_defs string_defs print_defs digitsValue_def
        digitValue_def)
  from 1 2 3 4 5 6 show ?thesis
    by blast
qed

end
